(* ===== verification/Prelude.thy ===== *)
theory Prelude
  imports Main "HOL-Library.List_Lexorder" "HOL-Library.Char_ord" "HOL-Library.Product_Lexorder"
begin

text \<open>
  Shared vocabulary of the development: the collections of rewrite rules that the
  component theories fill, the names of the model's basic types, and generic lemmas on
  lists, options and maps that several components use.  Strings are \<open>char list\<close>s
  whose characters are bytes; their order is the lexicographic byte order of
  \<open>List_Lexorder\<close>, which is also the order in which the key-value store sorts its
  keys.
\<close>

named_theorems js_simps "evaluation rules of the JavaScript runtime model"
named_theorems store_simps "behaviour of the key-value store operations"

type_synonym user_id = string
type_synonym todo_id = string
type_synonym key = "user_id \<times> todo_id"

subsection \<open>Sorted association lists\<close>

text \<open>
  A list strictly sorted by a key function has pairwise distinct keys; filtering keeps
  it sorted; lookup by \<open>find\<close> on such a list is the lookup of the corresponding map.
\<close>

lemma sorted_key_distinct:
  "sorted_wrt (\<lambda>r s. f r < (f s :: 'k :: linorder)) xs \<Longrightarrow> distinct (map f xs)"
  by (induction xs) (auto dest: less_imp_neq)

lemma find_map_of_key:
  "find (\<lambda>r. f r = k) xs = map_of (map (\<lambda>r. (f r, r)) xs) k"
  by (induction xs) auto

lemma find_filter_other [simp]:
  "P k \<Longrightarrow> find (\<lambda>r. f r = k) (filter (\<lambda>r. P (f r)) xs) = find (\<lambda>r. f r = k) xs"
  by (induction xs) auto

lemma find_filter_same [simp]:
  "find (\<lambda>r. f r = k) (filter (\<lambda>r. f r \<noteq> k) xs) = None"
  by (induction xs) auto

end
