(* ===== verification/JsRuntime.thy ===== *)
theory JsRuntime
  imports Prelude
begin

text \<open>
  The parts of the JavaScript runtime the sources call on strings: \<open>String.prototype.split\<close>
  with a one-character separator, \<open>Array.prototype.join\<close>, array indexing (which yields
  \<open>undefined\<close> out of range), \<open>toLowerCase\<close>, \<open>startsWith\<close>, the truthiness test
  \<open>!s\<close> of a possibly undefined string, and the global \<open>parseInt\<close>.  They are modelled
  from the ECMAScript specification; a string is a list of bytes and \<open>toLowerCase\<close> maps
  the ASCII letters only (the one string the sources compare it with, \<open>bearer \<close>,
  contains no letter that a non-ASCII character lowercases to).
\<close>

subsection \<open>split and join\<close>

fun js_split :: "char \<Rightarrow> string \<Rightarrow> string list" where
  "js_split c [] = [[]]"
| "js_split c (x # xs) =
     (let ps = js_split c xs in if x = c then [] # ps else (x # hd ps) # tl ps)"

fun js_join :: "char \<Rightarrow> string list \<Rightarrow> string" where
  "js_join c [] = []"
| "js_join c [p] = p"
| "js_join c (p # ps) = p @ c # js_join c ps"

definition js_index :: "'a list \<Rightarrow> nat \<Rightarrow> 'a option" where
  "js_index xs i = (if i < length xs then Some (xs ! i) else None)"

subsection \<open>Lower case, prefixes and truthiness\<close>

definition js_lower_char :: "char \<Rightarrow> char" where
  "js_lower_char c =
     (if CHR ''A'' \<le> c \<and> c \<le> CHR ''Z'' then char_of (of_char c + (32::nat)) else c)"

definition js_toLowerCase :: "string \<Rightarrow> string" where
  "js_toLowerCase s = map js_lower_char s"

definition js_startsWith :: "string \<Rightarrow> string \<Rightarrow> bool" where
  "js_startsWith s p \<longleftrightarrow> take (length p) s = p"

text \<open>\<open>!s\<close> for a value that is a string or \<open>undefined\<close> (\<open>None\<close>).\<close>

definition js_falsy_str :: "string option \<Rightarrow> bool" where
  "js_falsy_str v \<longleftrightarrow> (case v of None \<Rightarrow> True | Some s \<Rightarrow> s = [])"

subsection \<open>Decimal rendering and parseInt\<close>

text \<open>\<open>String(n)\<close> for a non-negative integer: its decimal digits.\<close>

definition digit_char :: "nat \<Rightarrow> char" where
  "digit_char d = char_of (48 + d)"

fun dec_string :: "nat \<Rightarrow> string" where
  "dec_string n = (if n < 10 then [digit_char n] else dec_string (n div 10) @ [digit_char (n mod 10)])"

declare dec_string.simps [simp del]

text \<open>
  \<open>parseInt(string)\<close> with no radix (ECMAScript, global parseInt): leading white space
  is skipped, one sign is read, a \<open>0x\<close>/\<open>0X\<close> prefix selects radix 16, and the
  longest prefix of digits of the radix is read; no digit at all gives \<open>NaN\<close>,
  modelled as \<open>None\<close>.  The result is kept as an unbounded integer (a double is exact
  below \<open>2^53\<close>); \<open>-0\<close> is \<open>0\<close>.
\<close>

definition js_whitespace :: "char \<Rightarrow> bool" where
  "js_whitespace c \<longleftrightarrow> of_char c \<in> {9, 10, 11, 12, 13, 32 :: nat}"

definition digit_value :: "char \<Rightarrow> nat option" where
  "digit_value c =
     (let n = of_char c :: nat in
      if 48 \<le> n \<and> n \<le> 57 then Some (n - 48)
      else if 97 \<le> n \<and> n \<le> 122 then Some (n - 87)
      else if 65 \<le> n \<and> n \<le> 90 then Some (n - 55)
      else None)"

definition radix_digit :: "nat \<Rightarrow> char \<Rightarrow> bool" where
  "radix_digit r c \<longleftrightarrow> (case digit_value c of None \<Rightarrow> False | Some d \<Rightarrow> d < r)"

definition digits_val :: "nat \<Rightarrow> string \<Rightarrow> nat" where
  "digits_val r ds = foldl (\<lambda>acc c. acc * r + the (digit_value c)) 0 ds"

definition js_parseInt :: "string \<Rightarrow> int option" where
  "js_parseInt str =
     (let s1 = dropWhile js_whitespace str;
          sign = (if s1 \<noteq> [] \<and> hd s1 = CHR ''-'' then -1 else 1 :: int);
          s2 = (if s1 \<noteq> [] \<and> (hd s1 = CHR ''+'' \<or> hd s1 = CHR ''-'') then tl s1 else s1);
          (r, s3) = (if take 2 s2 = ''0x'' \<or> take 2 s2 = ''0X'' then (16, drop 2 s2) else (10, s2));
          z = takeWhile (radix_digit r) s3
      in if z = [] then None else Some (sign * int (digits_val r z)))"

subsection \<open>Properties of the string operations\<close>

lemma js_split_nonempty [simp]: "js_split c s \<noteq> []"
  by (cases s) (simp_all add: Let_def)

lemma js_split_Cons [js_simps]:
  "js_split c (x # xs) =
     (if x = c then [] # js_split c xs
      else (x # hd (js_split c xs)) # tl (js_split c xs))"
  by (simp add: Let_def)

lemma js_index_Cons [js_simps]:
  "js_index (x # xs) 0 = Some x" "js_index (x # xs) (Suc i) = js_index xs i"
  by (simp_all add: js_index_def)

lemma js_index_Nil [js_simps]: "js_index [] i = None"
  by (simp add: js_index_def)

lemma js_join_Cons_Cons [simp]:
  "js_join c (p # q # ps) = p @ c # js_join c (q # ps)"
  by simp

lemma js_join_split_head:
  "ps \<noteq> [] \<Longrightarrow> js_join c ((x # hd ps) # tl ps) = x # js_join c ps"
  by (cases ps; cases "tl ps") auto

lemma js_split_no_sep: "p \<in> set (js_split c s) \<Longrightarrow> c \<notin> set p"
proof (induction s arbitrary: p)
  case Nil
  then show ?case by simp
next
  case (Cons x xs)
  then show ?case
    by (cases "js_split c xs") (auto simp: Let_def split: if_splits)
qed

lemma js_split_no_sep_single: "c \<notin> set s \<Longrightarrow> js_split c s = [s]"
  by (induction s) (auto simp: Let_def)

lemma js_split_append_sep:
  "c \<notin> set p \<Longrightarrow> js_split c (p @ c # s) = p # js_split c s"
  by (induction p) (auto simp: Let_def)

lemma js_join_Cons_nonempty:
  "ps \<noteq> [] \<Longrightarrow> js_join c (p # ps) = p @ c # js_join c ps"
  by (cases ps) auto

text \<open>Joining the pieces of a split with the separator gives the string back, and
  splitting a join of separator-free pieces gives the pieces back.\<close>

theorem js_join_split: "js_join c (js_split c s) = s"
proof (induction s)
  case Nil
  then show ?case by simp
next
  case (Cons x xs)
  then show ?case
    by (simp add: Let_def js_join_Cons_nonempty js_join_split_head)
qed

theorem js_split_join:
  "ps \<noteq> [] \<Longrightarrow> \<forall>p \<in> set ps. c \<notin> set p \<Longrightarrow> js_split c (js_join c ps) = ps"
proof (induction ps)
  case Nil
  then show ?case by simp
next
  case (Cons p ps)
  then show ?case
    by (cases "ps = []") (simp_all add: js_split_no_sep_single js_join_Cons_nonempty js_split_append_sep)
qed

lemma js_startsWith_append [js_simps]: "js_startsWith (p @ s) p"
  by (simp add: js_startsWith_def)

lemma js_startsWith_iff: "js_startsWith s p \<longleftrightarrow> (\<exists>r. s = p @ r)"
  unfolding js_startsWith_def by (metis append_eq_conv_conj append_take_drop_id)

lemma digit_value_digit_char [simp]: "d < 10 \<Longrightarrow> digit_value (digit_char d) = Some d"
  by (simp add: digit_value_def digit_char_def)

lemma radix_digit_digit_char: "d < 10 \<Longrightarrow> radix_digit 10 (digit_char d)"
  by (simp add: radix_digit_def)

lemma radix10_not_special:
  "radix_digit 10 c \<Longrightarrow> \<not> js_whitespace c \<and> c \<noteq> CHR ''+'' \<and> c \<noteq> CHR ''-'' \<and> c \<noteq> CHR ''x'' \<and> c \<noteq> CHR ''X''"
  by (auto simp: radix_digit_def digit_value_def js_whitespace_def Let_def split: if_splits)

lemma dec_string_digits: "c \<in> set (dec_string n) \<Longrightarrow> radix_digit 10 c"
proof (induction n rule: dec_string.induct)
  case (1 n)
  have "n mod 10 < 10" by simp
  with 1 show ?case
    by (cases "n < 10") (auto simp: dec_string.simps [of n] radix_digit_digit_char)
qed

lemma digits_val_snoc: "digits_val r (xs @ [c]) = digits_val r xs * r + the (digit_value c)"
  by (simp add: digits_val_def)

lemma length_dec_string: "n < 10 ^ k \<Longrightarrow> 0 < k \<Longrightarrow> length (dec_string n) \<le> k"
proof (induction n arbitrary: k rule: dec_string.induct)
  case (1 n)
  show ?case
  proof (cases "n < 10")
    case True
    with "1.prems" show ?thesis by (simp add: dec_string.simps [of n])
  next
    case False
    then obtain k' where k: "k = Suc k'" using "1.prems" by (cases k) auto
    with False "1.prems" have "n div 10 < 10 ^ k'" by (simp add: div_less_iff_less_mult mult.commute)
    moreover have "0 < k'" using False "1.prems" k by (cases k') auto
    ultimately have "length (dec_string (n div 10)) \<le> k'" using "1.IH" False by simp
    with False k show ?thesis by (simp add: dec_string.simps [of n])
  qed
qed

lemma digits_val_dec_string: "digits_val 10 (dec_string n) = n"
proof (induction n rule: dec_string.induct)
  case (1 n)
  show ?case
  proof (cases "n < 10")
    case True
    then show ?thesis by (simp add: dec_string.simps [of n] digits_val_def)
  next
    case False
    with "1.IH" show ?thesis by (simp add: dec_string.simps [of n] digits_val_snoc)
  qed
qed

lemma dec_string_nonempty [simp]: "dec_string n \<noteq> []"
  by (subst dec_string.simps) simp

theorem js_parseInt_dec_string: "js_parseInt (dec_string n) = Some (int n)"
proof -
  let ?s = "dec_string n"
  have dig: "\<forall>c\<in>set ?s. radix_digit 10 c" using dec_string_digits by blast
  obtain c cs where s: "?s = c # cs" by (cases ?s) auto
  have c: "radix_digit 10 c" using dig s by simp
  have d1: "dropWhile js_whitespace ?s = ?s"
    using c radix10_not_special by (simp add: s)
  have sg: "\<not> (hd ?s = CHR ''+'' \<or> hd ?s = CHR ''-'')"
    using c radix10_not_special by (simp add: s)
  have x: "\<not> (take 2 ?s = ''0x'' \<or> take 2 ?s = ''0X'')"
  proof (cases cs)
    case Nil then show ?thesis by (simp add: s)
  next
    case (Cons c' cs')
    with dig s have "radix_digit 10 c'" by simp
    with Cons s radix10_not_special show ?thesis by auto
  qed
  have tw: "takeWhile (radix_digit 10) ?s = ?s"
    using dig by (simp add: takeWhile_eq_all_conv)
  show ?thesis
    using d1 sg x by (simp add: js_parseInt_def Let_def digits_val_dec_string tw)
qed

end
