(* ===== verification/Clock.thy ===== *)
theory Clock
  imports JsRuntime
begin

text \<open>
  Time as the program sees it.  \<open>new Date()\<close> is the time value of the world's clock,
  milliseconds since 1970-01-01T00:00:00Z (a \<open>nat\<close>: the clock never reads before the
  epoch).  \<open>Date.prototype.toISOString\<close> splits it into calendar fields by the
  ECMAScript definitions (\<open>Day\<close>, \<open>YearFromTime\<close>, \<open>MonthFromTime\<close>,
  \<open>DateFromTime\<close>): whole years are counted off from 1970, then whole months of that
  year.  A time value beyond \<open>8.64e15\<close> is an invalid date, for which
  \<open>toISOString\<close> throws a \<open>RangeError\<close> (\<open>None\<close> here).  The SigV4 signer of the
  storage SDK derives its \<open>X-Amz-Date\<close> from the same string by deleting \<open>:\<close>,
  \<open>-\<close> and the \<open>.sss\<close> milliseconds.
\<close>

definition ms_per_day :: nat where
  "ms_per_day = 86400000"

definition max_time :: nat where
  "max_time = 8640000000000000"

definition leap_year :: "nat \<Rightarrow> bool" where
  "leap_year y \<longleftrightarrow> y mod 4 = 0 \<and> (y mod 100 \<noteq> 0 \<or> y mod 400 = 0)"

definition days_in_year :: "nat \<Rightarrow> nat" where
  "days_in_year y = (if leap_year y then 366 else 365)"

definition days_in_month :: "nat \<Rightarrow> nat \<Rightarrow> nat" where
  "days_in_month y m =
     [31, if leap_year y then 29 else 28, 31, 30, 31, 30, 31, 31, 30, 31, 30, 31] ! m"

function year_from :: "nat \<Rightarrow> nat \<Rightarrow> nat \<times> nat" where
  "year_from y d =
     (if d < days_in_year y then (y, d) else year_from (Suc y) (d - days_in_year y))"
  by pat_completeness auto
termination
  by (relation "measure snd") (auto simp: days_in_year_def)

function month_from :: "nat \<Rightarrow> nat \<Rightarrow> nat \<Rightarrow> nat \<times> nat" where
  "month_from y m d =
     (if m < 11 \<and> days_in_month y m \<le> d then month_from y (Suc m) (d - days_in_month y m)
      else (m, d))"
  by pat_completeness auto
termination
  by (relation "measure (\<lambda>(y, m, d). 11 - m)") auto

declare year_from.simps [simp del] month_from.simps [simp del]

record date_fields =
  year :: nat
  month :: nat
  day :: nat
  hours :: nat
  minutes :: nat
  seconds :: nat
  millis :: nat

definition date_of_time :: "nat \<Rightarrow> date_fields" where
  "date_of_time t =
     (let (y, dy) = year_from 1970 (t div ms_per_day);
          (m, dm) = month_from y 0 dy;
          r = t mod ms_per_day
      in \<lparr>year = y, month = Suc m, day = Suc dm, hours = r div 3600000,
          minutes = r div 60000 mod 60, seconds = r div 1000 mod 60, millis = r mod 1000\<rparr>)"

definition pad :: "nat \<Rightarrow> nat \<Rightarrow> string" where
  "pad w n = (let s = dec_string n in replicate (w - length s) CHR ''0'' @ s)"

definition iso_year :: "nat \<Rightarrow> string" where
  "iso_year y = (if y \<le> 9999 then pad 4 y else CHR ''+'' # pad 6 y)"

definition js_toISOString :: "nat \<Rightarrow> string option" where
  "js_toISOString t =
     (if max_time < t then None
      else let f = date_of_time t in
        Some (iso_year (year f) @ ''-'' @ pad 2 (month f) @ ''-'' @ pad 2 (day f) @ ''T'' @
              pad 2 (hours f) @ '':'' @ pad 2 (minutes f) @ '':'' @ pad 2 (seconds f) @ ''.'' @
              pad 3 (millis f) @ ''Z''))"

text \<open>\<open>Date.UTC\<close> of ECMAScript (\<open>MakeDate (MakeDay y m d) (MakeTime h min s ms)\<close>)
  for dates from 1970 on.\<close>

definition make_time :: "date_fields \<Rightarrow> nat" where
  "make_time f =
     ((\<Sum>k = 1970..<year f. days_in_year k) + (\<Sum>k = 0..<month f - 1. days_in_month (year f) k)
        + (day f - 1)) * ms_per_day
     + hours f * 3600000 + minutes f * 60000 + seconds f * 1000 + millis f"

text \<open>\<open>iso8601(date).replace(/[:\-]|\.\d{3}/g, '')\<close> of the SDK's date utilities.\<close>

definition is_dec_digit :: "char \<Rightarrow> bool" where
  "is_dec_digit c \<longleftrightarrow> CHR ''0'' \<le> c \<and> c \<le> CHR ''9''"

function strip_amz :: "string \<Rightarrow> string" where
  "strip_amz [] = []"
| "strip_amz (c # cs) =
     (if c = CHR '':'' \<or> c = CHR ''-'' then strip_amz cs
      else if c = CHR ''.'' \<and> 3 \<le> length cs \<and> list_all is_dec_digit (take 3 cs)
      then strip_amz (drop 3 cs)
      else c # strip_amz cs)"
  by pat_completeness auto
termination
  by (relation "measure length") auto

definition amz_date :: "nat \<Rightarrow> string option" where
  "amz_date t = map_option strip_amz (js_toISOString t)"

lemma year_from_spec:
  "year_from y d = (y', d') \<Longrightarrow> y \<le> y' \<and> d' < days_in_year y' \<and> (\<Sum>k = y..<y'. days_in_year k) + d' = d"
proof (induction y d rule: year_from.induct)
  case (1 y d)
  show ?case
  proof (cases "d < days_in_year y")
    case True
    with "1.prems" show ?thesis by (simp add: year_from.simps [of y d])
  next
    case False
    with "1.prems" have "year_from (Suc y) (d - days_in_year y) = (y', d')"
      by (simp add: year_from.simps [of y d])
    with "1.IH" False have ih: "Suc y \<le> y' \<and> d' < days_in_year y' \<and>
        (\<Sum>k = Suc y..<y'. days_in_year k) + d' = d - days_in_year y" by blast
    then have "(\<Sum>k = y..<y'. days_in_year k) = days_in_year y + (\<Sum>k = Suc y..<y'. days_in_year k)"
      by (simp add: sum.atLeast_Suc_lessThan)
    with ih False show ?thesis by linarith
  qed
qed

lemma month_from_spec:
  "month_from y m d = (m', d') \<Longrightarrow> m \<le> 11 \<Longrightarrow> d < (\<Sum>k = m..<12. days_in_month y k) \<Longrightarrow>
     m \<le> m' \<and> m' \<le> 11 \<and> d' < days_in_month y m' \<and> (\<Sum>k = m..<m'. days_in_month y k) + d' = d"
proof (induction y m d rule: month_from.induct)
  case (1 y m d)
  show ?case
  proof (cases "m < 11 \<and> days_in_month y m \<le> d")
    case True
    with "1.prems" have r: "month_from y (Suc m) (d - days_in_month y m) = (m', d')"
      by (simp add: month_from.simps [of y m d])
    have split: "(\<Sum>k = m..<12. days_in_month y k) = days_in_month y m + (\<Sum>k = Suc m..<12. days_in_month y k)"
      using True by (simp add: sum.atLeast_Suc_lessThan)
    with True "1.prems"(3) have "d - days_in_month y m < (\<Sum>k = Suc m..<12. days_in_month y k)" by linarith
    with "1.IH" True r have ih: "Suc m \<le> m' \<and> m' \<le> 11 \<and> d' < days_in_month y m' \<and>
        (\<Sum>k = Suc m..<m'. days_in_month y k) + d' = d - days_in_month y m" by simp
    then have "(\<Sum>k = m..<m'. days_in_month y k) = days_in_month y m + (\<Sum>k = Suc m..<m'. days_in_month y k)"
      by (simp add: sum.atLeast_Suc_lessThan)
    with ih True show ?thesis by linarith
  next
    case False
    have "month_from y m d = (m, d)" by (simp only: month_from.simps [of y m d] if_not_P [OF False])
    with "1.prems"(1) have m: "m' = m" "d' = d" by simp_all
    show ?thesis
    proof (cases "m < 11")
      case True
      with False m show ?thesis using "1.prems" by simp
    next
      case False
      have "{11..<12::nat} = {11}" by auto
      with False "1.prems" m show ?thesis by simp
    qed
  qed
qed

lemma sum_days_in_month: "(\<Sum>k = 0..<12. days_in_month y k) = days_in_year y"
  by (simp add: days_in_month_def days_in_year_def numeral_eq_Suc)

lemma date_of_time_eq:
  "year_from 1970 (t div ms_per_day) = (y, dy) \<Longrightarrow> month_from y 0 dy = (m, dm) \<Longrightarrow>
   date_of_time t = \<lparr>year = y, month = Suc m, day = Suc dm, hours = t mod ms_per_day div 3600000,
      minutes = t mod ms_per_day div 60000 mod 60, seconds = t mod ms_per_day div 1000 mod 60,
      millis = t mod ms_per_day mod 1000\<rparr>"
  by (simp add: date_of_time_def Let_def)

lemma calendar_split:
  obtains y dy m dm where "year_from 1970 (t div ms_per_day) = (y, dy)" "month_from y 0 dy = (m, dm)"
    "1970 \<le> y" "dy < days_in_year y" "(\<Sum>k = 1970..<y. days_in_year k) + dy = t div ms_per_day"
    "m \<le> 11" "dm < days_in_month y m" "(\<Sum>k = 0..<m. days_in_month y k) + dm = dy"
proof -
  obtain y dy where yd: "year_from 1970 (t div ms_per_day) = (y, dy)" by fastforce
  obtain m dm where md: "month_from y 0 dy = (m, dm)" by fastforce
  from year_from_spec [OF yd] have y: "1970 \<le> y" "dy < days_in_year y"
    "(\<Sum>k = 1970..<y. days_in_year k) + dy = t div ms_per_day" by auto
  with sum_days_in_month [of y] have "dy < (\<Sum>k = 0..<12. days_in_month y k)" by simp
  from month_from_spec [OF md _ this] have "m \<le> 11" "dm < days_in_month y m"
    "(\<Sum>k = 0..<m. days_in_month y k) + dm = dy" by auto
  with yd md y show ?thesis by (rule that)
qed

theorem date_of_time_bounds:
  "1970 \<le> year (date_of_time t) \<and> 1 \<le> month (date_of_time t) \<and> month (date_of_time t) \<le> 12 \<and>
   1 \<le> day (date_of_time t) \<and>
   day (date_of_time t) \<le> days_in_month (year (date_of_time t)) (month (date_of_time t) - 1) \<and>
   hours (date_of_time t) < 24 \<and> minutes (date_of_time t) < 60 \<and>
   seconds (date_of_time t) < 60 \<and> millis (date_of_time t) < 1000"
proof -
  obtain y dy m dm where c: "year_from 1970 (t div ms_per_day) = (y, dy)" "month_from y 0 dy = (m, dm)"
    "1970 \<le> y" "m \<le> 11" "dm < days_in_month y m"
    by (rule calendar_split)
  have "t mod ms_per_day < 86400000" by (simp add: ms_per_day_def)
  then have "t mod ms_per_day div 3600000 < 24" by linarith
  with c show ?thesis by (simp add: date_of_time_eq)
qed

lemma time_of_day_split:
  "(r::nat) = r div 3600000 * 3600000 + r div 60000 mod 60 * 60000 + r div 1000 mod 60 * 1000 + r mod 1000"
proof -
  have a: "r div 60000 = r div 1000 div 60" by (simp add: div_mult2_eq [symmetric])
  have b: "r div 3600000 = r div 60000 div 60" by (simp add: div_mult2_eq [symmetric])
  have "r div 60000 = r div 3600000 * 60 + r div 60000 mod 60" using b by simp
  then have c: "r div 60000 * 60000 = r div 3600000 * 3600000 + r div 60000 mod 60 * 60000" by simp
  have "r div 1000 = r div 60000 * 60 + r div 1000 mod 60" using a by simp
  then have d: "r div 1000 * 1000 = r div 60000 * 60000 + r div 1000 mod 60 * 1000" by simp
  have "r = r div 1000 * 1000 + r mod 1000" by simp
  with c d show ?thesis by linarith
qed
theorem make_time_date_of_time: "make_time (date_of_time t) = t"
proof -
  obtain y dy m dm where c: "year_from 1970 (t div ms_per_day) = (y, dy)" "month_from y 0 dy = (m, dm)"
    "(\<Sum>k = 1970..<y. days_in_year k) + dy = t div ms_per_day"
    "(\<Sum>k = 0..<m. days_in_month y k) + dm = dy"
    by (rule calendar_split)
  have "t = t div ms_per_day * ms_per_day + t mod ms_per_day" by simp
  also have "t mod ms_per_day = t mod ms_per_day div 3600000 * 3600000 + t mod ms_per_day div 60000 mod 60 * 60000
      + t mod ms_per_day div 1000 mod 60 * 1000 + t mod ms_per_day mod 1000"
    by (rule time_of_day_split)
  finally have t: "t = t div ms_per_day * ms_per_day + (t mod ms_per_day div 3600000 * 3600000
      + t mod ms_per_day div 60000 mod 60 * 60000 + t mod ms_per_day div 1000 mod 60 * 1000
      + t mod ms_per_day mod 1000)" .
  from c have "(\<Sum>k = 1970..<y. days_in_year k) + (\<Sum>k = 0..<m. days_in_month y k) + dm = t div ms_per_day"
    by simp
  then show ?thesis
    using t by (simp add: make_time_def date_of_time_eq [OF c(1,2)] add.assoc)
qed

lemma length_pad: "n < 10 ^ k \<Longrightarrow> 0 < k \<Longrightarrow> length (pad k n) = k"
  using length_dec_string [of n k] by (simp add: pad_def Let_def)

lemma days_in_month_le: "m < 12 \<Longrightarrow> days_in_month y m \<le> 31"
proof -
  assume "m < 12"
  then have "days_in_month y m \<in> set [31, if leap_year y then 29 else 28, 31, 30, 31, 30, 31, 31, 30, 31, 30, 31]"
    unfolding days_in_month_def by (intro nth_mem) simp
  then show ?thesis by auto
qed

lemma iso_shape:
  assumes "js_toISOString t = Some s" "year (date_of_time t) \<le> 9999"
  shows "length s = 24 \<and> s ! 4 = CHR ''-'' \<and> s ! 7 = CHR ''-'' \<and> s ! 10 = CHR ''T'' \<and> s ! 13 = CHR '':'' \<and>
    s ! 16 = CHR '':'' \<and> s ! 19 = CHR ''.'' \<and> s ! 23 = CHR ''Z''"
proof -
  let ?f = "date_of_time t"
  note b = date_of_time_bounds [of t]
  have l: "length (iso_year (year ?f)) = 4" "length (pad 2 (month ?f)) = 2" "length (pad 2 (day ?f)) = 2"
    "length (pad 2 (hours ?f)) = 2" "length (pad 2 (minutes ?f)) = 2" "length (pad 2 (seconds ?f)) = 2"
    "length (pad 3 (millis ?f)) = 3"
  proof -
    show "length (iso_year (year ?f)) = 4" using assms(2) by (simp add: iso_year_def length_pad)
    have "month ?f - 1 < 12" using b by linarith
    then have "day ?f \<le> 31" using b days_in_month_le [of "month ?f - 1" "year ?f"] by linarith
    then show "length (pad 2 (day ?f)) = 2" by (simp add: length_pad)
  qed (use b in \<open>simp_all add: length_pad\<close>)
  have s: "s = iso_year (year ?f) @ ''-'' @ pad 2 (month ?f) @ ''-'' @ pad 2 (day ?f) @ ''T'' @
              pad 2 (hours ?f) @ '':'' @ pad 2 (minutes ?f) @ '':'' @ pad 2 (seconds ?f) @ ''.'' @
              pad 3 (millis ?f) @ ''Z''"
    using assms(1) by (simp add: js_toISOString_def Let_def split: if_splits)
  show ?thesis unfolding s using l by (simp add: nth_append)
qed

lemma radix10_dec_digit: "radix_digit 10 c \<Longrightarrow> is_dec_digit c"
  by (auto simp: radix_digit_def digit_value_def is_dec_digit_def less_eq_char_def Let_def split: if_splits)

lemma pad_digits: "list_all is_dec_digit (pad k n)"
proof -
  have "list_all is_dec_digit (dec_string n)"
    by (auto simp: list_all_iff dest: dec_string_digits radix10_dec_digit)
  moreover have "is_dec_digit CHR ''0''" by (simp add: is_dec_digit_def)
  ultimately show ?thesis by (auto simp: pad_def Let_def list_all_iff dest: in_set_replicate [THEN iffD1])
qed

lemma digits_val_zeros: "digits_val 10 (replicate m CHR ''0'' @ s) = digits_val 10 s"
proof -
  have "foldl (\<lambda>acc c. acc * 10 + the (digit_value c)) a (replicate m CHR ''0'') = a * 10 ^ m" for a
    by (induction m arbitrary: a) (simp_all add: digit_value_def)
  then show ?thesis by (simp add: digits_val_def)
qed

lemma digits_val_pad: "digits_val 10 (pad k n) = n"
  by (simp add: pad_def Let_def digits_val_zeros digits_val_dec_string)

lemma pad_inj: "pad k a = pad k b \<Longrightarrow> a = b"
  by (metis digits_val_pad)

lemma strip_amz_digits: "list_all is_dec_digit x \<Longrightarrow> strip_amz (x @ r) = x @ strip_amz r"
proof (induction x)
  case (Cons c x)
  then have "c \<noteq> CHR '':''" "c \<noteq> CHR ''-''" "c \<noteq> CHR ''.''"
    by (auto simp: is_dec_digit_def less_eq_char_def)
  with Cons show ?case by simp
qed simp

lemma iso_amz:
  assumes "js_toISOString t = Some s" "year (date_of_time t) \<le> 9999"
  shows "strip_amz s = pad 4 (year (date_of_time t)) @ pad 2 (month (date_of_time t)) @ pad 2 (day (date_of_time t)) @
      ''T'' @ pad 2 (hours (date_of_time t)) @ pad 2 (minutes (date_of_time t)) @ pad 2 (seconds (date_of_time t)) @ ''Z''"
proof -
  let ?f = "date_of_time t"
  have m: "length (pad 3 (millis ?f)) = 3" using date_of_time_bounds [of t] by (simp add: length_pad)
  have s: "s = iso_year (year ?f) @ ''-'' @ pad 2 (month ?f) @ ''-'' @ pad 2 (day ?f) @ ''T'' @
              pad 2 (hours ?f) @ '':'' @ pad 2 (minutes ?f) @ '':'' @ pad 2 (seconds ?f) @ ''.'' @
              pad 3 (millis ?f) @ ''Z''"
    using assms(1) by (simp add: js_toISOString_def Let_def split: if_splits)
  show ?thesis unfolding s using assms(2) m
    by (simp add: iso_year_def strip_amz_digits pad_digits del: strip_amz.simps(2))
       (simp add: pad_digits strip_amz_digits)
qed

lemma time_div_1000: "t div 1000 = make_time ((date_of_time t)\<lparr>millis := 0\<rparr>) div 1000"
proof -
  let ?f = "date_of_time t"
  have "t = make_time ?f" by (simp add: make_time_date_of_time)
  also have "make_time ?f = make_time (?f\<lparr>millis := 0\<rparr>) + millis ?f" by (simp add: make_time_def)
  finally have t: "t = make_time (?f\<lparr>millis := 0\<rparr>) + millis ?f" .
  have "make_time (?f\<lparr>millis := 0\<rparr>) mod 1000 = 0" by (simp add: make_time_def ms_per_day_def mod_add_eq [symmetric])
  moreover have "millis ?f < 1000" using date_of_time_bounds [of t] by simp
  ultimately show ?thesis
    by (subst t) (auto simp: mod_eq_0_iff_dvd elim!: dvdE)
qed

lemma amz_date_form:
  assumes "amz_date t = Some d" "year (date_of_time t) \<le> 9999"
  shows "d = pad 4 (year (date_of_time t)) @ pad 2 (month (date_of_time t)) @ pad 2 (day (date_of_time t)) @
      ''T'' @ pad 2 (hours (date_of_time t)) @ pad 2 (minutes (date_of_time t)) @ pad 2 (seconds (date_of_time t)) @ ''Z''"
  using assms iso_amz by (auto simp: amz_date_def)

lemma amz_date_second:
  assumes "amz_date t1 = Some d" "amz_date t2 = Some d"
    "year (date_of_time t1) \<le> 9999" "year (date_of_time t2) \<le> 9999"
  shows "t1 div 1000 = t2 div 1000"
proof -
  let ?f = "date_of_time t1" and ?g = "date_of_time t2"
  have l: "length (pad 4 (year f)) = 4" "length (pad 2 (month f)) = 2" "length (pad 2 (day f)) = 2"
    "length (pad 2 (hours f)) = 2" "length (pad 2 (minutes f)) = 2" "length (pad 2 (seconds f)) = 2"
    if "f = date_of_time t" "year (date_of_time t) \<le> 9999" for f t
  proof -
    note b = date_of_time_bounds [of t]
    have "month f - 1 < 12" using b unfolding that(1) by linarith
    then have "day f \<le> 31" using b days_in_month_le [of "month f - 1" "year f"] unfolding that(1) by simp
    then show "length (pad 2 (day f)) = 2" by (simp add: length_pad)
  qed (use date_of_time_bounds [of t] that in \<open>simp_all add: length_pad\<close>)
  from amz_date_form [OF assms(1,3)] amz_date_form [OF assms(2,4)]
  have "pad 4 (year ?f) @ pad 2 (month ?f) @ pad 2 (day ?f) @ ''T'' @ pad 2 (hours ?f) @ pad 2 (minutes ?f) @
          pad 2 (seconds ?f) @ ''Z'' =
        pad 4 (year ?g) @ pad 2 (month ?g) @ pad 2 (day ?g) @ ''T'' @ pad 2 (hours ?g) @ pad 2 (minutes ?g) @
          pad 2 (seconds ?g) @ ''Z''" by simp
  then have "pad 4 (year ?f) = pad 4 (year ?g) \<and> pad 2 (month ?f) = pad 2 (month ?g) \<and>
      pad 2 (day ?f) = pad 2 (day ?g) \<and> pad 2 (hours ?f) = pad 2 (hours ?g) \<and>
      pad 2 (minutes ?f) = pad 2 (minutes ?g) \<and> pad 2 (seconds ?f) = pad 2 (seconds ?g)"
    using l [OF refl assms(3)] l [OF refl assms(4)] by simp
  then have "year ?f = year ?g" "month ?f = month ?g" "day ?f = day ?g" "hours ?f = hours ?g"
    "minutes ?f = minutes ?g" "seconds ?f = seconds ?g"
    by (blast intro: pad_inj)+
  then have "?f\<lparr>millis := 0\<rparr> = ?g\<lparr>millis := 0\<rparr>" by (intro date_fields.equality) simp_all
  then show ?thesis by (metis time_div_1000)
qed

lemma year_epoch: "t < 86400000 \<Longrightarrow> year (date_of_time t) = 1970"
proof -
  assume t: "t < 86400000"
  then have z: "t div ms_per_day = 0" by (simp add: ms_per_day_def)
  have y: "year_from 1970 0 = (1970, 0)" by (simp add: year_from.simps [of 1970 0] days_in_year_def)
  have m: "month_from 1970 0 0 = (0, 0)" by (simp add: month_from.simps [of 1970 0 0] days_in_month_def)
  show ?thesis by (simp add: date_of_time_def z y m Let_def)
qed

lemma amz_date_defined: "t \<le> max_time \<Longrightarrow> \<exists>d. amz_date t = Some d"
  by (simp add: amz_date_def js_toISOString_def Let_def)

end
