(* ===== verification/Model.thy ===== *)
theory Model
  imports Clock "HOL-Library.AList"
begin

text \<open>
  The data of the backend.  \<open>TodoItem\<close>, \<open>TodoUpdate\<close>, \<open>CreateTodoRequest\<close> and
  \<open>UpdateTodoRequest\<close> are TypeScript interfaces of the repository outside \<open>src/\<close>
  (\<open>models/\<close>, \<open>requests/\<close>); they are records here.  TypeScript types structurally:
  the business layer passes a whole \<open>TodoItem\<close> where a \<open>TodoUpdate\<close> is expected,
  so \<open>todo_item\<close> extends \<open>todo_update\<close> and the data layer's update accepts any
  extension of it.

  The key-value store holds items, which are attribute maps, not typed objects: an item
  is an association list from attribute names to attribute values of the kinds the
  document client writes (\<open>S\<close> strings, \<open>BOOL\<close>, \<open>NULL\<close>).  Marshalling a
  \<open>TodoItem\<close> writes one attribute per defined field (the document client skips
  \<open>undefined\<close> fields, so an item created without an attachment has no
  \<open>attachmentUrl\<close> attribute); reading an item back as a \<open>TodoItem\<close> succeeds only
  when every field is present with the right kind.

  The world is everything a handler reads or changes: the table, whether the store
  answers, the clock, the random source of \<open>uuid.v4\<close> and the log.
\<close>

record todo_update =
  name :: string
  dueDate :: string
  done' :: bool

record todo_item = todo_update +
  userId :: user_id
  todoId :: todo_id
  createdAt :: string
  attachmentUrl :: "string option"

record create_request =
  cr_name :: string
  cr_dueDate :: string

record update_request =
  ur_name :: string
  ur_dueDate :: string
  ur_done :: bool

datatype attr_value = S string | BOOL bool | NULL

type_synonym item = "(string \<times> attr_value) list"

definition str_attr :: "item \<Rightarrow> string \<Rightarrow> string option" where
  "str_attr it a = (case map_of it a of Some (S s) \<Rightarrow> Some s | _ \<Rightarrow> None)"

definition bool_attr :: "item \<Rightarrow> string \<Rightarrow> bool option" where
  "bool_attr it a = (case map_of it a of Some (BOOL b) \<Rightarrow> Some b | _ \<Rightarrow> None)"

text \<open>The primary key of an item: partition key \<open>userId\<close>, sort key \<open>todoId\<close>.\<close>

definition item_key :: "item \<Rightarrow> key" where
  "item_key it = (case (str_attr it ''userId'', str_attr it ''todoId'') of
                    (Some u, Some i) \<Rightarrow> (u, i) | _ \<Rightarrow> ([], []))"

definition marshall_todo :: "todo_item \<Rightarrow> item" where
  "marshall_todo t =
     [(''todoId'', S (todoId t)), (''userId'', S (userId t)), (''createdAt'', S (createdAt t)),
      (''name'', S (name t)), (''dueDate'', S (dueDate t)), (''done'', BOOL (done' t))]
     @ (case attachmentUrl t of None \<Rightarrow> [] | Some u \<Rightarrow> [(''attachmentUrl'', S u)])"

definition unmarshall_todo :: "item \<Rightarrow> todo_item option" where
  "unmarshall_todo it =
     (case (str_attr it ''userId'', str_attr it ''todoId'', str_attr it ''createdAt'',
            str_attr it ''name'', str_attr it ''dueDate'', bool_attr it ''done'') of
        (Some u, Some i, Some c, Some n, Some d, Some b) \<Rightarrow>
          (case map_of it ''attachmentUrl'' of
             None \<Rightarrow> Some \<lparr>name = n, dueDate = d, done' = b, userId = u, todoId = i,
                           createdAt = c, attachmentUrl = None\<rparr>
           | Some (S a) \<Rightarrow> Some \<lparr>name = n, dueDate = d, done' = b, userId = u, todoId = i,
                           createdAt = c, attachmentUrl = Some a\<rparr>
           | Some NULL \<Rightarrow> Some \<lparr>name = n, dueDate = d, done' = b, userId = u, todoId = i,
                           createdAt = c, attachmentUrl = None\<rparr>
           | Some (BOOL _) \<Rightarrow> None)
      | _ \<Rightarrow> None)"

definition is_todo_item :: "item \<Rightarrow> bool" where
  "is_todo_item it \<longleftrightarrow> unmarshall_todo it \<noteq> None"

subsection \<open>Errors and logs\<close>

datatype error =
    ValidationException
  | ConditionalCheckFailedException
  | ServiceUnavailable
  | InvalidExpiryTime
  | RangeError

datatype log_level = Info | Error

record log_entry =
  log_name :: string
  log_level :: log_level
  log_message :: string

subsection \<open>The world\<close>

record world =
  table :: "item list"
  available :: bool
  clock :: nat
  rng :: nat
  logs :: "log_entry list"

definition log_info :: "string \<Rightarrow> string \<Rightarrow> world \<Rightarrow> world" where
  "log_info lg msg w = w\<lparr>logs := logs w @ [\<lparr>log_name = lg, log_level = Info, log_message = msg\<rparr>]\<rparr>"

lemma str_attr_Nil [simp]: "str_attr [] a = None"
  by (simp add: str_attr_def)

lemma bool_attr_Nil [simp]: "bool_attr [] a = None"
  by (simp add: bool_attr_def)

lemma str_attr_Cons [simp]:
  "str_attr ((a, v) # it) b = (if a = b then (case v of S s \<Rightarrow> Some s | _ \<Rightarrow> None) else str_attr it b)"
  by (simp add: str_attr_def split: attr_value.split)

lemma bool_attr_Cons [simp]:
  "bool_attr ((a, v) # it) b = (if a = b then (case v of BOOL x \<Rightarrow> Some x | _ \<Rightarrow> None) else bool_attr it b)"
  by (simp add: bool_attr_def split: attr_value.split)

theorem unmarshall_marshall: "unmarshall_todo (marshall_todo t) = Some t"
  by (cases "attachmentUrl t") (simp_all add: marshall_todo_def unmarshall_todo_def)

lemma unmarshall_todo_map_of: "map_of a = map_of b \<Longrightarrow> unmarshall_todo a = unmarshall_todo b"
  unfolding unmarshall_todo_def str_attr_def bool_attr_def by (simp only:)

lemma item_key_marshall [simp]: "item_key (marshall_todo t) = (userId t, todoId t)"
  by (simp add: item_key_def marshall_todo_def)

lemma log_info_table [simp]:
  "table (log_info lg m w) = table w" "available (log_info lg m w) = available w"
  "clock (log_info lg m w) = clock w" "rng (log_info lg m w) = rng w"
  by (simp_all add: log_info_def)

end
