(* ===== verification/Store.thy ===== *)
theory Store
  imports Model
begin

text \<open>
  The managed key-value store, as the document client sees it: one table whose items
  are addressed by the primary key (\<open>userId\<close>, \<open>todoId\<close>).  The table is a list of
  items strictly sorted by key, which is how the store orders the items of one partition
  and what a query returns.  Every operation first validates its key (a key attribute
  may not be the empty string: \<open>ValidationException\<close>); an update may not set a key
  attribute; an update with a condition fails with
  \<open>ConditionalCheckFailedException\<close> when the condition does not hold of the current
  item, an absent item included; an update without one creates the item when it is
  absent (upsert); a delete of an absent item succeeds; a query reads the items of one
  partition in sort-key order up to the page limit of 1 MB of item data and returns
  that page only.

  \<open>tab_map\<close> abstracts the table to a map from keys to items, and each operation is
  shown to refine the corresponding map operation (\<open>spec_*\<close>).  This store is a
  service the sources call, modelled from its documented behaviour.
\<close>

subsection \<open>The table\<close>

definition valid_key :: "key \<Rightarrow> bool" where
  "valid_key k \<longleftrightarrow> fst k \<noteq> [] \<and> snd k \<noteq> []"

definition key_item :: "key \<Rightarrow> item" where
  "key_item k = [(''userId'', S (fst k)), (''todoId'', S (snd k))]"

definition tab_get :: "key \<Rightarrow> item list \<Rightarrow> item option" where
  "tab_get k t = find (\<lambda>it. item_key it = k) t"

fun tab_put :: "item \<Rightarrow> item list \<Rightarrow> item list" where
  "tab_put it [] = [it]"
| "tab_put it (x # xs) =
     (if item_key it < item_key x then it # x # xs
      else if item_key it = item_key x then it # xs
      else x # tab_put it xs)"

definition tab_delete :: "key \<Rightarrow> item list \<Rightarrow> item list" where
  "tab_delete k t = filter (\<lambda>it. item_key it \<noteq> k) t"

definition tab_map :: "item list \<Rightarrow> key \<rightharpoonup> item" where
  "tab_map t = map_of (map (\<lambda>it. (item_key it, it)) t)"

definition tab_inv :: "item list \<Rightarrow> bool" where
  "tab_inv t \<longleftrightarrow> sorted_wrt (\<lambda>a b. item_key a < item_key b) t
     \<and> list_all (\<lambda>it. valid_key (item_key it) \<and> distinct (map fst it)) t"

subsection \<open>Expressions of an update\<close>

text \<open>\<open>SET a = v\<close> actions of an update expression, and the one form of condition
  expression the sources use, \<open>a = v\<close>.\<close>

datatype update_action = SET string attr_value

datatype condition = AttrEq string attr_value

fun apply_action :: "update_action \<Rightarrow> item \<Rightarrow> item" where
  "apply_action (SET a v) it = AList.update a v it"

definition apply_actions :: "update_action list \<Rightarrow> item \<Rightarrow> item" where
  "apply_actions acts it = fold apply_action acts it"

fun eval_condition :: "condition \<Rightarrow> item option \<Rightarrow> bool" where
  "eval_condition (AttrEq a v) None = False"
| "eval_condition (AttrEq a v) (Some it) = (map_of it a = Some v)"

fun action_attr :: "update_action \<Rightarrow> string" where
  "action_attr (SET a v) = a"

definition key_attr :: "string \<Rightarrow> bool" where
  "key_attr a \<longleftrightarrow> a = ''userId'' \<or> a = ''todoId''"

definition valid_put :: "item \<Rightarrow> bool" where
  "valid_put it \<longleftrightarrow> str_attr it ''userId'' \<noteq> None \<and> str_attr it ''todoId'' \<noteq> None
     \<and> valid_key (item_key it) \<and> distinct (map fst it)"

definition valid_update :: "key \<Rightarrow> update_action list \<Rightarrow> bool" where
  "valid_update k acts \<longleftrightarrow> valid_key k \<and> list_all (\<lambda>a. \<not> key_attr (action_attr a)) acts"

definition cond_holds :: "condition option \<Rightarrow> item option \<Rightarrow> bool" where
  "cond_holds cond old = (case cond of None \<Rightarrow> True | Some c \<Rightarrow> eval_condition c old)"

subsection \<open>Operations\<close>

definition put_item :: "item \<Rightarrow> item list \<Rightarrow> error + item list" where
  "put_item it t = (if valid_put it then Inr (tab_put it t) else Inl ValidationException)"

definition update_item ::
  "key \<Rightarrow> update_action list \<Rightarrow> condition option \<Rightarrow> item list \<Rightarrow> error + item list" where
  "update_item k acts cond t =
     (if valid_update k acts
      then let old = tab_get k t in
        if cond_holds cond old
        then Inr (tab_put (apply_actions acts (case old of None \<Rightarrow> key_item k | Some it \<Rightarrow> it)) t)
        else Inl ConditionalCheckFailedException
      else Inl ValidationException)"

definition delete_item :: "key \<Rightarrow> item list \<Rightarrow> error + item list" where
  "delete_item k t = (if valid_key k then Inr (tab_delete k t) else Inl ValidationException)"

definition page_limit :: nat where
  "page_limit = 1048576"

fun attr_size :: "string \<times> attr_value \<Rightarrow> nat" where
  "attr_size (a, S s) = length a + length s"
| "attr_size (a, BOOL b) = length a + 1"
| "attr_size (a, NULL) = length a + 1"

definition item_size :: "item \<Rightarrow> nat" where
  "item_size it = sum_list (map attr_size it)"

fun take_page :: "nat \<Rightarrow> item list \<Rightarrow> item list" where
  "take_page b [] = []"
| "take_page b (it # its) =
     (if item_size it \<le> b then it # take_page (b - item_size it) its else [])"

definition query_partition :: "user_id \<Rightarrow> item list \<Rightarrow> error + item list" where
  "query_partition u t =
     (if u \<noteq> [] then Inr (take_page page_limit (filter (\<lambda>it. fst (item_key it) = u) t))
      else Inl ValidationException)"

subsection \<open>The abstract store\<close>

definition spec_put :: "item \<Rightarrow> (key \<rightharpoonup> item) \<Rightarrow> error + (key \<rightharpoonup> item)" where
  "spec_put it m = (if valid_put it then Inr (m(item_key it \<mapsto> it)) else Inl ValidationException)"

definition spec_update ::
  "key \<Rightarrow> update_action list \<Rightarrow> condition option \<Rightarrow> (key \<rightharpoonup> item) \<Rightarrow> error + (key \<rightharpoonup> item)" where
  "spec_update k acts cond m =
     (if valid_update k acts
      then if cond_holds cond (m k)
        then Inr (m(k \<mapsto> apply_actions acts (case m k of None \<Rightarrow> key_item k | Some it \<Rightarrow> it)))
        else Inl ConditionalCheckFailedException
      else Inl ValidationException)"

definition spec_delete :: "key \<Rightarrow> (key \<rightharpoonup> item) \<Rightarrow> error + (key \<rightharpoonup> item)" where
  "spec_delete k m = (if valid_key k then Inr (m(k := None)) else Inl ValidationException)"

subsection \<open>The table refines a map\<close>

lemma tab_get_map: "tab_get k t = tab_map t k"
  by (simp add: tab_get_def tab_map_def find_map_of_key)

lemma tab_map_put [store_simps]: "tab_map (tab_put it t) = (tab_map t)(item_key it \<mapsto> it)"
  by (induction t) (auto simp: tab_map_def fun_upd_twist)

lemma tab_map_delete [store_simps]: "tab_map (tab_delete k t) = (tab_map t)(k := None)"
  by (induction t) (auto simp: tab_map_def tab_delete_def)

lemma set_tab_put: "set (tab_put it t) \<subseteq> insert it (set t)"
  by (induction t) auto

lemma keys_tab_put: "item_key ` set (tab_put it t) = insert (item_key it) (item_key ` set t)"
  by (induction t) auto

lemma sorted_tab_put:
  "sorted_wrt (\<lambda>a b. item_key a < item_key b) t \<Longrightarrow>
   sorted_wrt (\<lambda>a b. item_key a < item_key b) (tab_put it t)"
proof (induction t)
  case Nil
  then show ?case by simp
next
  case (Cons x xs)
  have "\<forall>y \<in> set (tab_put it xs). item_key x < item_key y" if "item_key x < item_key it"
  proof
    fix y assume "y \<in> set (tab_put it xs)"
    then have "item_key y \<in> insert (item_key it) (item_key ` set xs)"
      using keys_tab_put by blast
    with that Cons.prems show "item_key x < item_key y" by auto
  qed
  with Cons show ?case by (auto simp: not_less dest: order.strict_trans order.strict_trans1)
qed

lemma apply_action_map_of: "map_of (apply_action a it) = (map_of it)(action_attr a \<mapsto> (case a of SET _ v \<Rightarrow> v))"
  by (cases a) (simp add: update_conv')

lemma apply_actions_map_of_other:
  "list_all (\<lambda>a. action_attr a \<noteq> b) acts \<Longrightarrow> map_of (apply_actions acts it) b = map_of it b"
  by (induction acts arbitrary: it) (auto simp: apply_actions_def apply_action_map_of)

lemma apply_actions_distinct: "distinct (map fst it) \<Longrightarrow> distinct (map fst (apply_actions acts it))"
proof (induction acts arbitrary: it)
  case Nil then show ?case by (simp add: apply_actions_def)
next
  case (Cons a acts)
  then show ?case by (cases a) (simp add: apply_actions_def distinct_update)
qed

lemma apply_actions_as_prefix:
  "map_of (apply_actions acts it) = map_of (rev (map (\<lambda>a. (action_attr a, case a of SET _ v \<Rightarrow> v)) acts) @ it)"
proof (induction acts arbitrary: it)
  case Nil then show ?case by (simp add: apply_actions_def)
next
  case (Cons a acts)
  have "map_of (apply_actions (a # acts) it) = map_of (apply_actions acts (apply_action a it))"
    by (simp add: apply_actions_def)
  also have "\<dots> = map_of (rev (map (\<lambda>a. (action_attr a, case a of SET _ v \<Rightarrow> v)) acts) @ apply_action a it)"
    by (rule Cons.IH)
  finally show ?case by (simp add: map_of_append apply_action_map_of map_add_upd[symmetric])
qed

lemma item_key_apply_actions:
  "list_all (\<lambda>a. \<not> key_attr (action_attr a)) acts \<Longrightarrow> item_key (apply_actions acts it) = item_key it"
proof -
  assume "list_all (\<lambda>a. \<not> key_attr (action_attr a)) acts"
  then have "list_all (\<lambda>a. action_attr a \<noteq> ''userId'') acts" "list_all (\<lambda>a. action_attr a \<noteq> ''todoId'') acts"
    by (auto simp: key_attr_def list_all_iff)
  then show ?thesis
    by (simp add: item_key_def str_attr_def apply_actions_map_of_other)
qed

lemma tab_get_key: "tab_get k t = Some it \<Longrightarrow> item_key it = k"
  by (auto simp: tab_get_def dest: find_Some_iff [THEN iffD1])

lemma item_key_key_item: "item_key (key_item k) = k"
  by (simp add: item_key_def key_item_def)

lemma update_base_key:
  "item_key (case tab_get k t of None \<Rightarrow> key_item k | Some it \<Rightarrow> it) = k"
  by (auto simp: item_key_key_item tab_get_key split: option.split)

lemma list_all_tab_put: "list_all P t \<Longrightarrow> P it \<Longrightarrow> list_all P (tab_put it t)"
  using set_tab_put [of it t] by (auto simp: list_all_iff)

lemma list_all_tab_delete: "list_all P t \<Longrightarrow> list_all P (tab_delete k t)"
  by (simp add: tab_delete_def list_all_iff)

lemma update_item_Inr:
  "update_item k acts cond t = Inr t' \<Longrightarrow>
   cond_holds cond (tab_get k t) \<and> t' = tab_put (apply_actions acts (case tab_get k t of None \<Rightarrow> key_item k | Some it \<Rightarrow> it)) t"
  by (auto simp: update_item_def Let_def split: if_splits)

lemma put_item_frame: "put_item it t = Inr t' \<Longrightarrow> k \<noteq> item_key it \<Longrightarrow> tab_map t' k = tab_map t k"
  by (auto simp: put_item_def tab_map_put split: if_splits)

lemma update_item_frame: "update_item k' acts cond t = Inr t' \<Longrightarrow> k \<noteq> k' \<Longrightarrow> tab_map t' k = tab_map t k"
  by (auto simp: update_item_def valid_update_def item_key_apply_actions update_base_key tab_map_put Let_def
      split: if_splits)

lemma delete_item_frame: "delete_item k' t = Inr t' \<Longrightarrow> k \<noteq> k' \<Longrightarrow> tab_map t' k = tab_map t k"
  by (auto simp: delete_item_def tab_map_delete split: if_splits)

theorem put_item_refines: "map_sum id tab_map (put_item it t) = spec_put it (tab_map t)"
  by (simp add: put_item_def spec_put_def tab_map_put)

theorem update_item_refines:
  "map_sum id tab_map (update_item k acts cond t) = spec_update k acts cond (tab_map t)"
proof -
  have "valid_update k acts \<Longrightarrow>
      item_key (apply_actions acts (case tab_get k t of None \<Rightarrow> key_item k | Some it \<Rightarrow> it)) = k"
    by (simp add: valid_update_def item_key_apply_actions update_base_key)
  then show ?thesis
    by (simp add: update_item_def spec_update_def tab_map_put tab_get_map Let_def)
qed

theorem delete_item_refines: "map_sum id tab_map (delete_item k t) = spec_delete k (tab_map t)"
  by (simp add: delete_item_def spec_delete_def tab_map_delete)

lemma tab_inv_put: "tab_inv t \<Longrightarrow> valid_key (item_key it) \<Longrightarrow> distinct (map fst it) \<Longrightarrow> tab_inv (tab_put it t)"
  using set_tab_put [of it t] by (auto simp: tab_inv_def list_all_iff sorted_tab_put)

lemma tab_inv_delete: "tab_inv t \<Longrightarrow> tab_inv (tab_delete k t)"
  by (auto simp: tab_inv_def tab_delete_def list_all_iff sorted_wrt_filter)

lemma tab_get_in_set: "tab_get k t = Some it \<Longrightarrow> it \<in> set t"
  by (auto simp: tab_get_def find_Some_iff)

theorem put_item_inv: "tab_inv t \<Longrightarrow> put_item it t = Inr t' \<Longrightarrow> tab_inv t'"
  by (auto simp: put_item_def valid_put_def tab_inv_put split: if_splits)

theorem update_item_inv: "tab_inv t \<Longrightarrow> update_item k acts cond t = Inr t' \<Longrightarrow> tab_inv t'"
proof -
  assume inv: "tab_inv t" and up: "update_item k acts cond t = Inr t'"
  let ?base = "case tab_get k t of None \<Rightarrow> key_item k | Some it \<Rightarrow> it"
  from up have v: "valid_update k acts" and t': "t' = tab_put (apply_actions acts ?base) t"
    by (auto simp: update_item_def Let_def split: if_splits)
  have "distinct (map fst ?base)"
    using inv by (auto simp: key_item_def tab_inv_def list_all_iff dest: tab_get_in_set split: option.split)
  then have "distinct (map fst (apply_actions acts ?base))" by (rule apply_actions_distinct)
  moreover have "item_key (apply_actions acts ?base) = k"
    using v by (simp add: valid_update_def item_key_apply_actions update_base_key)
  ultimately show ?thesis
    using inv v t' by (simp add: tab_inv_put valid_update_def)
qed

theorem delete_item_inv: "tab_inv t \<Longrightarrow> delete_item k t = Inr t' \<Longrightarrow> tab_inv t'"
  by (auto simp: delete_item_def tab_inv_delete split: if_splits)

lemma take_page_prefix: "\<exists>ys. xs = take_page b xs @ ys"
  by (induction b xs rule: take_page.induct) auto

lemma take_page_size: "sum_list (map item_size (take_page b xs)) \<le> b"
  by (induction b xs rule: take_page.induct) auto

lemma take_page_all: "sum_list (map item_size xs) \<le> b \<Longrightarrow> take_page b xs = xs"
  by (induction b xs rule: take_page.induct) auto

lemma take_page_strict:
  "b < sum_list (map item_size xs) \<Longrightarrow> length (take_page b xs) < length xs"
proof -
  assume "b < sum_list (map item_size xs)"
  with take_page_size [of b xs] have "take_page b xs \<noteq> xs" by auto
  moreover obtain ys where "xs = take_page b xs @ ys" using take_page_prefix by blast
  ultimately show ?thesis by (metis append.right_neutral length_append less_add_same_cancel1 length_greater_0_conv)
qed

lemma sorted_partition_todoId:
  "sorted_wrt (\<lambda>a b. item_key a < item_key b) t \<Longrightarrow>
   sorted_wrt (\<lambda>a b. snd (item_key a) < snd (item_key b)) (filter (\<lambda>it. fst (item_key it) = u) t)"
  by (induction t) (auto simp: less_prod_def)

end
