(* ===== verification/Access.thy ===== *)
theory Access
  imports Store
begin

text \<open>
  The data layer, class \<open>TodosAccess\<close> of \<open>src/.../helpers/todosAcess.ts\<close>.  Each method
  logs one line on the \<open>TodosAccess\<close> logger, then awaits one document-client call on
  the table.  A call to an unreachable store rejects with \<open>ServiceUnavailable\<close>; a
  rejected call leaves the table as it was and the error propagates to the caller (the
  methods catch nothing).  A method is a function from the world to its result and the
  new world; \<open>store_write\<close> and \<open>store_read\<close> are the two shapes of a call.
\<close>

definition access_logger :: string where
  "access_logger = ''TodosAccess''"

definition store_write :: "(item list \<Rightarrow> error + item list) \<Rightarrow> world \<Rightarrow> (error + unit) \<times> world" where
  "store_write op w =
     (if available w
      then (case op (table w) of Inl e \<Rightarrow> (Inl e, w) | Inr t \<Rightarrow> (Inr (), w\<lparr>table := t\<rparr>))
      else (Inl ServiceUnavailable, w))"

definition store_read :: "(item list \<Rightarrow> error + 'a) \<Rightarrow> world \<Rightarrow> error + 'a" where
  "store_read op w = (if available w then op (table w) else Inl ServiceUnavailable)"

definition getTodos_access :: "user_id \<Rightarrow> world \<Rightarrow> (error + item list) \<times> world" where
  "getTodos_access uid w =
     (let w1 = log_info access_logger (''Get list todo: '' @ uid) w
      in (store_read (query_partition uid) w1, w1))"

definition createTodo_access :: "todo_item \<Rightarrow> world \<Rightarrow> (error + todo_item) \<times> world" where
  "createTodo_access todo w =
     (let w1 = log_info access_logger (''Create todo:  '' @ todoId todo) w;
          (r, w2) = store_write (put_item (marshall_todo todo)) w1
      in (case r of Inl e \<Rightarrow> Inl e | Inr _ \<Rightarrow> Inr todo, w2))"

text \<open>The update expression \<open>set #nameTodo = :name, dueDate = :dueDate, done = :done\<close>
  with \<open>#nameTodo\<close> bound to \<open>name\<close>, and the condition \<open>todoId = :todoId\<close>.\<close>

definition update_actions :: "'a todo_update_scheme \<Rightarrow> update_action list" where
  "update_actions todo =
     [SET ''name'' (S (name todo)), SET ''dueDate'' (S (dueDate todo)), SET ''done'' (BOOL (done' todo))]"

definition update_condition :: "todo_id \<Rightarrow> condition option" where
  "update_condition tid = Some (AttrEq ''todoId'' (S tid))"

definition updateTodo_access ::
  "'a todo_update_scheme \<Rightarrow> user_id \<Rightarrow> todo_id \<Rightarrow> world \<Rightarrow> (error + unit) \<times> world" where
  "updateTodo_access todo uid tid w =
     store_write (update_item (uid, tid) (update_actions todo) (update_condition tid))
       (log_info access_logger (''Update todo by id: '' @ tid) w)"

definition deleteTodo_access :: "user_id \<Rightarrow> todo_id \<Rightarrow> world \<Rightarrow> (error + unit) \<times> world" where
  "deleteTodo_access uid tid w =
     store_write (delete_item (uid, tid)) (log_info access_logger (''Delete todo by id: '' @ tid) w)"

text \<open>What the update of a todo promises, stated on the attributes of each stored item
  and independently of the update expression the code sends: an invalid key is refused,
  a missing item fails the conditional check, and an existing item gets the request's
  \<open>name\<close>, \<open>dueDate\<close> and \<open>done\<close>, every other attribute kept (spec section 4.1).\<close>

definition attr_view :: "item list \<Rightarrow> key \<rightharpoonup> (string \<rightharpoonup> attr_value)" where
  "attr_view t = (\<lambda>k. map_option map_of (tab_map t k))"

definition todo_update_spec ::
  "'a todo_update_scheme \<Rightarrow> key \<Rightarrow> (key \<rightharpoonup> (string \<rightharpoonup> attr_value)) \<Rightarrow> error + (key \<rightharpoonup> (string \<rightharpoonup> attr_value))" where
  "todo_update_spec todo k m =
     (if \<not> valid_key k then Inl ValidationException
      else case m k of
        None \<Rightarrow> Inl ConditionalCheckFailedException
      | Some a \<Rightarrow> Inr (m(k \<mapsto> a(''name'' \<mapsto> S (name todo), ''dueDate'' \<mapsto> S (dueDate todo), ''done'' \<mapsto> BOOL (done' todo)))))"

subsection \<open>Behaviour of the data layer\<close>

lemma item_key_attrs:
  "item_key it = k \<Longrightarrow> valid_key k \<Longrightarrow> str_attr it ''userId'' = Some (fst k) \<and> str_attr it ''todoId'' = Some (snd k)"
  by (auto simp: item_key_def valid_key_def split: option.splits)

lemma update_condition_exists:
  "valid_key (u, i) \<Longrightarrow> cond_holds (update_condition i) (tab_get (u, i) t) \<longleftrightarrow> tab_get (u, i) t \<noteq> None"
proof (cases "tab_get (u, i) t")
  case None
  then show ?thesis by (simp add: cond_holds_def update_condition_def)
next
  case (Some it)
  assume v: "valid_key (u, i)"
  from Some have "item_key it = (u, i)" by (rule tab_get_key)
  with v have "str_attr it ''todoId'' = Some i" by (simp add: item_key_attrs)
  then have "map_of it ''todoId'' = Some (S i)" by (simp add: str_attr_def split: option.splits attr_value.splits)
  with Some show ?thesis by (simp add: cond_holds_def update_condition_def)
qed

lemma valid_update_actions: "valid_key k \<Longrightarrow> valid_update k (update_actions todo)"
  by (simp add: valid_update_def update_actions_def key_attr_def)

lemma update_actions_map_of:
  "map_of (apply_actions (update_actions todo) it) =
     (map_of it)(''name'' \<mapsto> S (name todo), ''dueDate'' \<mapsto> S (dueDate todo), ''done'' \<mapsto> BOOL (done' todo))"
  by (simp add: apply_actions_def update_actions_def update_conv')

lemma store_write_unavailable: "\<not> available w \<Longrightarrow> store_write op w = (Inl ServiceUnavailable, w)"
  by (simp add: store_write_def)

lemma store_write_Inl: "available w \<Longrightarrow> op (table w) = Inl e \<Longrightarrow> store_write op w = (Inl e, w)"
  by (simp add: store_write_def)

lemma store_write_Inr: "available w \<Longrightarrow> op (table w) = Inr t \<Longrightarrow> store_write op w = (Inr (), w\<lparr>table := t\<rparr>)"
  by (simp add: store_write_def)

lemma store_write_inv:
  "(\<And>t t'. tab_inv t \<Longrightarrow> op t = Inr t' \<Longrightarrow> tab_inv t') \<Longrightarrow> tab_inv (table w) \<Longrightarrow>
   tab_inv (table (snd (store_write op w)))"
  by (auto simp: store_write_def split: sum.split)

theorem updateTodo_missing:
  "available w \<Longrightarrow> valid_key (u, i) \<Longrightarrow> tab_get (u, i) (table w) = None \<Longrightarrow>
   updateTodo_access todo u i w = (Inl ConditionalCheckFailedException, log_info access_logger (''Update todo by id: '' @ i) w)"
  using update_condition_exists [of u i "table w"]
  by (simp add: updateTodo_access_def store_write_def update_item_def valid_update_actions)

theorem updateTodo_existing:
  "available w \<Longrightarrow> valid_key (u, i) \<Longrightarrow> tab_get (u, i) (table w) = Some it \<Longrightarrow>
   fst (updateTodo_access todo u i w) = Inr () \<and>
   tab_map (table (snd (updateTodo_access todo u i w))) =
     (tab_map (table w))((u, i) \<mapsto> apply_actions (update_actions todo) it) \<and>
   map_of (apply_actions (update_actions todo) it) =
     (map_of it)(''name'' \<mapsto> S (name todo), ''dueDate'' \<mapsto> S (dueDate todo), ''done'' \<mapsto> BOOL (done' todo))"
proof -
  assume a: "available w" "valid_key (u, i)" "tab_get (u, i) (table w) = Some it"
  then have "cond_holds (update_condition i) (tab_get (u, i) (table w))"
    using update_condition_exists [of u i "table w"] by simp
  with a have "updateTodo_access todo u i w =
      (Inr (), (log_info access_logger (''Update todo by id: '' @ i) w)\<lparr>table := tab_put (apply_actions (update_actions todo) it) (table w)\<rparr>)"
    by (simp add: updateTodo_access_def store_write_def update_item_def valid_update_actions)
  moreover have "item_key (apply_actions (update_actions todo) it) = (u, i)"
    using a(3) by (simp add: item_key_apply_actions update_actions_def key_attr_def tab_get_key)
  ultimately show ?thesis by (simp add: tab_map_put update_actions_map_of)
qed

lemma tab_delete_absent: "tab_get k t = None \<Longrightarrow> tab_delete k t = t"
  by (simp add: tab_get_def tab_delete_def find_None_iff filter_id_conv)

lemma tab_delete_idem: "tab_delete k (tab_delete k t) = tab_delete k t"
  by (simp add: tab_delete_def)

theorem deleteTodo_absent:
  "available w \<Longrightarrow> valid_key (u, i) \<Longrightarrow> tab_get (u, i) (table w) = None \<Longrightarrow>
   deleteTodo_access u i w = (Inr (), log_info access_logger (''Delete todo by id: '' @ i) w)"
  by (simp add: deleteTodo_access_def store_write_def delete_item_def tab_delete_absent log_info_def)

theorem deleteTodo_twice:
  "available w \<Longrightarrow> valid_key (u, i) \<Longrightarrow>
   fst (deleteTodo_access u i (snd (deleteTodo_access u i w))) = Inr () \<and>
   table (snd (deleteTodo_access u i (snd (deleteTodo_access u i w)))) =
   table (snd (deleteTodo_access u i w))"
  by (simp add: deleteTodo_access_def store_write_def delete_item_def tab_delete_idem log_info_def)

text \<open>C26: When a user's items fit in one 1 MB page, getTodos returns exactly the user's items in todoId order.\<close>

theorem getTodos_complete:
  "available w \<Longrightarrow> u \<noteq> [] \<Longrightarrow>
   sum_list (map item_size (filter (\<lambda>it. fst (item_key it) = u) (table w))) \<le> page_limit \<Longrightarrow>
   fst (getTodos_access u w) = Inr (filter (\<lambda>it. fst (item_key it) = u) (table w))"
  by (simp add: getTodos_access_def store_read_def query_partition_def take_page_all)

text \<open>C27: When a user's items exceed one 1 MB page, getTodos returns a strict prefix of them: the remaining items are never fetched.\<close>

theorem getTodos_truncated:
  "available w \<Longrightarrow> u \<noteq> [] \<Longrightarrow>
   page_limit < sum_list (map item_size (filter (\<lambda>it. fst (item_key it) = u) (table w))) \<Longrightarrow>
   \<exists>r. fst (getTodos_access u w) = Inr r \<and> length r < length (filter (\<lambda>it. fst (item_key it) = u) (table w))
     \<and> (\<exists>rest. filter (\<lambda>it. fst (item_key it) = u) (table w) = r @ rest)"
  using take_page_strict take_page_prefix
  by (simp add: getTodos_access_def store_read_def query_partition_def)

text \<open>C28: getTodos returns only the caller's items, in strictly increasing todoId order.\<close>

theorem getTodos_sorted:
  "tab_inv (table w) \<Longrightarrow> fst (getTodos_access u w) = Inr r \<Longrightarrow>
   sorted_wrt (\<lambda>a b. snd (item_key a) < snd (item_key b)) r \<and> (\<forall>it \<in> set r. fst (item_key it) = u \<and> it \<in> set (table w))"
proof -
  assume inv: "tab_inv (table w)" and q: "fst (getTodos_access u w) = Inr r"
  let ?p = "filter (\<lambda>it. fst (item_key it) = u) (table w)"
  from q have r: "r = take_page page_limit ?p"
    by (auto simp: getTodos_access_def store_read_def query_partition_def Let_def split: if_splits)
  obtain rest where p: "?p = r @ rest" using take_page_prefix r by blast
  have "sorted_wrt (\<lambda>a b. snd (item_key a) < snd (item_key b)) ?p"
    using inv by (simp add: tab_inv_def sorted_partition_todoId)
  with p have "sorted_wrt (\<lambda>a b. snd (item_key a) < snd (item_key b)) r"
    by (simp add: sorted_wrt_append)
  moreover have "set r \<subseteq> set ?p" using p by auto
  ultimately show ?thesis by auto
qed

lemma marshall_valid_put: "valid_key (userId todo, todoId todo) \<Longrightarrow> valid_put (marshall_todo todo)"
  unfolding valid_put_def item_key_marshall by (simp add: marshall_todo_def split: option.split)

theorem createTodo_access_stores:
  "available w \<Longrightarrow> valid_key (userId todo, todoId todo) \<Longrightarrow>
   fst (createTodo_access todo w) = Inr todo \<and>
   tab_map (table (snd (createTodo_access todo w))) = (tab_map (table w))((userId todo, todoId todo) \<mapsto> marshall_todo todo)"
  by (simp add: createTodo_access_def store_write_def put_item_def marshall_valid_put tab_map_put)

lemma createTodo_access_invalid:
  "\<not> valid_key (userId todo, todoId todo) \<Longrightarrow> fst (createTodo_access todo w) \<noteq> Inr todo"
  by (auto simp: createTodo_access_def store_write_def put_item_def valid_put_def Let_def split: prod.splits)

lemma store_write_typed:
  "(\<And>t'. op (table w) = Inr t' \<Longrightarrow> list_all P t') \<Longrightarrow> list_all P (table w) \<Longrightarrow>
   list_all P (table (snd (store_write op w)))"
  by (auto simp: store_write_def split: sum.split)

lemma update_actions_typed:
  "unmarshall_todo it = Some t \<Longrightarrow>
   unmarshall_todo (apply_actions (update_actions upd) it) =
     Some (t\<lparr>name := name upd, dueDate := dueDate upd, done' := done' upd\<rparr>)"
proof -
  assume u: "unmarshall_todo it = Some t"
  have "unmarshall_todo (apply_actions (update_actions upd) it) =
        unmarshall_todo ([(''done'', BOOL (done' upd)), (''dueDate'', S (dueDate upd)), (''name'', S (name upd))] @ it)"
    by (rule unmarshall_todo_map_of) (simp add: apply_actions_as_prefix update_actions_def)
  also have "\<dots> = Some (t\<lparr>name := name upd, dueDate := dueDate upd, done' := done' upd\<rparr>)"
    using u by (auto simp: unmarshall_todo_def split: option.splits attr_value.splits)
  finally show ?thesis .
qed

text \<open>The update expression on a stored item is the record update of the
  \<open>TodoItem\<close> it holds: the three fields change, every other field is kept.\<close>

theorem update_actions_record:
  "unmarshall_todo (apply_actions (update_actions upd) (marshall_todo t)) =
     Some (t\<lparr>name := name upd, dueDate := dueDate upd, done' := done' upd\<rparr>)"
  by (rule update_actions_typed) (rule unmarshall_marshall)

lemma typed_update_actions:
  "list_all is_todo_item t \<Longrightarrow> tab_get k t = Some it \<Longrightarrow> is_todo_item (apply_actions (update_actions upd) it)"
  by (auto simp: list_all_iff is_todo_item_def update_actions_typed dest!: tab_get_in_set)

lemma access_typed:
  assumes "list_all is_todo_item (table w)"
  shows "list_all is_todo_item (table (snd (createTodo_access todo w)))"
    "list_all is_todo_item (table (snd (updateTodo_access upd u i w)))"
    "list_all is_todo_item (table (snd (deleteTodo_access u i w)))"
    "list_all is_todo_item (table (snd (getTodos_access u w)))"
proof -
  have l: "list_all is_todo_item (table (log_info lg m w))" for lg m using assms by simp
  show "list_all is_todo_item (table (snd (createTodo_access todo w)))"
    unfolding createTodo_access_def Let_def case_prod_beta snd_conv
    using l by (intro store_write_typed)
      (auto simp: put_item_def is_todo_item_def unmarshall_marshall intro: list_all_tab_put split: if_splits)
  show "list_all is_todo_item (table (snd (updateTodo_access upd u i w)))"
    unfolding updateTodo_access_def
    using l by (intro store_write_typed)
      (auto dest!: update_item_Inr simp: cond_holds_def update_condition_def typed_update_actions list_all_tab_put
        split: option.splits)
  show "list_all is_todo_item (table (snd (deleteTodo_access u i w)))"
    unfolding deleteTodo_access_def
    using l by (intro store_write_typed) (auto simp: delete_item_def list_all_tab_delete split: if_splits)
  show "list_all is_todo_item (table (snd (getTodos_access u w)))"
    using assms by (simp add: getTodos_access_def Let_def)
qed

lemma store_write_frame:
  "(\<And>t'. op (table w) = Inr t' \<Longrightarrow> tab_map t' k = tab_map (table w) k) \<Longrightarrow>
   tab_map (table (snd (store_write op w))) k = tab_map (table w) k"
  by (auto simp: store_write_def split: sum.split)

text \<open>Each write of the data layer touches only the key it names.\<close>

lemma access_frame:
  "k \<noteq> (userId todo, todoId todo) \<Longrightarrow> tab_map (table (snd (createTodo_access todo w))) k = tab_map (table w) k"
  "k \<noteq> (u, i) \<Longrightarrow> tab_map (table (snd (updateTodo_access upd u i w))) k = tab_map (table w) k"
  "k \<noteq> (u, i) \<Longrightarrow> tab_map (table (snd (deleteTodo_access u i w))) k = tab_map (table w) k"
proof -
  show "k \<noteq> (userId todo, todoId todo) \<Longrightarrow> tab_map (table (snd (createTodo_access todo w))) k = tab_map (table w) k"
    unfolding createTodo_access_def Let_def case_prod_beta snd_conv
    by (rule trans [OF store_write_frame]) (auto dest: put_item_frame)
  show "k \<noteq> (u, i) \<Longrightarrow> tab_map (table (snd (updateTodo_access upd u i w))) k = tab_map (table w) k"
    unfolding updateTodo_access_def by (rule trans [OF store_write_frame]) (auto dest: update_item_frame)
  show "k \<noteq> (u, i) \<Longrightarrow> tab_map (table (snd (deleteTodo_access u i w))) k = tab_map (table w) k"
    unfolding deleteTodo_access_def by (rule trans [OF store_write_frame]) (auto dest: delete_item_frame)
qed

text \<open>The data layer's writes refine abstract specifications: the update refines
  \<open>todo_update_spec\<close> through \<open>attr_view\<close>, the delete the map removal \<open>spec_delete\<close>.\<close>


text \<open>C12: The data layer's delete is the abstract removal of the key from the key-value map.\<close>

theorem deleteTodo_access_refines:
  "available w \<Longrightarrow>
   map_sum id (\<lambda>_. tab_map (table (snd (deleteTodo_access u i w)))) (fst (deleteTodo_access u i w)) =
   spec_delete (u, i) (tab_map (table w))"
  using delete_item_refines [of "(u, i)" "table w"]
  by (cases "delete_item (u, i) (table w)") (simp_all add: deleteTodo_access_def store_write_def)

text \<open>C13: A todo stored by the data layer's createTodo reads back from the table as the same TodoItem.\<close>

theorem createTodo_access_roundtrip:
  "available w \<Longrightarrow> valid_key (userId todo, todoId todo) \<Longrightarrow>
   map_option unmarshall_todo (tab_map (table (snd (createTodo_access todo w))) (userId todo, todoId todo)) = Some (Some todo)"
  using createTodo_access_stores [of w todo] by (simp add: unmarshall_marshall)

lemma access_inv:
  "tab_inv (table w) \<Longrightarrow> tab_inv (table (snd (createTodo_access todo w)))"
  "tab_inv (table w) \<Longrightarrow> tab_inv (table (snd (updateTodo_access upd u i w)))"
  "tab_inv (table w) \<Longrightarrow> tab_inv (table (snd (deleteTodo_access u i w)))"
  "table (snd (getTodos_access u w)) = table w"
proof -
  assume "tab_inv (table w)"
  then have "tab_inv (table (log_info lg m w))" for lg m by simp
  note * = store_write_inv [OF _ this]
  have "snd (createTodo_access todo w) =
      snd (store_write (put_item (marshall_todo todo)) (log_info access_logger (''Create todo:  '' @ todoId todo) w))"
    by (simp add: createTodo_access_def Let_def split: prod.split)
  then show "tab_inv (table (snd (createTodo_access todo w)))"
    using * [OF put_item_inv] by simp
  show "tab_inv (table (snd (updateTodo_access upd u i w)))"
    using * [OF update_item_inv] by (simp add: updateTodo_access_def)
  show "tab_inv (table (snd (deleteTodo_access u i w)))"
    using * [OF delete_item_inv] by (simp add: deleteTodo_access_def)
next
  show "table (snd (getTodos_access u w)) = table w" by (simp add: getTodos_access_def Let_def)
qed

subsection \<open>Examples\<close>

theorem getTodos_complete_witness:
  "fst (getTodos_access ''u1'' \<lparr>table = [], available = True, clock = 0, rng = 0, logs = []\<rparr>) = Inr []"
  using getTodos_complete [of "\<lparr>table = [], available = True, clock = 0, rng = 0, logs = []\<rparr>" "''u1''"]
  by simp

theorem getTodos_truncated_witness:
  "list_all (\<lambda>it. item_size it \<le> 409600)
     [[(''userId'', S ''u1''), (''todoId'', S ''t1''), (''name'', S (replicate 360000 CHR ''a''))],
      [(''userId'', S ''u1''), (''todoId'', S ''t2''), (''name'', S (replicate 360000 CHR ''b''))],
      [(''userId'', S ''u1''), (''todoId'', S ''t3''), (''name'', S (replicate 360000 CHR ''c''))]] \<and>
   (\<exists>r. fst (getTodos_access ''u1''
      \<lparr>table = [[(''userId'', S ''u1''), (''todoId'', S ''t1''), (''name'', S (replicate 360000 CHR ''a''))],
                [(''userId'', S ''u1''), (''todoId'', S ''t2''), (''name'', S (replicate 360000 CHR ''b''))],
                [(''userId'', S ''u1''), (''todoId'', S ''t3''), (''name'', S (replicate 360000 CHR ''c''))]],
       available = True, clock = 0, rng = 0, logs = []\<rparr>) = Inr r \<and> length r < 3)"
  using getTodos_truncated [of "\<lparr>table = [[(''userId'', S ''u1''), (''todoId'', S ''t1''), (''name'', S (replicate 360000 CHR ''a''))],
                [(''userId'', S ''u1''), (''todoId'', S ''t2''), (''name'', S (replicate 360000 CHR ''b''))],
                [(''userId'', S ''u1''), (''todoId'', S ''t3''), (''name'', S (replicate 360000 CHR ''c''))]],
       available = True, clock = 0, rng = 0, logs = []\<rparr>" "''u1''"]
  by (simp add: item_key_def item_size_def page_limit_def numeral_3_eq_3) blast

theorem getTodos_sorted_witness:
  "fst (getTodos_access ''u1''
      \<lparr>table = [[(''userId'', S ''u1''), (''todoId'', S ''t1'')], [(''userId'', S ''u1''), (''todoId'', S ''t2'')],
                [(''userId'', S ''u2''), (''todoId'', S ''t0'')]],
       available = True, clock = 0, rng = 0, logs = []\<rparr>) =
     Inr [[(''userId'', S ''u1''), (''todoId'', S ''t1'')], [(''userId'', S ''u1''), (''todoId'', S ''t2'')]] \<and>
   sorted_wrt (\<lambda>a b. snd (item_key a) < snd (item_key b))
     [[(''userId'', S ''u1''), (''todoId'', S ''t1'')], [(''userId'', S ''u1''), (''todoId'', S ''t2'')]] \<and>
   list_all (\<lambda>it. fst (item_key it) = ''u1'')
     [[(''userId'', S ''u1''), (''todoId'', S ''t1'')], [(''userId'', S ''u1''), (''todoId'', S ''t2'')]]"
proof -
  have q: "fst (getTodos_access ''u1''
      \<lparr>table = [[(''userId'', S ''u1''), (''todoId'', S ''t1'')], [(''userId'', S ''u1''), (''todoId'', S ''t2'')],
                [(''userId'', S ''u2''), (''todoId'', S ''t0'')]],
       available = True, clock = 0, rng = 0, logs = []\<rparr>) =
     Inr [[(''userId'', S ''u1''), (''todoId'', S ''t1'')], [(''userId'', S ''u1''), (''todoId'', S ''t2'')]]"
    by (simp add: getTodos_access_def store_read_def query_partition_def item_key_def item_size_def page_limit_def Let_def)
  have i: "tab_inv [[(''userId'', S ''u1''), (''todoId'', S ''t1'')], [(''userId'', S ''u1''), (''todoId'', S ''t2'')],
                [(''userId'', S ''u2''), (''todoId'', S ''t0'')]]"
    by (simp add: tab_inv_def item_key_def valid_key_def)
  from getTodos_sorted [OF _ q] i q show ?thesis by (simp add: list_all_iff)
qed

theorem deleteTodo_twice_witness:
  "fst (deleteTodo_access ''u1'' ''t1'' (snd (deleteTodo_access ''u1'' ''t1'' \<lparr>table = [], available = True, clock = 0, rng = 0, logs = []\<rparr>))) = Inr ()"
  using deleteTodo_twice [of "\<lparr>table = [], available = True, clock = 0, rng = 0, logs = []\<rparr>" "''u1''" "''t1''"]
  by (simp add: valid_key_def)


theorem deleteTodo_access_refines_witness:
  "map_sum id (\<lambda>_. tab_map (table (snd (deleteTodo_access ''u1'' ''t1'' \<lparr>table = [], available = True, clock = 0, rng = 0, logs = []\<rparr>))))
     (fst (deleteTodo_access ''u1'' ''t1'' \<lparr>table = [], available = True, clock = 0, rng = 0, logs = []\<rparr>)) = spec_delete (''u1'', ''t1'') Map.empty"
  using deleteTodo_access_refines [of "\<lparr>table = [], available = True, clock = 0, rng = 0, logs = []\<rparr>" "''u1''" "''t1''"]
  by (simp add: tab_map_def)

theorem createTodo_access_roundtrip_witness:
  "map_option unmarshall_todo (tab_map (table (snd (createTodo_access \<lparr>name = ''milk'', dueDate = ''d'', done' = False, userId = ''u1'', todoId = ''t1'', createdAt = ''c'', attachmentUrl = None\<rparr> \<lparr>table = [], available = True, clock = 0, rng = 0, logs = []\<rparr>))) (''u1'', ''t1'')) =
   Some (Some \<lparr>name = ''milk'', dueDate = ''d'', done' = False, userId = ''u1'', todoId = ''t1'', createdAt = ''c'', attachmentUrl = None\<rparr>)"
  using createTodo_access_roundtrip [of "\<lparr>table = [], available = True, clock = 0, rng = 0, logs = []\<rparr>" "\<lparr>name = ''milk'', dueDate = ''d'', done' = False, userId = ''u1'', todoId = ''t1'', createdAt = ''c'', attachmentUrl = None\<rparr>"]
  by (simp add: valid_key_def)

end
