(* ===== verification/S3.thy ===== *)
theory S3
  imports Model
begin

text \<open>
  The object store's URL presigner, \<open>s3.getSignedUrl('putObject', params)\<close> of the SDK
  with signature version 4, as documented: a falsy \<open>Expires\<close> (\<open>NaN\<close>, \<open>0\<close>) is
  replaced by the default 900 seconds; an expiry beyond one week is refused
  (\<open>InvalidExpiryTime\<close>); the URL is the bucket's virtual host, the object key
  URI-escaped segment by segment, and the query parameters sorted by name, the
  signature among them.  The signature itself (an HMAC over the canonical request with
  a key derived from the credentials) is a function of the client, \<open>s3_sign\<close>, applied
  to the string the signer signs.  The date in the URL is \<open>X-Amz-Date\<close> of the
  current time.
\<close>

record s3_client =
  s3_host :: string
  s3_region :: string
  s3_access_key :: string
  s3_session_token :: string
  s3_sign :: "string \<Rightarrow> string"

definition hex_upper :: "nat \<Rightarrow> char" where
  "hex_upper d = (if d < 10 then char_of (48 + d) else char_of (55 + d))"

definition unreserved :: "char \<Rightarrow> bool" where
  "unreserved c \<longleftrightarrow> (CHR ''a'' \<le> c \<and> c \<le> CHR ''z'') \<or> (CHR ''A'' \<le> c \<and> c \<le> CHR ''Z'')
     \<or> (CHR ''0'' \<le> c \<and> c \<le> CHR ''9'') \<or> c \<in> set ''-_.~''"

definition uri_escape_char :: "char \<Rightarrow> string" where
  "uri_escape_char c =
     (if unreserved c then [c]
      else [CHR ''%'', hex_upper (of_char c div 16), hex_upper (of_char c mod 16)])"

definition uri_escape :: "string \<Rightarrow> string" where
  "uri_escape s = concat (map uri_escape_char s)"

definition uri_escape_path :: "string \<Rightarrow> string" where
  "uri_escape_path s = js_join CHR ''/'' (map uri_escape (js_split CHR ''/'' s))"

definition int_string :: "int \<Rightarrow> string" where
  "int_string i = (if i < 0 then CHR ''-'' # dec_string (nat (- i)) else dec_string (nat i))"

definition query_string :: "(string \<times> string) list \<Rightarrow> string" where
  "query_string ps = js_join CHR ''&'' (map (\<lambda>(k, v). k @ ''='' @ uri_escape v) ps)"

definition presign_expires :: "int option \<Rightarrow> error + int" where
  "presign_expires e =
     (let x = (case e of None \<Rightarrow> 900 | Some v \<Rightarrow> if v = 0 then 900 else v)
      in if 604800 < x then Inl InvalidExpiryTime else Inr x)"

definition object_url :: "s3_client \<Rightarrow> string \<Rightarrow> string \<Rightarrow> string" where
  "object_url c bucket key = ''https://'' @ bucket @ ''.'' @ s3_host c @ ''/'' @ uri_escape_path key"

definition presign_put :: "s3_client \<Rightarrow> string \<Rightarrow> string \<Rightarrow> int option \<Rightarrow> nat \<Rightarrow> error + string" where
  "presign_put c bucket key e now =
     (case presign_expires e of
        Inl err \<Rightarrow> Inl err
      | Inr x \<Rightarrow>
          (case amz_date now of
             None \<Rightarrow> Inl RangeError
           | Some d \<Rightarrow>
               let scope = take 8 d @ ''/'' @ s3_region c @ ''/s3/aws4_request'';
                   params = [(''X-Amz-Algorithm'', ''AWS4-HMAC-SHA256''),
                             (''X-Amz-Credential'', s3_access_key c @ ''/'' @ scope),
                             (''X-Amz-Date'', d),
                             (''X-Amz-Expires'', int_string x),
                             (''X-Amz-Security-Token'', s3_session_token c)];
                   to_sign = ''AWS4-HMAC-SHA256'' @ d @ scope @ ''PUT'' @ object_url c bucket key
                             @ query_string params @ ''UNSIGNED-PAYLOAD'';
                   sig = s3_sign c to_sign
               in Inr (object_url c bucket key @ ''?'' @
                       query_string (params @ [(''X-Amz-Signature'', sig), (''X-Amz-SignedHeaders'', ''host'')]))))"

subsection \<open>Properties of the presigner\<close>

lemma presign_put_ok:
  "presign_expires e = Inr x \<Longrightarrow> now \<le> max_time \<Longrightarrow> \<exists>url. presign_put c b k e now = Inr url"
  using amz_date_defined [of now] by (auto simp: presign_put_def Let_def)

lemma uri_escape_unreserved: "list_all unreserved s \<Longrightarrow> uri_escape s = s"
  by (induction s) (simp_all add: uri_escape_def uri_escape_char_def)

lemma uri_escape_path_unreserved: "list_all unreserved s \<Longrightarrow> uri_escape_path s = s"
proof -
  assume u: "list_all unreserved s"
  have "\<not> unreserved CHR ''/''" by (simp add: unreserved_def)
  with u have "CHR ''/'' \<notin> set s" by (auto simp: list_all_iff)
  with u show ?thesis by (simp add: uri_escape_path_def js_split_no_sep_single uri_escape_unreserved)
qed

lemma uri_escape_append: "uri_escape (a @ b) = uri_escape a @ uri_escape b"
  by (simp add: uri_escape_def)

lemma uri_escape_Cons: "uri_escape (c # s) = uri_escape_char c @ uri_escape s"
  by (simp add: uri_escape_def)

lemma dec_digit_unreserved: "is_dec_digit c \<Longrightarrow> unreserved c"
  by (simp add: is_dec_digit_def unreserved_def)

lemma amz_date_shape:
  "amz_date t = Some d \<Longrightarrow> year (date_of_time t) \<le> 9999 \<Longrightarrow> list_all unreserved d"
proof -
  assume a: "amz_date t = Some d" "year (date_of_time t) \<le> 9999"
  have p: "list_all unreserved (pad k n)" for k n
    using pad_digits [of k n] by (auto simp: list_all_iff dec_digit_unreserved)
  show ?thesis using amz_date_form [OF a] p by (simp add: unreserved_def)
qed

lemma amz_date_length:
  "amz_date t = Some d \<Longrightarrow> year (date_of_time t) \<le> 9999 \<Longrightarrow> length d = 16"
proof -
  assume a: "amz_date t = Some d" "year (date_of_time t) \<le> 9999"
  note b = date_of_time_bounds [of t]
  have "month (date_of_time t) - 1 < 12" using b by linarith
  then have "day (date_of_time t) \<le> 31" using b days_in_month_le by (metis le_trans)
  then show ?thesis using amz_date_form [OF a] a(2) b by (simp add: length_pad)
qed

lemma presign_put_split:
  assumes "presign_put c bucket key e t = Inr u" "amz_date t = Some d" "list_all unreserved d"
  shows "\<exists>r. u = (object_url c bucket key @ ''?X-Amz-Algorithm='' @ uri_escape ''AWS4-HMAC-SHA256'' @
                   ''&X-Amz-Credential='' @ uri_escape (s3_access_key c @ ''/'')) @ take 8 d @
                  (uri_escape (''/'' @ s3_region c @ ''/s3/aws4_request'') @ ''&X-Amz-Date='') @ d @ r"
proof -
  have t8: "list_all unreserved (take 8 d)" using assms(3) by (auto simp: list_all_iff dest: in_set_takeD)
  show ?thesis using assms
    by (auto simp: presign_put_def query_string_def Let_def uri_escape_append uri_escape_Cons uri_escape_unreserved t8
        split: sum.splits)
qed

lemma presign_put_date:
  assumes "presign_put c bucket key e t1 = Inr u" "presign_put c bucket key e t2 = Inr u"
    "year (date_of_time t1) \<le> 9999" "year (date_of_time t2) \<le> 9999"
  shows "amz_date t1 = amz_date t2"
proof -
  obtain d1 d2 where d: "amz_date t1 = Some d1" "amz_date t2 = Some d2"
    using assms(1,2) by (auto simp: presign_put_def split: sum.splits option.splits)
  have l: "length d1 = 16" "length d2 = 16" using d assms(3,4) amz_date_length by blast+
  obtain r1 where r1: "u = A @ take 8 d1 @ B @ d1 @ r1"
    if "A = object_url c bucket key @ ''?X-Amz-Algorithm='' @ uri_escape ''AWS4-HMAC-SHA256'' @
                   ''&X-Amz-Credential='' @ uri_escape (s3_access_key c @ ''/'')"
       "B = uri_escape (''/'' @ s3_region c @ ''/s3/aws4_request'') @ ''&X-Amz-Date=''" for A B
    using presign_put_split [OF assms(1) d(1) amz_date_shape [OF d(1) assms(3)]] by blast
  obtain r2 where r2: "u = A @ take 8 d2 @ B @ d2 @ r2"
    if "A = object_url c bucket key @ ''?X-Amz-Algorithm='' @ uri_escape ''AWS4-HMAC-SHA256'' @
                   ''&X-Amz-Credential='' @ uri_escape (s3_access_key c @ ''/'')"
       "B = uri_escape (''/'' @ s3_region c @ ''/s3/aws4_request'') @ ''&X-Amz-Date=''" for A B
    using presign_put_split [OF assms(2) d(2) amz_date_shape [OF d(2) assms(4)]] by blast
  from r1 [OF refl refl] r2 [OF refl refl]
  have "take 8 d1 @ (uri_escape (''/'' @ s3_region c @ ''/s3/aws4_request'') @ ''&X-Amz-Date='') @ d1 @ r1 =
        take 8 d2 @ (uri_escape (''/'' @ s3_region c @ ''/s3/aws4_request'') @ ''&X-Amz-Date='') @ d2 @ r2"
    by simp
  then have "d1 @ r1 = d2 @ r2" using l by (simp add: append_eq_append_conv)
  then have "d1 = d2" using l by (simp add: append_eq_append_conv)
  with d show ?thesis by simp
qed

end
