(* ===== verification/Attachment.thy ===== *)
theory Attachment
  imports Access S3
begin

text \<open>
  The attachment helper, \<open>src/.../helpers/attachmentUtils.ts\<close>.  The module reads its
  configuration once (bucket name and \<open>SIGNED_URL_EXPIRATION\<close> from the environment, an
  S3 client with signature version 4): \<open>config\<close> holds it.  \<open>getSignedUploadUrl\<close>
  presigns a \<open>putObject\<close> of the key \<open>todoId\<close> with \<open>Expires: parseInt(urlExpiration)\<close>;
  \<open>AttachmentUtil.generateUploadUrl\<close> keeps the part of that URL before the first
  \<open>?\<close>, logs it, and writes it to the item's \<open>attachmentUrl\<close> by an update with no
  condition expression, so that on an absent item the store creates one.  A presigner
  error is thrown before anything is logged or written.
\<close>

record config =
  bucket_name :: string
  url_expiration :: "string option"
  s3 :: s3_client

definition attach_logger :: string where
  "attach_logger = ''todos''"

definition getSignedUploadUrl :: "config \<Rightarrow> todo_id \<Rightarrow> world \<Rightarrow> error + string" where
  "getSignedUploadUrl cfg tid w =
     presign_put (s3 cfg) (bucket_name cfg) tid
       (js_parseInt (case url_expiration cfg of None \<Rightarrow> ''undefined'' | Some s \<Rightarrow> s)) (clock w)"

definition attachment_actions :: "string \<Rightarrow> update_action list" where
  "attachment_actions url = [SET ''attachmentUrl'' (S url)]"

definition generateUploadUrl_attach ::
  "config \<Rightarrow> todo_id \<Rightarrow> user_id \<Rightarrow> world \<Rightarrow> (error + string) \<times> world" where
  "generateUploadUrl_attach cfg tid uid w =
     (case getSignedUploadUrl cfg tid w of
        Inl e \<Rightarrow> (Inl e, w)
      | Inr signed \<Rightarrow>
          let url = hd (js_split CHR ''?'' signed);
              w1 = log_info attach_logger (''createUploadUrl: '' @ url @ '', userId: '' @ uid) w;
              (r, w2) = store_write (update_item (uid, tid) (attachment_actions url) None) w1
          in (case r of Inl e \<Rightarrow> Inl e | Inr _ \<Rightarrow> Inr url, w2))"

definition no_qmark_config :: "config \<Rightarrow> bool" where
  "no_qmark_config cfg \<longleftrightarrow> CHR ''?'' \<notin> set (bucket_name cfg) \<and> CHR ''?'' \<notin> set (s3_host (s3 cfg))"

text \<open>A configuration for examples: a bucket, a five-minute expiry and a client.\<close>

definition demo_cfg :: config where
  "demo_cfg = \<lparr>bucket_name = ''todo-attachments'', url_expiration = Some ''300'',
     s3 = \<lparr>s3_host = ''s3.amazonaws.com'', s3_region = ''us-east-1'', s3_access_key = ''AKID'',
           s3_session_token = ''token'', s3_sign = (\<lambda>_. ''signature'')\<rparr>\<rparr>"

subsection \<open>Behaviour of the attachment helper\<close>

lemma set_js_join: "set (js_join c ps) \<subseteq> insert c (\<Union>p \<in> set ps. set p)"
  by (induction c ps rule: js_join.induct) auto

lemma hex_upper_not_qmark: "d < 16 \<Longrightarrow> hex_upper d \<noteq> CHR ''?''"
  by (auto simp: hex_upper_def char_of_eq_iff take_bit_eq_mod)

lemma qmark_reserved: "\<not> unreserved CHR ''?''"
  by (simp add: unreserved_def less_eq_char_def)

lemma uri_escape_char_no_qmark: "CHR ''?'' \<notin> set (uri_escape_char c)"
proof (cases "unreserved c")
  case True
  then have "c \<noteq> CHR ''?''" using qmark_reserved by auto
  with True show ?thesis by (simp add: uri_escape_char_def)
next
  case False
  have "of_char c div 16 < (16::nat)" using nat_of_char_less_256 [of c] by linarith
  then have "hex_upper (of_char c div 16) \<noteq> CHR ''?''" by (rule hex_upper_not_qmark)
  moreover have "hex_upper (of_char c mod 16) \<noteq> CHR ''?''" by (rule hex_upper_not_qmark) simp
  ultimately show ?thesis using False by (auto simp: uri_escape_char_def)
qed

lemma uri_escape_no_qmark: "CHR ''?'' \<notin> set (uri_escape s)"
  by (auto simp: uri_escape_def uri_escape_char_no_qmark)

lemma uri_escape_path_no_qmark: "CHR ''?'' \<notin> set (uri_escape_path s)"
  using set_js_join [of "CHR ''/''" "map uri_escape (js_split CHR ''/'' s)"] uri_escape_no_qmark
  by (auto simp: uri_escape_path_def)

lemma object_url_no_qmark:
  "CHR ''?'' \<notin> set bucket \<Longrightarrow> CHR ''?'' \<notin> set (s3_host c) \<Longrightarrow> CHR ''?'' \<notin> set (object_url c bucket key)"
  by (simp add: object_url_def uri_escape_path_no_qmark)

lemma presign_put_shape:
  "presign_put c bucket key e now = Inr url \<Longrightarrow> \<exists>q. url = object_url c bucket key @ CHR ''?'' # q"
  by (auto simp: presign_put_def Let_def split: sum.splits option.splits)

lemma signed_url_prefix:
  "no_qmark_config cfg \<Longrightarrow> getSignedUploadUrl cfg tid w = Inr signed \<Longrightarrow>
   hd (js_split CHR ''?'' signed) = object_url (s3 cfg) (bucket_name cfg) tid"
proof -
  assume c: "no_qmark_config cfg" and g: "getSignedUploadUrl cfg tid w = Inr signed"
  from g obtain q where "signed = object_url (s3 cfg) (bucket_name cfg) tid @ CHR ''?'' # q"
    by (auto simp: getSignedUploadUrl_def dest: presign_put_shape)
  moreover have "CHR ''?'' \<notin> set (object_url (s3 cfg) (bucket_name cfg) tid)"
    using c by (simp add: no_qmark_config_def object_url_no_qmark)
  ultimately show ?thesis by (simp add: js_split_append_sep)
qed

lemma attachment_update_ok:
  "valid_key k \<Longrightarrow> update_item k (attachment_actions url) None t =
     Inr (tab_put (AList.update ''attachmentUrl'' (S url) (case tab_get k t of None \<Rightarrow> key_item k | Some it \<Rightarrow> it)) t)"
  by (simp add: update_item_def valid_update_def attachment_actions_def key_attr_def cond_holds_def
      apply_actions_def Let_def)

lemma attach_key:
  "item_key (AList.update ''attachmentUrl'' v (case tab_get k t of None \<Rightarrow> key_item k | Some it \<Rightarrow> it)) = k"
proof -
  have "item_key (apply_actions [SET ''attachmentUrl'' v] (case tab_get k t of None \<Rightarrow> key_item k | Some it \<Rightarrow> it)) = k"
    by (simp add: item_key_apply_actions key_attr_def update_base_key)
  then show ?thesis by (simp add: apply_actions_def)
qed

theorem generateUploadUrl_attach_ok:
  "available w \<Longrightarrow> valid_key (u, i) \<Longrightarrow> no_qmark_config cfg \<Longrightarrow> getSignedUploadUrl cfg i w = Inr signed \<Longrightarrow>
   fst (generateUploadUrl_attach cfg i u w) = Inr (object_url (s3 cfg) (bucket_name cfg) i) \<and>
   tab_map (table (snd (generateUploadUrl_attach cfg i u w))) =
     (tab_map (table w))((u, i) \<mapsto> AList.update ''attachmentUrl'' (S (object_url (s3 cfg) (bucket_name cfg) i))
        (case tab_get (u, i) (table w) of None \<Rightarrow> key_item (u, i) | Some it \<Rightarrow> it))"
  using signed_url_prefix [of cfg i w signed]
  by (simp add: generateUploadUrl_attach_def store_write_def attachment_update_ok tab_map_put attach_key Let_def)

text \<open>C6: Generating an upload URL for a todo that does not exist creates an item holding only userId, todoId and attachmentUrl, which is not a TodoItem.\<close>

theorem generateUploadUrl_attach_absent:
  "available w \<Longrightarrow> valid_key (u, i) \<Longrightarrow> no_qmark_config cfg \<Longrightarrow> getSignedUploadUrl cfg i w = Inr signed \<Longrightarrow>
   tab_get (u, i) (table w) = None \<Longrightarrow>
   tab_map (table (snd (generateUploadUrl_attach cfg i u w))) (u, i) =
     Some [(''userId'', S u), (''todoId'', S i), (''attachmentUrl'', S (object_url (s3 cfg) (bucket_name cfg) i))] \<and>
   \<not> is_todo_item [(''userId'', S u), (''todoId'', S i), (''attachmentUrl'', S (object_url (s3 cfg) (bucket_name cfg) i))]"
  using generateUploadUrl_attach_ok [of w u i cfg signed]
  by (simp add: key_item_def is_todo_item_def unmarshall_todo_def)

lemma getSignedUploadUrl_expires:
  "getSignedUploadUrl cfg tid w =
     (case presign_expires (js_parseInt (case url_expiration cfg of None \<Rightarrow> ''undefined'' | Some s \<Rightarrow> s)) of
        Inl e \<Rightarrow> Inl e
      | Inr x \<Rightarrow> presign_put (s3 cfg) (bucket_name cfg) tid (Some x) (clock w))"
  by (simp add: getSignedUploadUrl_def presign_put_def presign_expires_def Let_def split: sum.split option.split)

text \<open>C30: An unset or zero expiration makes the presigner use its default of 900 seconds.\<close>

theorem upload_expiry_default:
  "url_expiration cfg = None \<or> url_expiration cfg = Some ''0'' \<Longrightarrow>
   getSignedUploadUrl cfg tid w = presign_put (s3 cfg) (bucket_name cfg) tid (Some 900) (clock w)"
proof -
  have u: "js_parseInt ''undefined'' = None"
    by (simp add: js_parseInt_def js_whitespace_def radix_digit_def digit_value_def)
  have z: "js_parseInt ''0'' = Some 0"
    by (simp add: js_parseInt_def js_whitespace_def radix_digit_def digit_value_def digits_val_def)
  assume "url_expiration cfg = None \<or> url_expiration cfg = Some ''0''"
  then show ?thesis using u z by (auto simp: getSignedUploadUrl_expires presign_expires_def)
qed

text \<open>C31: An expiration above one week makes URL generation fail with InvalidExpiryTime before the table is touched.\<close>

theorem upload_expiry_too_long:
  "url_expiration cfg = Some (dec_string n) \<Longrightarrow> 604800 < n \<Longrightarrow>
   getSignedUploadUrl cfg tid w = Inl InvalidExpiryTime \<and> generateUploadUrl_attach cfg tid uid w = (Inl InvalidExpiryTime, w)"
  by (simp add: generateUploadUrl_attach_def getSignedUploadUrl_expires js_parseInt_dec_string presign_expires_def)

lemma demo_signed: "w \<le> max_time \<Longrightarrow> \<exists>url. getSignedUploadUrl demo_cfg tid \<lparr>table = t, available = a, clock = w, rng = r, logs = l\<rparr> = Inr url"
proof -
  have "js_parseInt ''300'' = Some 300"
    by (simp add: js_parseInt_def js_whitespace_def radix_digit_def digit_value_def digits_val_def)
  then have "presign_expires (js_parseInt ''300'') = Inr 300" by (simp add: presign_expires_def)
  moreover assume "w \<le> max_time"
  ultimately show ?thesis using presign_put_ok by (simp add: getSignedUploadUrl_def demo_cfg_def)
qed

lemma attachment_actions_typed:
  "unmarshall_todo it = Some t \<Longrightarrow>
   unmarshall_todo (apply_actions (attachment_actions url) it) = Some (t\<lparr>attachmentUrl := Some url\<rparr>)"
proof -
  assume u: "unmarshall_todo it = Some t"
  have "unmarshall_todo (apply_actions (attachment_actions url) it) =
        unmarshall_todo ((''attachmentUrl'', S url) # it)"
    by (rule unmarshall_todo_map_of) (simp add: apply_actions_as_prefix attachment_actions_def)
  also have "\<dots> = Some (t\<lparr>attachmentUrl := Some url\<rparr>)"
    using u by (auto simp: unmarshall_todo_def split: option.splits attr_value.splits)
  finally show ?thesis .
qed

text \<open>On a stored \<open>TodoItem\<close> the attachment update is the record update of
  \<open>attachmentUrl\<close>.\<close>

theorem attachment_actions_record:
  "unmarshall_todo (apply_actions (attachment_actions url) (marshall_todo t)) = Some (t\<lparr>attachmentUrl := Some url\<rparr>)"
  by (rule attachment_actions_typed) (rule unmarshall_marshall)

lemma attach_typed:
  "list_all is_todo_item (table w) \<Longrightarrow> tab_get (u, i) (table w) \<noteq> None \<Longrightarrow>
   list_all is_todo_item (table (snd (generateUploadUrl_attach cfg i u w)))"
  unfolding generateUploadUrl_attach_def Let_def
  by (auto simp: case_prod_beta split: sum.split intro!: store_write_typed list_all_tab_put dest!: update_item_Inr)
    (auto simp: list_all_iff is_todo_item_def attachment_actions_typed dest!: tab_get_in_set)

lemma attach_frame:
  "k \<noteq> (u, i) \<Longrightarrow> tab_map (table (snd (generateUploadUrl_attach cfg i u w))) k = tab_map (table w) k"
  unfolding generateUploadUrl_attach_def Let_def
  by (auto simp: case_prod_beta split: sum.split intro!: trans [OF store_write_frame] dest: update_item_frame)

lemma attach_url:
  "no_qmark_config cfg \<Longrightarrow> fst (generateUploadUrl_attach cfg i u w) = Inr url \<Longrightarrow>
   url = object_url (s3 cfg) (bucket_name cfg) i"
  by (auto simp: generateUploadUrl_attach_def Let_def case_prod_beta signed_url_prefix split: sum.splits)

lemma getSignedUploadUrl_clock: "clock w = clock w' \<Longrightarrow> getSignedUploadUrl cfg i w = getSignedUploadUrl cfg i w'"
  by (simp add: getSignedUploadUrl_def)

subsection \<open>Examples\<close>

theorem generateUploadUrl_attach_absent_witness:
  "\<exists>it. tab_map (table (snd (generateUploadUrl_attach demo_cfg ''t1'' ''u1''
        \<lparr>table = [], available = True, clock = 0, rng = 0, logs = []\<rparr>))) (''u1'', ''t1'') = Some it \<and>
     \<not> is_todo_item it"
proof -
  have "\<exists>url. getSignedUploadUrl demo_cfg ''t1'' \<lparr>table = [], available = True, clock = 0, rng = 0, logs = []\<rparr> = Inr url"
    by (rule demo_signed) (simp add: max_time_def)
  then obtain url where u: "getSignedUploadUrl demo_cfg ''t1'' \<lparr>table = [], available = True, clock = 0, rng = 0, logs = []\<rparr> = Inr url"
    by blast
  have "no_qmark_config demo_cfg" by (simp add: no_qmark_config_def demo_cfg_def)
  from generateUploadUrl_attach_absent [OF _ _ this u] show ?thesis
    by (simp add: valid_key_def tab_get_def)
qed

theorem upload_expiry_default_witness:
  "getSignedUploadUrl (demo_cfg\<lparr>url_expiration := None\<rparr>) ''t1''
      \<lparr>table = [], available = True, clock = 0, rng = 0, logs = []\<rparr> =
   presign_put (s3 demo_cfg) (bucket_name demo_cfg) ''t1'' (Some 900) 0"
  using upload_expiry_default [of "demo_cfg\<lparr>url_expiration := None\<rparr>" "''t1''"
      "\<lparr>table = [], available = True, clock = 0, rng = 0, logs = []\<rparr>"]
  by simp

theorem upload_expiry_too_long_witness:
  "generateUploadUrl_attach (demo_cfg\<lparr>url_expiration := Some (dec_string 700000)\<rparr>) ''t1'' ''u1''
      \<lparr>table = [], available = True, clock = 0, rng = 0, logs = []\<rparr> =
   (Inl InvalidExpiryTime, \<lparr>table = [], available = True, clock = 0, rng = 0, logs = []\<rparr>)"
  using upload_expiry_too_long [of "demo_cfg\<lparr>url_expiration := Some (dec_string 700000)\<rparr>" 700000 "''t1''"
      "\<lparr>table = [], available = True, clock = 0, rng = 0, logs = []\<rparr>" "''u1''"]
  by simp

end
