(* ===== verification/Uuid.thy ===== *)
theory Uuid
  imports JsRuntime
begin

text \<open>
  \<open>uuid.v4()\<close> of the uuid package: sixteen random bytes, byte 6 forced to version 4
  (\<open>(b AND 0x0f) OR 0x40\<close>), byte 8 to the RFC 4122 variant (\<open>(b AND 0x3f) OR 0x80\<close>),
  printed as lower-case hex in groups of 4-2-2-2-6 bytes separated by dashes.  The
  random source is the world's draw counter: draw \<open>n\<close> yields the sixteen big-endian
  bytes of \<open>n\<close>, so distinct draws are distinct byte strings, the one property of a
  random source that uniqueness of identifiers rests on.
\<close>

definition hex_char :: "nat \<Rightarrow> char" where
  "hex_char d = (if d < 10 then char_of (48 + d) else char_of (87 + d))"

definition hex2 :: "nat \<Rightarrow> string" where
  "hex2 b = [hex_char (b div 16), hex_char (b mod 16)]"

fun bytes_be :: "nat \<Rightarrow> nat \<Rightarrow> nat list" where
  "bytes_be 0 v = []"
| "bytes_be (Suc k) v = bytes_be k (v div 256) @ [v mod 256]"

definition bytes16 :: "nat \<Rightarrow> nat list" where
  "bytes16 v = bytes_be 16 v"

definition uuid_mask :: "nat list \<Rightarrow> nat list" where
  "uuid_mask bs = bs[6 := bs ! 6 mod 16 + 64, 8 := bs ! 8 mod 64 + 128]"

definition uuid_stringify :: "nat list \<Rightarrow> string" where
  "uuid_stringify bs =
     concat (map hex2 (take 4 bs)) @ ''-'' @ concat (map hex2 (take 2 (drop 4 bs))) @ ''-'' @
     concat (map hex2 (take 2 (drop 6 bs))) @ ''-'' @ concat (map hex2 (take 2 (drop 8 bs))) @ ''-'' @
     concat (map hex2 (drop 10 bs))"

definition uuid_v4 :: "nat \<Rightarrow> string" where
  "uuid_v4 draw = uuid_stringify (uuid_mask (bytes16 draw))"

subsection \<open>Decoding an identifier\<close>

text \<open>The inverse of \<open>uuid_v4\<close> on draws below \<open>2^62\<close>, where the six bits the
  version and variant overwrite are zero.\<close>

definition hex_val :: "char \<Rightarrow> nat" where
  "hex_val c = the (digit_value c)"

fun unhex :: "string \<Rightarrow> nat list" where
  "unhex (a # b # rest) = (hex_val a * 16 + hex_val b) # unhex rest"
| "unhex _ = []"

definition be_value :: "nat list \<Rightarrow> nat" where
  "be_value bs = foldl (\<lambda>acc b. acc * 256 + b) 0 bs"

definition uuid_unmask :: "nat list \<Rightarrow> nat list" where
  "uuid_unmask bs = bs[6 := bs ! 6 - 64, 8 := bs ! 8 - 128]"

definition uuid_decode :: "string \<Rightarrow> nat" where
  "uuid_decode s = be_value (uuid_unmask (unhex (filter (\<lambda>c. c \<noteq> CHR ''-'') s)))"

subsection \<open>Distinct draws give distinct identifiers\<close>

lemma hex_val_hex_char: "d < 16 \<Longrightarrow> hex_val (hex_char d) = d"
  by (auto simp: hex_val_def hex_char_def digit_value_def Let_def)

lemma hex_char_not_dash: "d < 16 \<Longrightarrow> hex_char d \<noteq> CHR ''-''"
  by (auto simp: hex_char_def char_of_eq_iff take_bit_eq_mod)

lemma unhex_hex2: "list_all (\<lambda>b. b < 256) bs \<Longrightarrow> unhex (concat (map hex2 bs)) = bs"
proof (induction bs)
  case Nil then show ?case by simp
next
  case (Cons b bs)
  have "b div 16 < 16" using Cons.prems by simp linarith
  then show ?case using Cons by (simp add: hex2_def hex_val_hex_char)
qed

lemma hex2_no_dash: "b < 256 \<Longrightarrow> filter (\<lambda>c. c \<noteq> CHR ''-'') (hex2 b) = hex2 b"
proof -
  assume "b < 256"
  then have "b div 16 < 16" by simp
  then show ?thesis by (simp add: hex2_def hex_char_not_dash)
qed

lemma filter_concat_hex2: "list_all (\<lambda>b. b < 256) bs \<Longrightarrow>
  filter (\<lambda>c. c \<noteq> CHR ''-'') (concat (map hex2 bs)) = concat (map hex2 bs)"
  by (induction bs) (simp_all add: hex2_no_dash)

lemma take_drop_chunk: "take n (drop m xs) @ drop (n + m) xs = drop m xs"
  by (metis append_take_drop_id drop_drop)

lemma split_16: "take 4 bs @ take 2 (drop 4 bs) @ take 2 (drop 6 bs) @ take 2 (drop 8 bs) @ drop 10 bs = bs"
  using take_drop_chunk [of 2 8 bs] take_drop_chunk [of 2 6 bs] take_drop_chunk [of 2 4 bs]
    append_take_drop_id [of 4 bs]
  by simp

lemma filter_uuid_stringify:
  "list_all (\<lambda>b. b < 256) bs \<Longrightarrow> filter (\<lambda>c. c \<noteq> CHR ''-'') (uuid_stringify bs) = concat (map hex2 bs)"
proof -
  assume a: "list_all (\<lambda>b. b < 256) bs"
  have "list_all (\<lambda>b. b < 256) (take n (drop m bs))" "list_all (\<lambda>b. b < 256) (drop m bs)"
    "list_all (\<lambda>b. b < 256) (take n bs)" for n m
    using a by (auto simp: list_all_iff dest: in_set_takeD in_set_dropD)
  then have "filter (\<lambda>c. c \<noteq> CHR ''-'') (uuid_stringify bs) =
      concat (map hex2 (take 4 bs @ take 2 (drop 4 bs) @ take 2 (drop 6 bs) @ take 2 (drop 8 bs) @ drop 10 bs))"
    by (simp add: uuid_stringify_def filter_concat_hex2 del: append_take_drop_id)
  then show ?thesis by (simp only: split_16)
qed

lemma length_bytes_be [simp]: "length (bytes_be k v) = k"
  by (induction k arbitrary: v) simp_all

lemma bytes_be_bound: "list_all (\<lambda>b. b < 256) (bytes_be k v)"
  by (induction k arbitrary: v) simp_all

lemma be_value_bytes_be: "be_value (bytes_be k v) = v mod 256 ^ k"
proof (induction k arbitrary: v)
  case 0 then show ?case by (simp add: be_value_def)
next
  case (Suc k)
  have "be_value (bytes_be (Suc k) v) = (v div 256) mod 256 ^ k * 256 + v mod 256"
    using Suc by (simp add: be_value_def)
  also have "\<dots> = v mod 256 ^ Suc k"
    by (simp add: mod_mult2_eq mult.commute)
  finally show ?case .
qed

lemma nth_bytes_be: "i < k \<Longrightarrow> bytes_be k v ! i = v div 256 ^ (k - Suc i) mod 256"
proof (induction k arbitrary: v)
  case 0 then show ?case by simp
next
  case (Suc k)
  show ?case
  proof (cases "i < k")
    case True
    with Suc.IH have "bytes_be k (v div 256) ! i = v div 256 div 256 ^ (k - Suc i) mod 256" by simp
    moreover have "(256::nat) ^ (Suc k - Suc i) = 256 * 256 ^ (k - Suc i)"
      using True by (simp add: Suc_diff_Suc [symmetric])
    ultimately show ?thesis using True by (simp add: nth_append div_mult2_eq)
  next
    case False
    with Suc.prems have "i = k" by simp
    then show ?thesis by (simp add: nth_append)
  qed
qed

lemma list_all_update: "list_all P xs \<Longrightarrow> P x \<Longrightarrow> list_all P (xs[i := x])"
  by (auto simp: list_all_iff dest: set_update_subset_insert [THEN subsetD])

lemma uuid_mask_bound: "list_all (\<lambda>b. b < 256) bs \<Longrightarrow> list_all (\<lambda>b. b < 256) (uuid_mask bs)"
  by (simp add: uuid_mask_def list_all_update)

lemma uuid_unmask_mask:
  "length bs = 16 \<Longrightarrow> bs ! 6 < 16 \<Longrightarrow> bs ! 8 < 64 \<Longrightarrow> uuid_unmask (uuid_mask bs) = bs"
  by (simp add: uuid_unmask_def uuid_mask_def nth_list_update) (rule nth_equalityI, auto simp: nth_list_update)

lemma bytes16_low_draw:
  assumes "v < 2 ^ 62"
  shows "bytes16 v ! 6 < 16" "bytes16 v ! 8 < 64"
proof -
  have "v < 256 ^ 9" using assms by simp
  then have "v div 256 ^ 9 = 0" by simp
  then show "bytes16 v ! 6 < 16" by (simp add: bytes16_def nth_bytes_be)
  have "v div 256 ^ 7 < 64" using assms by (simp add: div_less_iff_less_mult)
  then show "bytes16 v ! 8 < 64" by (simp add: bytes16_def nth_bytes_be)
qed

lemma decode_draw: "v < 2 ^ 62 \<Longrightarrow> be_value (uuid_unmask (unhex (filter (\<lambda>c. c \<noteq> CHR ''-'') (uuid_v4 v)))) = v"
proof -
  assume v: "v < 2 ^ 62"
  have b: "list_all (\<lambda>b. b < 256) (uuid_mask (bytes16 v))"
    by (simp add: uuid_mask_bound bytes16_def bytes_be_bound)
  have "uuid_unmask (uuid_mask (bytes16 v)) = bytes16 v"
    using bytes16_low_draw [OF v] by (simp add: uuid_unmask_mask bytes16_def)
  moreover have "v mod 256 ^ 16 = v" using v by simp
  ultimately show ?thesis
    using b by (simp add: uuid_v4_def filter_uuid_stringify unhex_hex2 be_value_bytes_be bytes16_def)
qed

lemma uuid_v4_unique: "v < 2 ^ 62 \<Longrightarrow> v' < 2 ^ 62 \<Longrightarrow> uuid_v4 v = uuid_v4 v' \<Longrightarrow> v = v'"
  by (metis decode_draw)

theorem uuid_decode_v4: "v < 2 ^ 62 \<Longrightarrow> uuid_decode (uuid_v4 v) = v"
  unfolding uuid_decode_def by (rule decode_draw)

lemma length_concat_hex2: "length (concat (map hex2 xs)) = 2 * length xs"
  by (induction xs) (simp_all add: hex2_def)

lemma length_uuid_v4: "length (uuid_v4 n) = 36"
  by (simp add: uuid_v4_def uuid_stringify_def uuid_mask_def bytes16_def length_concat_hex2)

subsection \<open>Examples\<close>

theorem uuid_decode_v4_witness: "uuid_decode (uuid_v4 5) = 5"
  using uuid_decode_v4 [of 5] by simp

end
