(* ===== verification/Todos.thy ===== *)
theory Todos
  imports Attachment Uuid
begin

text \<open>
  The business layer, \<open>src/.../helpers/todos.ts\<close>: one function per user action, each
  composing one data-layer or attachment call with log lines on the \<open>todos\<close> logger.
  The log lines are part of the model because their order is observable: \<open>getTodos\<close>
  does not await the query, so it logs success before the query has an outcome, and a
  failed query is still logged as a success.  A template literal of a request object
  prints as \<open>[object Object]\<close>.  \<open>createTodo\<close> draws a fresh identifier
  (\<open>uuid.v4()\<close>, consuming one draw of the world's random source) and stamps
  \<open>createdAt\<close> with the clock; \<open>updateTodo\<close> builds a whole \<open>TodoItem\<close> (with a new
  \<open>createdAt\<close> and a null attachment) of which the data layer writes only name, due
  date and done flag.
\<close>

definition todos_logger :: string where
  "todos_logger = ''todos''"

definition getTodos :: "user_id \<Rightarrow> world \<Rightarrow> (error + item list) \<times> world" where
  "getTodos uid w =
     (let w1 = log_info todos_logger (''getTodos: '' @ uid) w;
          (r, w2) = getTodos_access uid w1
      in (r, log_info todos_logger ''getTodos: success'' w2))"

definition new_todo :: "create_request \<Rightarrow> user_id \<Rightarrow> todo_id \<Rightarrow> string \<Rightarrow> todo_item" where
  "new_todo req uid tid now =
     \<lparr>name = cr_name req, dueDate = cr_dueDate req, done' = False,
      userId = uid, todoId = tid, createdAt = now, attachmentUrl = None\<rparr>"

definition createTodo :: "create_request \<Rightarrow> user_id \<Rightarrow> world \<Rightarrow> (error + todo_item) \<times> world" where
  "createTodo req uid w =
     (let w1 = log_info todos_logger ''createTodo: [object Object]'' w;
          tid = uuid_v4 (rng w1);
          w2 = w1\<lparr>rng := Suc (rng w1)\<rparr>
      in case js_toISOString (clock w2) of
           None \<Rightarrow> (Inl RangeError, w2)
         | Some now \<Rightarrow>
             (case createTodo_access (new_todo req uid tid now) w2 of
                (Inl e, w3) \<Rightarrow> (Inl e, w3)
              | (Inr t, w3) \<Rightarrow> (Inr t, log_info todos_logger ''createTodo: successfully'' w3)))"

definition update_todo_item :: "update_request \<Rightarrow> user_id \<Rightarrow> todo_id \<Rightarrow> string \<Rightarrow> todo_item" where
  "update_todo_item req uid tid now =
     \<lparr>name = ur_name req, dueDate = ur_dueDate req, done' = ur_done req,
      userId = uid, todoId = tid, createdAt = now, attachmentUrl = None\<rparr>"

definition updateTodo :: "update_request \<Rightarrow> user_id \<Rightarrow> todo_id \<Rightarrow> world \<Rightarrow> (error + unit) \<times> world" where
  "updateTodo req uid tid w =
     (let w1 = log_info todos_logger ''updateTodoRequest: [object Object]'' w
      in case js_toISOString (clock w1) of
           None \<Rightarrow> (Inl RangeError, w1)
         | Some now \<Rightarrow>
             (case updateTodo_access (update_todo_item req uid tid now) uid tid w1 of
                (Inl e, w2) \<Rightarrow> (Inl e, w2)
              | (Inr u, w2) \<Rightarrow> (Inr u, log_info todos_logger ''updateTodo: success'' w2)))"

definition deleteTodo :: "user_id \<Rightarrow> todo_id \<Rightarrow> world \<Rightarrow> (error + unit) \<times> world" where
  "deleteTodo uid tid w =
     (case deleteTodo_access uid tid (log_info todos_logger (''deleteTodo: '' @ tid) w) of
        (Inl e, w2) \<Rightarrow> (Inl e, w2)
      | (Inr u, w2) \<Rightarrow> (Inr u, log_info todos_logger ''deleteTodo: success'' w2))"

definition generateUploadUrl :: "config \<Rightarrow> todo_id \<Rightarrow> user_id \<Rightarrow> world \<Rightarrow> (error + string) \<times> world" where
  "generateUploadUrl cfg tid uid w =
     (case generateUploadUrl_attach cfg tid uid w of
        (Inl e, w1) \<Rightarrow> (Inl e, w1)
      | (Inr url, w1) \<Rightarrow> (Inr url, log_info todos_logger ''generateUploadUrl: success'' w1))"

subsection \<open>Behaviour of the business layer\<close>

lemma uuid_v4_nonempty [simp]: "uuid_v4 n \<noteq> []"
  by (simp add: uuid_v4_def uuid_stringify_def)

lemma log_info_fields [simp]:
  "logs (log_info lg m w) = logs w @ [\<lparr>log_name = lg, log_level = Info, log_message = m\<rparr>]"
  "log_info lg m (w\<lparr>table := t\<rparr>) = (log_info lg m w)\<lparr>table := t\<rparr>"
  by (simp_all add: log_info_def)

lemma createTodo_draw: "fst (createTodo req u w) = Inr t \<Longrightarrow> todoId t = uuid_v4 (rng w)"
  by (auto simp: createTodo_def createTodo_access_def new_todo_def Let_def split: option.splits prod.splits sum.splits)

lemma createTodo_succeeds:
  "available w \<Longrightarrow> uid \<noteq> [] \<Longrightarrow> js_toISOString (clock w) = Some now \<Longrightarrow>
   fst (createTodo req uid w) = Inr (new_todo req uid (uuid_v4 (rng w)) now)"
  by (simp add: createTodo_def createTodo_access_def store_write_def put_item_def marshall_valid_put
      new_todo_def valid_key_def Let_def)

text \<open>C2: createTodo stores and returns a new item with the caller's userId, a fresh uuid.v4 todoId, createdAt the current ISO time, done false and no attachment, consumes one random draw and logs success last.\<close>

theorem createTodo_creates:
  "available w \<Longrightarrow> uid \<noteq> [] \<Longrightarrow> js_toISOString (clock w) = Some now \<Longrightarrow>
   \<exists>t w'. createTodo req uid w = (Inr t, w') \<and>
     userId t = uid \<and> todoId t = uuid_v4 (rng w) \<and> createdAt t = now \<and> done' t = False \<and>
     attachmentUrl t = None \<and> name t = cr_name req \<and> dueDate t = cr_dueDate req \<and>
     tab_map (table w') = (tab_map (table w))((uid, todoId t) \<mapsto> marshall_todo t) \<and>
     rng w' = Suc (rng w) \<and> last (logs w') = \<lparr>log_name = todos_logger, log_level = Info, log_message = ''createTodo: successfully''\<rparr>"
proof -
  assume a: "available w" "uid \<noteq> []" "js_toISOString (clock w) = Some now"
  let ?t = "new_todo req uid (uuid_v4 (rng w)) now"
  let ?w2 = "(log_info todos_logger ''createTodo: [object Object]'' w)\<lparr>rng := Suc (rng w)\<rparr>"
  have v: "valid_key (userId ?t, todoId ?t)" using a by (simp add: new_todo_def valid_key_def)
  have "available ?w2" using a by simp
  from createTodo_access_stores [OF this v] obtain w3 where
    c: "createTodo_access ?t ?w2 = (Inr ?t, w3)"
    and m: "tab_map (table w3) = (tab_map (table ?w2))((userId ?t, todoId ?t) \<mapsto> marshall_todo ?t)"
    by (metis prod.collapse)
  have r: "rng w3 = Suc (rng w)"
    using c a v by (auto simp: createTodo_access_def store_write_def put_item_def marshall_valid_put Let_def)
  have "createTodo req uid w = (Inr ?t, log_info todos_logger ''createTodo: successfully'' w3)"
    using a c by (simp add: createTodo_def Let_def)
  with m r show ?thesis by (simp add: new_todo_def)
qed

text \<open>C29: When the store is unavailable getTodos fails, yet it logs 'getTodos: success' because the query is not awaited.\<close>

theorem getTodos_logs_success_on_failure:
  "\<not> available w \<Longrightarrow>
   getTodos uid w = (Inl ServiceUnavailable,
     w\<lparr>logs := logs w @ [\<lparr>log_name = todos_logger, log_level = Info, log_message = ''getTodos: '' @ uid\<rparr>,
                        \<lparr>log_name = access_logger, log_level = Info, log_message = ''Get list todo: '' @ uid\<rparr>,
                        \<lparr>log_name = todos_logger, log_level = Info, log_message = ''getTodos: success''\<rparr>]\<rparr>)"
  by (simp add: getTodos_def getTodos_access_def store_read_def log_info_def Let_def)

text \<open>C1: Updating a todo that does not exist fails with ConditionalCheckFailedException and leaves the table unchanged.\<close>

theorem updateTodo_absent:
  "available w \<Longrightarrow> valid_key (u, i) \<Longrightarrow> js_toISOString (clock w) \<noteq> None \<Longrightarrow> tab_get (u, i) (table w) = None \<Longrightarrow>
   fst (updateTodo req u i w) = Inl ConditionalCheckFailedException \<and> table (snd (updateTodo req u i w)) = table w"
  by (auto simp: updateTodo_def Let_def updateTodo_missing)

text \<open>C4: Updating an existing todo succeeds and overwrites only name, dueDate and done: createdAt and attachmentUrl keep their stored values although the business layer builds a new createdAt and a null attachmentUrl.\<close>

theorem updateTodo_keeps_createdAt:
  "available w \<Longrightarrow> valid_key (u, i) \<Longrightarrow> js_toISOString (clock w) \<noteq> None \<Longrightarrow> tab_get (u, i) (table w) = Some it \<Longrightarrow>
   fst (updateTodo req u i w) = Inr () \<and>
   (\<exists>it'. tab_map (table (snd (updateTodo req u i w))) (u, i) = Some it' \<and>
      map_of it' ''createdAt'' = map_of it ''createdAt'' \<and> map_of it' ''attachmentUrl'' = map_of it ''attachmentUrl'' \<and>
      map_of it' ''name'' = Some (S (ur_name req)) \<and> map_of it' ''dueDate'' = Some (S (ur_dueDate req)) \<and>
      map_of it' ''done'' = Some (BOOL (ur_done req)))"
proof -
  assume a: "available w" "valid_key (u, i)" "js_toISOString (clock w) \<noteq> None" "tab_get (u, i) (table w) = Some it"
  then obtain now where n: "js_toISOString (clock w) = Some now" by blast
  let ?w1 = "log_info todos_logger ''updateTodoRequest: [object Object]'' w"
  let ?upd = "update_todo_item req u i now"
  have "available ?w1" "tab_get (u, i) (table ?w1) = Some it" using a by simp_all
  from updateTodo_existing [OF this(1) a(2) this(2), of ?upd]
  have e: "fst (updateTodo_access ?upd u i ?w1) = Inr ()"
    "tab_map (table (snd (updateTodo_access ?upd u i ?w1))) (u, i) = Some (apply_actions (update_actions ?upd) it)"
    "map_of (apply_actions (update_actions ?upd) it) =
       (map_of it)(''name'' \<mapsto> S (name ?upd), ''dueDate'' \<mapsto> S (dueDate ?upd), ''done'' \<mapsto> BOOL (done' ?upd))"
    by simp_all
  obtain w2 where ua: "updateTodo_access ?upd u i ?w1 = (Inr (), w2)" using e(1) by (metis prod.collapse)
  then have u: "updateTodo req u i w = (Inr (), log_info todos_logger ''updateTodo: success'' w2)"
    using n by (simp add: updateTodo_def Let_def)
  show ?thesis
    using e(2,3) ua by (simp add: u update_todo_item_def log_info_def)
qed

text \<open>C17: Deleting a todo that does not exist succeeds and leaves the table unchanged.\<close>

theorem deleteTodo_idempotent:
  "available w \<Longrightarrow> valid_key (u, i) \<Longrightarrow> tab_get (u, i) (table w) = None \<Longrightarrow>
   fst (deleteTodo u i w) = Inr () \<and> table (snd (deleteTodo u i w)) = table w"
  by (simp add: deleteTodo_def deleteTodo_absent)

text \<open>C5: generateUploadUrl returns and records on the item the unsigned object URL (the presigned URL cut at '?'), not the presigned upload URL.\<close>

theorem generateUploadUrl_records:
  "available w \<Longrightarrow> valid_key (u, i) \<Longrightarrow> no_qmark_config cfg \<Longrightarrow> getSignedUploadUrl cfg i w = Inr signed \<Longrightarrow>
   tab_get (u, i) (table w) = Some it \<Longrightarrow>
   fst (generateUploadUrl cfg i u w) = Inr (object_url (s3 cfg) (bucket_name cfg) i) \<and>
   (\<exists>it'. tab_map (table (snd (generateUploadUrl cfg i u w))) (u, i) = Some it' \<and>
      map_of it' = (map_of it)(''attachmentUrl'' \<mapsto> S (object_url (s3 cfg) (bucket_name cfg) i)))"
proof -
  assume a: "available w" "valid_key (u, i)" "no_qmark_config cfg" "getSignedUploadUrl cfg i w = Inr signed"
    "tab_get (u, i) (table w) = Some it"
  note ok = generateUploadUrl_attach_ok [OF a(1-4)]
  obtain w1 where g: "generateUploadUrl_attach cfg i u w = (Inr (object_url (s3 cfg) (bucket_name cfg) i), w1)"
    using ok by (metis prod.collapse)
  then have "generateUploadUrl cfg i u w = (Inr (object_url (s3 cfg) (bucket_name cfg) i),
      log_info todos_logger ''generateUploadUrl: success'' w1)"
    by (simp add: generateUploadUrl_def)
  with ok g a(5) show ?thesis by (simp add: update_conv')
qed

lemma handlers_typed:
  assumes "list_all is_todo_item (table w)"
  shows "list_all is_todo_item (table (snd (getTodos u w)))"
    "list_all is_todo_item (table (snd (createTodo req u w)))"
    "list_all is_todo_item (table (snd (updateTodo ureq u i w)))"
    "list_all is_todo_item (table (snd (deleteTodo u i w)))"
    "tab_get (u, i) (table w) \<noteq> None \<Longrightarrow> list_all is_todo_item (table (snd (generateUploadUrl cfg i u w)))"
proof -
  have l: "list_all is_todo_item (table (log_info lg m w))" for lg m
    using assms by simp
  note a = access_typed [OF l]
  show "list_all is_todo_item (table (snd (getTodos u w)))"
    by (simp add: a(4) getTodos_def Let_def case_prod_beta)
  show "list_all is_todo_item (table (snd (createTodo req u w)))"
    using assms access_typed(1) [of "(log_info todos_logger ''createTodo: [object Object]'' w)\<lparr>rng := Suc (rng w)\<rparr>"]
    by (simp add: createTodo_def Let_def case_prod_beta split: option.split sum.split)
  show "list_all is_todo_item (table (snd (updateTodo ureq u i w)))"
    using assms by (simp add: a(2) updateTodo_def Let_def case_prod_beta split: option.split sum.split)
  show "list_all is_todo_item (table (snd (deleteTodo u i w)))"
    by (simp add: a(3) deleteTodo_def case_prod_beta split: sum.split)
  show "tab_get (u, i) (table w) \<noteq> None \<Longrightarrow> list_all is_todo_item (table (snd (generateUploadUrl cfg i u w)))"
    using assms attach_typed [of w u i cfg] by (simp add: generateUploadUrl_def case_prod_beta split: sum.split)
qed

text \<open>A business function called for user \<open>u\<close> changes no item of another user.\<close>

lemma handlers_frame:
  assumes "fst k \<noteq> u"
  shows "tab_map (table (snd (getTodos u w))) k = tab_map (table w) k"
    "tab_map (table (snd (createTodo req u w))) k = tab_map (table w) k"
    "tab_map (table (snd (updateTodo ureq u i w))) k = tab_map (table w) k"
    "tab_map (table (snd (deleteTodo u i w))) k = tab_map (table w) k"
    "tab_map (table (snd (generateUploadUrl cfg i u w))) k = tab_map (table w) k"
proof -
  have ne: "k \<noteq> (u, i)" "k \<noteq> (userId (new_todo req u tid now), todoId (new_todo req u tid now))" for i tid now
    using assms by (auto simp: new_todo_def)
  show "tab_map (table (snd (getTodos u w))) k = tab_map (table w) k"
    by (simp add: getTodos_def getTodos_access_def Let_def)
  show "tab_map (table (snd (createTodo req u w))) k = tab_map (table w) k"
    by (simp add: createTodo_def Let_def case_prod_beta access_frame(1) [OF ne(2)] split: option.split sum.split)
  show "tab_map (table (snd (updateTodo ureq u i w))) k = tab_map (table w) k"
    by (simp add: updateTodo_def Let_def case_prod_beta access_frame(2) [OF ne(1)] split: option.split sum.split)
  show "tab_map (table (snd (deleteTodo u i w))) k = tab_map (table w) k"
    by (simp add: deleteTodo_def case_prod_beta access_frame(3) [OF ne(1)] split: sum.split)
  show "tab_map (table (snd (generateUploadUrl cfg i u w))) k = tab_map (table w) k"
    by (simp add: generateUploadUrl_def case_prod_beta attach_frame [OF ne(1)] split: sum.split)
qed

lemma createTodo_Inr:
  "fst (createTodo req u w) = Inr t \<Longrightarrow>
   userId t = u \<and> tab_map (table (snd (createTodo req u w))) (u, todoId t) = Some (marshall_todo t)"
  by (auto simp: createTodo_def createTodo_access_def store_write_def put_item_def new_todo_def tab_map_put
      Let_def split: option.splits sum.splits if_splits prod.splits)

lemma hex_char_unreserved: "d < 16 \<Longrightarrow> unreserved (hex_char d)"
proof -
  have "list_all (\<lambda>d. unreserved (hex_char d)) [0..<16]" by code_simp
  moreover assume "d < 16"
  ultimately show ?thesis by (simp add: list_all_iff)
qed

lemma hex2_unreserved: "list_all (\<lambda>b. b < 256) bs \<Longrightarrow> list_all unreserved (concat (map hex2 bs))"
proof (induction bs)
  case (Cons b bs)
  have "b div 16 < 16" using Cons.prems by simp linarith
  with Cons show ?case by (simp add: hex2_def hex_char_unreserved)
qed simp

lemma uuid_v4_unreserved: "list_all unreserved (uuid_v4 n)"
proof -
  let ?bs = "uuid_mask (bytes16 n)"
  have b: "list_all (\<lambda>b. b < 256) ?bs" by (simp add: uuid_mask_bound bytes16_def bytes_be_bound)
  have "list_all (\<lambda>b. b < 256) (take k (drop m ?bs))" "list_all (\<lambda>b. b < 256) (drop m ?bs)"
    "list_all (\<lambda>b. b < 256) (take k ?bs)" for k m
    using b by (auto simp: list_all_iff dest: in_set_takeD in_set_dropD)
  moreover have "unreserved CHR ''-''" by (simp add: unreserved_def)
  ultimately show ?thesis by (simp add: uuid_v4_def uuid_stringify_def hex2_unreserved)
qed

lemma generateUploadUrl_ok:
  "available w \<Longrightarrow> valid_key (u, i) \<Longrightarrow> no_qmark_config cfg \<Longrightarrow> getSignedUploadUrl cfg i w = Inr signed \<Longrightarrow>
   fst (generateUploadUrl cfg i u w) = Inr (object_url (s3 cfg) (bucket_name cfg) i)"
  using generateUploadUrl_attach_ok [of w u i cfg signed]
  by (auto simp: generateUploadUrl_def case_prod_beta split: sum.split)

text \<open>C16: For a todoId made by uuid.v4, the URL generateUploadUrl returns is https://<bucket>.<host>/<todoId>: its path is the todoId itself.\<close>

theorem upload_url_path:
  "no_qmark_config cfg \<Longrightarrow> fst (generateUploadUrl cfg (uuid_v4 n) u w) = Inr url \<Longrightarrow>
   url = ''https://'' @ bucket_name cfg @ ''.'' @ s3_host (s3 cfg) @ ''/'' @ uuid_v4 n"
  by (auto simp: generateUploadUrl_def case_prod_beta object_url_def uri_escape_path_unreserved uuid_v4_unreserved
      split: sum.splits dest!: attach_url)

text \<open>C15: Two successful generateUploadUrl calls for the same todo return the same URL, whatever the clock: the returned URL carries no timestamp or signature.\<close>

theorem upload_url_same:
  "no_qmark_config cfg \<Longrightarrow> fst (generateUploadUrl cfg i u w1) = Inr url1 \<Longrightarrow>
   fst (generateUploadUrl cfg i u w2) = Inr url2 \<Longrightarrow> url1 = url2"
proof -
  assume c: "no_qmark_config cfg"
  have "fst (generateUploadUrl cfg i u w') = Inr url' \<Longrightarrow> url' = object_url (s3 cfg) (bucket_name cfg) i" for w' url'
    by (auto simp: generateUploadUrl_def case_prod_beta split: sum.splits dest!: attach_url [OF c])
  moreover assume "fst (generateUploadUrl cfg i u w1) = Inr url1" "fst (generateUploadUrl cfg i u w2) = Inr url2"
  ultimately show ?thesis by metis
qed

lemma createTodo_createdAt:
  "fst (createTodo req u w) = Inr t \<Longrightarrow> js_toISOString (clock w) = Some (createdAt t)"
  by (auto simp: createTodo_def createTodo_access_def store_write_def put_item_def new_todo_def
      Let_def split: option.splits sum.splits if_splits prod.splits)

text \<open>C25: The createdAt of a created todo, for years up to 9999, is a 24-character string of the form YYYY-MM-DDTHH:MM:SS.mmmZ.\<close>

theorem createdAt_iso_format:
  "fst (createTodo req u w) = Inr t \<Longrightarrow> year (date_of_time (clock w)) \<le> 9999 \<Longrightarrow>
   length (createdAt t) = 24 \<and> createdAt t ! 4 = CHR ''-'' \<and> createdAt t ! 7 = CHR ''-'' \<and>
   createdAt t ! 10 = CHR ''T'' \<and> createdAt t ! 13 = CHR '':'' \<and> createdAt t ! 16 = CHR '':'' \<and>
   createdAt t ! 19 = CHR ''.'' \<and> createdAt t ! 23 = CHR ''Z''"
  by (rule iso_shape) (rule createTodo_createdAt)

lemma createTodo_clock [simp]: "clock (snd (createTodo req u w)) = clock w"
  by (auto simp: createTodo_def createTodo_access_def store_write_def Let_def log_info_def
      split: option.split sum.split prod.split)

lemma createTodo_table:
  "available w \<Longrightarrow> u \<noteq> [] \<Longrightarrow> js_toISOString (clock w) = Some now \<Longrightarrow>
   table (snd (createTodo req u w)) = tab_put (marshall_todo (new_todo req u (uuid_v4 (rng w)) now)) (table w)"
  by (simp add: createTodo_def createTodo_access_def store_write_def put_item_def marshall_valid_put new_todo_def
      valid_key_def Let_def)

lemma createTodo_Inr_world:
  "createTodo req u w = (Inr t, w1) \<Longrightarrow>
   available w1 \<and> valid_key (u, todoId t) \<and> userId t = u \<and> tab_get (u, todoId t) (table w1) = Some (marshall_todo t)"
proof -
  assume c: "createTodo req u w = (Inr t, w1)"
  then have "available w1 \<and> valid_key (u, todoId t)"
    by (auto simp: createTodo_def createTodo_access_def store_write_def put_item_def valid_put_def new_todo_def
        Let_def split: option.splits sum.splits if_splits prod.splits)
  moreover have "userId t = u \<and> tab_map (table w1) (u, todoId t) = Some (marshall_todo t)"
    using createTodo_Inr [of req u w t] c by simp
  ultimately show ?thesis by (simp add: tab_get_map)
qed

text \<open>C11: After createTodo stores a todo t, updateTodo on its id succeeds, and the stored item reads back as exactly the record update of t that sets name, dueDate and done: createdAt, attachmentUrl and the keys are kept.\<close>

theorem create_then_update:
  "createTodo req u w = (Inr t, w1) \<Longrightarrow> js_toISOString (clock w1) \<noteq> None \<Longrightarrow>
   fst (updateTodo ureq u (todoId t) w1) = Inr () \<and>
   map_option unmarshall_todo (tab_map (table (snd (updateTodo ureq u (todoId t) w1))) (u, todoId t)) =
     Some (Some (t\<lparr>name := ur_name ureq, dueDate := ur_dueDate ureq, done' := ur_done ureq\<rparr>))"
proof -
  assume c: "createTodo req u w = (Inr t, w1)" and n: "js_toISOString (clock w1) \<noteq> None"
  note cw = createTodo_Inr_world [OF c]
  from n obtain now where now: "js_toISOString (clock w1) = Some now" by auto
  let ?upd = "update_todo_item ureq u (todoId t) now"
  let ?w2 = "log_info todos_logger ''updateTodoRequest: [object Object]'' w1"
  have "available ?w2" "tab_get (u, todoId t) (table ?w2) = Some (marshall_todo t)" using cw by simp_all
  from updateTodo_existing [OF this(1) conjunct1 [OF conjunct2 [OF cw]] this(2), of ?upd]
  have e: "fst (updateTodo_access ?upd u (todoId t) ?w2) = Inr ()"
    "tab_map (table (snd (updateTodo_access ?upd u (todoId t) ?w2))) (u, todoId t) =
       Some (apply_actions (update_actions ?upd) (marshall_todo t))"
    by simp_all
  have r: "updateTodo ureq u (todoId t) w1 =
      (Inr (), log_info todos_logger ''updateTodo: success'' (snd (updateTodo_access ?upd u (todoId t) ?w2)))"
    using now e(1) by (simp add: updateTodo_def Let_def case_prod_beta)
  have "unmarshall_todo (apply_actions (update_actions ?upd) (marshall_todo t)) =
      Some (t\<lparr>name := ur_name ureq, dueDate := ur_dueDate ureq, done' := ur_done ureq\<rparr>)"
    by (simp add: update_actions_typed unmarshall_marshall update_todo_item_def)
  with r e(2) show ?thesis by simp
qed

text \<open>C24: After createTodo stores a todo t, generateUploadUrl on its id returns the object URL, and the stored item reads back as exactly t with attachmentUrl set to that URL.\<close>

theorem create_then_upload:
  "createTodo req u w = (Inr t, w1) \<Longrightarrow> no_qmark_config cfg \<Longrightarrow> getSignedUploadUrl cfg (todoId t) w1 = Inr signed \<Longrightarrow>
   fst (generateUploadUrl cfg (todoId t) u w1) = Inr (object_url (s3 cfg) (bucket_name cfg) (todoId t)) \<and>
   map_option unmarshall_todo (tab_map (table (snd (generateUploadUrl cfg (todoId t) u w1))) (u, todoId t)) =
     Some (Some (t\<lparr>attachmentUrl := Some (object_url (s3 cfg) (bucket_name cfg) (todoId t))\<rparr>))"
proof -
  assume c: "createTodo req u w = (Inr t, w1)" and q: "no_qmark_config cfg"
    and g: "getSignedUploadUrl cfg (todoId t) w1 = Inr signed"
  note cw = createTodo_Inr_world [OF c]
  let ?url = "object_url (s3 cfg) (bucket_name cfg) (todoId t)"
  note ok = generateUploadUrl_attach_ok [OF conjunct1 [OF cw] conjunct1 [OF conjunct2 [OF cw]] q g]
  have r: "generateUploadUrl cfg (todoId t) u w1 =
      (Inr ?url, log_info todos_logger ''generateUploadUrl: success'' (snd (generateUploadUrl_attach cfg (todoId t) u w1)))"
    using ok by (simp add: generateUploadUrl_def case_prod_beta)
  have "unmarshall_todo (AList.update ''attachmentUrl'' (S ?url) (marshall_todo t)) = Some (t\<lparr>attachmentUrl := Some ?url\<rparr>)"
    using attachment_actions_typed [OF unmarshall_marshall [of t], of ?url]
    by (simp add: attachment_actions_def apply_actions_def)
  with r ok cw show ?thesis by simp
qed

text \<open>C18: After createTodo stores a todo, getTodos for the same user returns it, as long as the user's items fit in one 1 MB page (read-your-writes through the business layer).\<close>

theorem create_then_list:
  "createTodo req u w = (Inr t, w1) \<Longrightarrow>
   sum_list (map item_size (filter (\<lambda>it. fst (item_key it) = u) (table w1))) \<le> page_limit \<Longrightarrow>
   \<exists>its. fst (getTodos u w1) = Inr its \<and> marshall_todo t \<in> set its"
proof -
  assume c: "createTodo req u w = (Inr t, w1)"
    and s: "sum_list (map item_size (filter (\<lambda>it. fst (item_key it) = u) (table w1))) \<le> page_limit"
  note cw = createTodo_Inr_world [OF c]
  have u: "u \<noteq> []" using cw by (simp add: valid_key_def)
  have m: "marshall_todo t \<in> set (table w1)" using cw by (blast intro: tab_get_in_set)
  have "fst (getTodos u w1) = Inr (filter (\<lambda>it. fst (item_key it) = u) (table w1))"
    using cw u s by (simp add: getTodos_def getTodos_access_def store_read_def query_partition_def Let_def
        case_prod_beta take_page_all)
  with m cw show ?thesis by auto
qed

subsection \<open>Examples\<close>

theorem createTodo_creates_witness:
  "\<exists>t w'. createTodo \<lparr>cr_name = ''Buy milk'', cr_dueDate = ''2024-01-01''\<rparr> ''u1''
       \<lparr>table = [], available = True, clock = 0, rng = 0, logs = []\<rparr> = (Inr t, w') \<and>
     userId t = ''u1'' \<and> done' t = False \<and> attachmentUrl t = None"
  using createTodo_creates [of "\<lparr>table = [], available = True, clock = 0, rng = 0, logs = []\<rparr>" "''u1''"
      "the (js_toISOString 0)" "\<lparr>cr_name = ''Buy milk'', cr_dueDate = ''2024-01-01''\<rparr>"]
  by (auto simp: js_toISOString_def max_time_def Let_def)

theorem updateTodo_absent_witness:
  "fst (updateTodo \<lparr>ur_name = ''n'', ur_dueDate = ''d'', ur_done = True\<rparr> ''u1'' ''missing-id''
      \<lparr>table = [], available = True, clock = 0, rng = 0, logs = []\<rparr>) = Inl ConditionalCheckFailedException"
  using updateTodo_absent [of "\<lparr>table = [], available = True, clock = 0, rng = 0, logs = []\<rparr>" "''u1''" "''missing-id''"
      "\<lparr>ur_name = ''n'', ur_dueDate = ''d'', ur_done = True\<rparr>"]
  by (simp add: valid_key_def js_toISOString_def max_time_def Let_def tab_get_def)

theorem updateTodo_keeps_createdAt_witness:
  "fst (updateTodo \<lparr>ur_name = ''n'', ur_dueDate = ''d'', ur_done = True\<rparr> ''u1'' ''t1''
      \<lparr>table = [marshall_todo \<lparr>name = ''milk'', dueDate = ''2024-01-01'', done' = False, userId = ''u1'',
                               todoId = ''t1'', createdAt = ''c'', attachmentUrl = None\<rparr>],
       available = True, clock = 0, rng = 0, logs = []\<rparr>) = Inr ()"
  using updateTodo_keeps_createdAt [of "\<lparr>table = [marshall_todo \<lparr>name = ''milk'', dueDate = ''2024-01-01'', done' = False, userId = ''u1'',
                               todoId = ''t1'', createdAt = ''c'', attachmentUrl = None\<rparr>],
       available = True, clock = 0, rng = 0, logs = []\<rparr>" "''u1''" "''t1''"]
  by (simp add: valid_key_def js_toISOString_def max_time_def Let_def tab_get_def)

theorem getTodos_logs_success_on_failure_witness:
  "fst (getTodos ''u1'' \<lparr>table = [], available = False, clock = 0, rng = 0, logs = []\<rparr>) = Inl ServiceUnavailable"
  using getTodos_logs_success_on_failure [of "\<lparr>table = [], available = False, clock = 0, rng = 0, logs = []\<rparr>" "''u1''"]
  by simp

theorem deleteTodo_idempotent_witness:
  "fst (deleteTodo ''u1'' ''t1'' \<lparr>table = [], available = True, clock = 0, rng = 0, logs = []\<rparr>) = Inr ()"
  using deleteTodo_idempotent [of "\<lparr>table = [], available = True, clock = 0, rng = 0, logs = []\<rparr>" "''u1''" "''t1''"]
  by (simp add: valid_key_def tab_get_def)

theorem generateUploadUrl_records_witness:
  "fst (generateUploadUrl demo_cfg ''t1'' ''u1''
      \<lparr>table = [marshall_todo \<lparr>name = ''milk'', dueDate = ''2024-01-01'', done' = False, userId = ''u1'',
                               todoId = ''t1'', createdAt = ''c'', attachmentUrl = None\<rparr>],
       available = True, clock = 0, rng = 0, logs = []\<rparr>) =
   Inr (object_url (s3 demo_cfg) (bucket_name demo_cfg) ''t1'')"
proof -
  let ?w = "\<lparr>table = [marshall_todo \<lparr>name = ''milk'', dueDate = ''2024-01-01'', done' = False, userId = ''u1'',
                               todoId = ''t1'', createdAt = ''c'', attachmentUrl = None\<rparr>],
       available = True, clock = 0, rng = 0, logs = []\<rparr>"
  have "\<exists>url. getSignedUploadUrl demo_cfg ''t1'' ?w = Inr url"
    by (rule demo_signed) (simp add: max_time_def)
  then obtain url where u: "getSignedUploadUrl demo_cfg ''t1'' ?w = Inr url" by blast
  have "no_qmark_config demo_cfg" by (simp add: no_qmark_config_def demo_cfg_def)
  from generateUploadUrl_records [OF _ _ this u] show ?thesis
    by (simp add: valid_key_def tab_get_def)
qed

theorem upload_url_path_witness:
  "\<exists>url. fst (generateUploadUrl demo_cfg (uuid_v4 0) ''u1'' \<lparr>table = [], available = True, clock = 0, rng = 0, logs = []\<rparr>) = Inr url \<and>
     url = ''https://todo-attachments.s3.amazonaws.com/'' @ uuid_v4 0"
proof -
  obtain signed where sg: "getSignedUploadUrl demo_cfg (uuid_v4 0) \<lparr>table = [], available = True, clock = 0, rng = 0, logs = []\<rparr> = Inr signed"
    using demo_signed [of 0 "uuid_v4 0" "[]" True 0 "[]"] by (auto simp: max_time_def)
  have nq: "no_qmark_config demo_cfg" by (simp add: no_qmark_config_def demo_cfg_def)
  have ok: "fst (generateUploadUrl demo_cfg (uuid_v4 0) ''u1'' \<lparr>table = [], available = True, clock = 0, rng = 0, logs = []\<rparr>) = Inr (object_url (s3 demo_cfg) (bucket_name demo_cfg) (uuid_v4 0))"
    by (rule generateUploadUrl_ok [OF _ _ nq sg]) (simp_all add: valid_key_def)
  from upload_url_path [OF nq ok] ok show ?thesis by (simp add: demo_cfg_def)
qed

theorem upload_url_same_witness:
  "fst (generateUploadUrl demo_cfg ''t1'' ''u1'' \<lparr>table = [], available = True, clock = 0, rng = 0, logs = []\<rparr>) = fst (generateUploadUrl demo_cfg ''t1'' ''u1'' \<lparr>table = [], available = True, clock = 1000, rng = 0, logs = []\<rparr>)"
proof -
  have nq: "no_qmark_config demo_cfg" by (simp add: no_qmark_config_def demo_cfg_def)
  obtain s0 where s0: "getSignedUploadUrl demo_cfg ''t1'' \<lparr>table = [], available = True, clock = 0, rng = 0, logs = []\<rparr> = Inr s0"
    using demo_signed [of 0 "''t1''" "[]" True 0 "[]"] by (auto simp: max_time_def)
  obtain s1 where s1: "getSignedUploadUrl demo_cfg ''t1'' \<lparr>table = [], available = True, clock = 1000, rng = 0, logs = []\<rparr> = Inr s1"
    using demo_signed [of 1000 "''t1''" "[]" True 0 "[]"] by (auto simp: max_time_def)
  have a: "fst (generateUploadUrl demo_cfg ''t1'' ''u1'' \<lparr>table = [], available = True, clock = 0, rng = 0, logs = []\<rparr>) = Inr (object_url (s3 demo_cfg) (bucket_name demo_cfg) ''t1'')"
    by (rule generateUploadUrl_ok [OF _ _ nq s0]) (simp_all add: valid_key_def)
  have b: "fst (generateUploadUrl demo_cfg ''t1'' ''u1'' \<lparr>table = [], available = True, clock = 1000, rng = 0, logs = []\<rparr>) = Inr (object_url (s3 demo_cfg) (bucket_name demo_cfg) ''t1'')"
    by (rule generateUploadUrl_ok [OF _ _ nq s1]) (simp_all add: valid_key_def)
  from upload_url_same [OF nq a b] a b show ?thesis by simp
qed

theorem createdAt_iso_format_witness:
  "length (createdAt (new_todo \<lparr>cr_name = ''Buy milk'', cr_dueDate = ''2024-01-01''\<rparr> ''u1'' (uuid_v4 0) (the (js_toISOString 0)))) = 24"
proof -
  have f: "fst (createTodo \<lparr>cr_name = ''Buy milk'', cr_dueDate = ''2024-01-01''\<rparr> ''u1'' \<lparr>table = [], available = True, clock = 0, rng = 0, logs = []\<rparr>) = Inr (new_todo \<lparr>cr_name = ''Buy milk'', cr_dueDate = ''2024-01-01''\<rparr> ''u1'' (uuid_v4 0) (the (js_toISOString 0)))"
    using createTodo_succeeds [of "\<lparr>table = [], available = True, clock = 0, rng = 0, logs = []\<rparr>" "''u1''" "the (js_toISOString 0)" "\<lparr>cr_name = ''Buy milk'', cr_dueDate = ''2024-01-01''\<rparr>"]
    by (simp add: js_toISOString_def max_time_def Let_def)
  have y: "year (date_of_time 0) \<le> 9999" by (simp add: year_epoch)
  from createdAt_iso_format [OF f] y show ?thesis by simp
qed

lemma demo_create:
  "createTodo \<lparr>cr_name = ''Buy milk'', cr_dueDate = ''2024-01-01''\<rparr> ''u1'' \<lparr>table = [], available = True, clock = 0, rng = 0, logs = []\<rparr> = (Inr (new_todo \<lparr>cr_name = ''Buy milk'', cr_dueDate = ''2024-01-01''\<rparr> ''u1'' (uuid_v4 0) (the (js_toISOString 0))), snd (createTodo \<lparr>cr_name = ''Buy milk'', cr_dueDate = ''2024-01-01''\<rparr> ''u1'' \<lparr>table = [], available = True, clock = 0, rng = 0, logs = []\<rparr>))"
proof -
  have "fst (createTodo \<lparr>cr_name = ''Buy milk'', cr_dueDate = ''2024-01-01''\<rparr> ''u1'' \<lparr>table = [], available = True, clock = 0, rng = 0, logs = []\<rparr>) = Inr (new_todo \<lparr>cr_name = ''Buy milk'', cr_dueDate = ''2024-01-01''\<rparr> ''u1'' (uuid_v4 0) (the (js_toISOString 0)))"
    using createTodo_succeeds [of "\<lparr>table = [], available = True, clock = 0, rng = 0, logs = []\<rparr>" "''u1''" "the (js_toISOString 0)" "\<lparr>cr_name = ''Buy milk'', cr_dueDate = ''2024-01-01''\<rparr>"]
    by (simp add: js_toISOString_def max_time_def Let_def)
  then show ?thesis by (metis prod.collapse)
qed

theorem create_then_update_witness:
  "fst (updateTodo \<lparr>ur_name = ''n'', ur_dueDate = ''d'', ur_done = True\<rparr> ''u1'' (uuid_v4 0) (snd (createTodo \<lparr>cr_name = ''Buy milk'', cr_dueDate = ''2024-01-01''\<rparr> ''u1'' \<lparr>table = [], available = True, clock = 0, rng = 0, logs = []\<rparr>))) = Inr ()"
  using create_then_update [OF demo_create, of "\<lparr>ur_name = ''n'', ur_dueDate = ''d'', ur_done = True\<rparr>"]
  by (simp add: js_toISOString_def max_time_def new_todo_def Let_def)

theorem create_then_upload_witness:
  "fst (generateUploadUrl demo_cfg (uuid_v4 0) ''u1'' (snd (createTodo \<lparr>cr_name = ''Buy milk'', cr_dueDate = ''2024-01-01''\<rparr> ''u1'' \<lparr>table = [], available = True, clock = 0, rng = 0, logs = []\<rparr>))) =
   Inr (object_url (s3 demo_cfg) (bucket_name demo_cfg) (uuid_v4 0))"
proof -
  obtain signed where sg: "getSignedUploadUrl demo_cfg (uuid_v4 0) \<lparr>table = [], available = True, clock = 0, rng = 0, logs = []\<rparr> = Inr signed"
    using demo_signed [of 0 "uuid_v4 0" "[]" True 0 "[]"] by (auto simp: max_time_def)
  have "getSignedUploadUrl demo_cfg (todoId (new_todo \<lparr>cr_name = ''Buy milk'', cr_dueDate = ''2024-01-01''\<rparr> ''u1'' (uuid_v4 0) (the (js_toISOString 0)))) (snd (createTodo \<lparr>cr_name = ''Buy milk'', cr_dueDate = ''2024-01-01''\<rparr> ''u1'' \<lparr>table = [], available = True, clock = 0, rng = 0, logs = []\<rparr>)) = Inr signed"
    using sg getSignedUploadUrl_clock [of "snd (createTodo \<lparr>cr_name = ''Buy milk'', cr_dueDate = ''2024-01-01''\<rparr> ''u1'' \<lparr>table = [], available = True, clock = 0, rng = 0, logs = []\<rparr>)" "\<lparr>table = [], available = True, clock = 0, rng = 0, logs = []\<rparr>"] by (simp add: new_todo_def)
  from create_then_upload [OF demo_create _ this] show ?thesis
    by (simp add: no_qmark_config_def demo_cfg_def new_todo_def)
qed

theorem create_then_list_witness:
  "\<exists>its. fst (getTodos ''u1'' (snd (createTodo \<lparr>cr_name = ''Buy milk'', cr_dueDate = ''2024-01-01''\<rparr> ''u1'' \<lparr>table = [], available = True, clock = 0, rng = 0, logs = []\<rparr>))) = Inr its \<and> marshall_todo (new_todo \<lparr>cr_name = ''Buy milk'', cr_dueDate = ''2024-01-01''\<rparr> ''u1'' (uuid_v4 0) (the (js_toISOString 0))) \<in> set its"
proof -
  have tb: "table (snd (createTodo \<lparr>cr_name = ''Buy milk'', cr_dueDate = ''2024-01-01''\<rparr> ''u1'' \<lparr>table = [], available = True, clock = 0, rng = 0, logs = []\<rparr>)) = [marshall_todo (new_todo \<lparr>cr_name = ''Buy milk'', cr_dueDate = ''2024-01-01''\<rparr> ''u1'' (uuid_v4 0) (the (js_toISOString 0)))]"
    by (subst createTodo_table [where now = "the (js_toISOString 0)"])
       (simp_all add: js_toISOString_def max_time_def Let_def)
  have "js_toISOString 0 = Some (the (js_toISOString 0))" by (simp add: js_toISOString_def max_time_def Let_def)
  then have l: "length (the (js_toISOString 0)) = 24" using iso_shape year_epoch [of 0] by fastforce
  have "sum_list (map item_size (filter (\<lambda>it. fst (item_key it) = ''u1'') [marshall_todo (new_todo \<lparr>cr_name = ''Buy milk'', cr_dueDate = ''2024-01-01''\<rparr> ''u1'' (uuid_v4 0) (the (js_toISOString 0)))])) \<le> page_limit"
    using l by (simp add: item_size_def marshall_todo_def new_todo_def length_uuid_v4 page_limit_def)
  from create_then_list [OF demo_create] this tb show ?thesis by simp
qed

end
