(* ===== verification/Auth.thy ===== *)
theory Auth
  imports Model
begin

text \<open>
  The request authorizer, \<open>src/.../lambda/auth/auth0Authorizer.ts\<close>.  \<open>getToken\<close>
  checks the \<open>Authorization\<close> header (absent or empty, then not starting with
  \<open>bearer \<close> in any case) and takes the second space-separated piece;
  \<open>verifyToken\<close> verifies it against the fixed certificate \<open>cert\<close> with
  \<open>RS256\<close> as the only algorithm; \<open>handler\<close> turns success into an \<open>Allow\<close>
  policy for the token's subject and every failure into a \<open>Deny\<close> policy for the
  principal \<open>user\<close>, logging on the \<open>auth\<close> logger.

  \<open>jsonwebtoken.verify\<close> is a library the sources call; it is modelled from its
  documented order of checks: a token must be given, have three dot-separated parts,
  decode, carry a signature, name an allowed algorithm, have a valid signature, and not
  be expired (\<open>now >= exp\<close>, in whole seconds; a token with no \<open>exp\<close> does not
  expire).  Base64url/JSON decoding and the RSA signature check are functions of the
  environment record \<open>jwt_env\<close>.
\<close>

record jwt_payload =
  jwt_sub :: "string option"
  jwt_exp :: "nat option"

record jwt_env =
  decode_alg :: "string \<Rightarrow> string option"
  decode_payload :: "string \<Rightarrow> jwt_payload option"
  rs256_valid :: "string \<Rightarrow> string \<Rightarrow> string \<Rightarrow> bool"

datatype jwt_error =
    JwtMustBeProvided | JwtMalformed | InvalidToken | JwtSignatureRequired
  | InvalidAlgorithm | InvalidSignature | JwtExpired

datatype auth_error = NoAuthenticationHeader | InvalidAuthenticationHeader | JwtError jwt_error

datatype effect = Allow | Deny

record statement =
  st_action :: string
  st_effect :: effect
  st_resource :: string

record policy_document =
  pd_version :: string
  pd_statement :: "statement list"

record authorizer_result =
  principalId :: "string option"
  policyDocument :: policy_document

definition cert :: string where
  "cert = js_join (CHR 0x0A)
    [''-----BEGIN CERTIFICATE-----'',
     ''MIIDGzCCAgOgAwIBAgIJHkq7zuXSpnuyMA0GCSqGSIb3DQEBCwUAMCsxKTAnBgNV'',
     ''BAMTIGNsb3VkLWRldi1oYXVkcTI0MDUudXMuYXV0aDAuY29tMB4XDTIzMTAwOTEy'',
     ''MTczOVoXDTM3MDYxNzEyMTczOVowKzEpMCcGA1UEAxMgY2xvdWQtZGV2LWhhdWRx'',
     ''MjQwNS51cy5hdXRoMC5jb20wggEiMA0GCSqGSIb3DQEBAQUAA4IBDwAwggEKAoIB'',
     ''AQCiC0+rFDuJAsnVESIy+iVF1KUgAXyzgmV8y/SQNXgFudF+a8a9uhxpZrO3uiOk'',
     ''O3ZsQnMkET3lx+sCSYB5DgHOX1KpViJ5xh+3XHf4iWDz4fEuQ8VIWhS+Wev2hQjK'',
     ''Yc7O7/xOUExwr5g8A3AW2zEaUUjG5n7D8BUbDkitouxincxahDM0GQjYbXDqi9uo'',
     ''3BneSLGNsxIJkQhCYQvr+/2csVENRXapebICylO5gRvjkcYDXBZfqlavTujmpf+O'',
     ''RW4xpPKmT4BHc1dMT2jaUmcR+IebcVbcI+rSZ0dE+5oKo8JhWQAAooq0YgcAJlx7'',
     ''5VHO/0+J46myiv+old6B1cKPAgMBAAGjQjBAMA8GA1UdEwEB/wQFMAMBAf8wHQYD'',
     ''VR0OBBYEFMlgXgaXxCZNYjlEmaX+NdwO5yHyMA4GA1UdDwEB/wQEAwIChDANBgkq'',
     ''hkiG9w0BAQsFAAOCAQEAgVfBVyr9SV/GwoAjr6H7P128E9NtCOAcnRIOoUmMCkZU'',
     ''HPluaoDG+hD23y3YknDDk7CymPx/SdHZa8WCVNZBRktbm5pAn/G+ItOkbfbts7+V'',
     ''+udpzS1AfTEjzfErLfQVZ2K44/krKo5BFRn4M5g5YvLBOXiJ+eloH8eefNhpUzx7'',
     ''hQenCYA7v0h1tvguavEh58HBqvEo5WWaZUHbjh2zKW+cMHMWNwqg1KA5Wlsmyn1/'',
     ''X4rC+Nd9ApYzUVtawnL2Z7gV4F1WYHkWz9ovVsrw0/VnnviNTSeLFLU/8ENxQAL/'',
     ''X91b5otUjTl2gSJYkq7iyMUulyLEYhkStwwc7HQwKg=='',
     ''-----END CERTIFICATE-----'']"

definition jwt_verify :: "jwt_env \<Rightarrow> string \<Rightarrow> string list \<Rightarrow> nat \<Rightarrow> string option \<Rightarrow> jwt_error + jwt_payload" where
  "jwt_verify env key algs now tok =
     (case tok of
        None \<Rightarrow> Inl JwtMustBeProvided
      | Some s \<Rightarrow>
          if s = [] then Inl JwtMustBeProvided
          else let parts = js_split CHR ''.'' s in
          if length parts \<noteq> 3 then Inl JwtMalformed
          else case (decode_alg env (parts ! 0), decode_payload env (parts ! 1)) of
            (Some alg, Some p) \<Rightarrow>
              if dropWhile js_whitespace (parts ! 2) = [] then Inl JwtSignatureRequired
              else if alg \<notin> set algs then Inl InvalidAlgorithm
              else if \<not> rs256_valid env key (parts ! 0 @ ''.'' @ parts ! 1) (parts ! 2) then Inl InvalidSignature
              else (case jwt_exp p of
                      None \<Rightarrow> Inr p
                    | Some e \<Rightarrow> if e \<le> now div 1000 then Inl JwtExpired else Inr p)
          | _ \<Rightarrow> Inl InvalidToken)"

definition getToken :: "string option \<Rightarrow> auth_error + string option" where
  "getToken hdr =
     (if js_falsy_str hdr then Inl NoAuthenticationHeader
      else if \<not> js_startsWith (js_toLowerCase (the hdr)) ''bearer '' then Inl InvalidAuthenticationHeader
      else Inr (js_index (js_split CHR '' '' (the hdr)) 1))"

definition verifyToken :: "jwt_env \<Rightarrow> nat \<Rightarrow> string option \<Rightarrow> auth_error + jwt_payload" where
  "verifyToken env now hdr =
     (case getToken hdr of
        Inl e \<Rightarrow> Inl e
      | Inr tok \<Rightarrow> (case jwt_verify env cert [''RS256''] now tok of
                     Inl e \<Rightarrow> Inl (JwtError e)
                   | Inr p \<Rightarrow> Inr p))"

definition policy :: "effect \<Rightarrow> policy_document" where
  "policy eff = \<lparr>pd_version = ''2012-10-17'',
                 pd_statement = [\<lparr>st_action = ''execute-api:Invoke'', st_effect = eff, st_resource = ''*''\<rparr>]\<rparr>"

definition auth_logger :: string where
  "auth_logger = ''auth''"

definition handler :: "jwt_env \<Rightarrow> string option \<Rightarrow> world \<Rightarrow> authorizer_result \<times> world" where
  "handler env hdr w =
     (let w1 = log_info auth_logger ''Authorizing a user'' w
      in case verifyToken env (clock w1) hdr of
           Inr p \<Rightarrow> (\<lparr>principalId = jwt_sub p, policyDocument = policy Allow\<rparr>,
                     log_info auth_logger ''User was authorized'' w1)
         | Inl e \<Rightarrow> (\<lparr>principalId = Some ''user'', policyDocument = policy Deny\<rparr>,
                     w1\<lparr>logs := logs w1 @ [\<lparr>log_name = auth_logger, log_level = Error,
                                               log_message = ''User not authorized''\<rparr>]\<rparr>))"

subsection \<open>Behaviour of the authorizer\<close>

lemma space_not_in_bearer: "js_toLowerCase p = ''bearer'' \<Longrightarrow> CHR '' '' \<notin> set p"
proof
  assume "js_toLowerCase p = ''bearer''" "CHR '' '' \<in> set p"
  then have "js_lower_char (CHR '' '') \<in> set ''bearer''"
    unfolding js_toLowerCase_def by (metis image_eqI list.set_map)
  then show False by (simp add: js_lower_char_def)
qed

lemma getToken_missing: "getToken None = Inl NoAuthenticationHeader" "getToken (Some []) = Inl NoAuthenticationHeader"
  by (simp_all add: getToken_def js_falsy_str_def)

lemma getToken_not_bearer:
  "h \<noteq> [] \<Longrightarrow> \<not> js_startsWith (js_toLowerCase h) ''bearer '' \<Longrightarrow> getToken (Some h) = Inl InvalidAuthenticationHeader"
  by (simp add: getToken_def js_falsy_str_def)

text \<open>C21: getToken of 'Bearer <rest>' (any case) returns the piece of rest up to the next space.\<close>

theorem getToken_bearer:
  "js_toLowerCase p = ''bearer'' \<Longrightarrow> getToken (Some (p @ CHR '' '' # rest)) = Inr (Some (hd (js_split CHR '' '' rest)))"
proof -
  assume p: "js_toLowerCase p = ''bearer''"
  then have sp: "CHR '' '' \<notin> set p" by (rule space_not_in_bearer)
  have "js_toLowerCase (p @ CHR '' '' # rest) = ''bearer '' @ js_toLowerCase rest"
    using p by (simp add: js_toLowerCase_def js_lower_char_def)
  then have "js_startsWith (js_toLowerCase (p @ CHR '' '' # rest)) ''bearer ''"
    by (simp add: js_startsWith_def)
  moreover have "js_split CHR '' '' (p @ CHR '' '' # rest) = p # js_split CHR '' '' rest"
    using sp by (rule js_split_append_sep)
  ultimately show ?thesis
    by (cases "js_split CHR '' '' rest") (simp_all add: getToken_def js_falsy_str_def js_index_def)
qed

lemma handler_result:
  "fst (handler env hdr w) =
     (case verifyToken env (clock w) hdr of
        Inr p \<Rightarrow> \<lparr>principalId = jwt_sub p, policyDocument = policy Allow\<rparr>
      | Inl e \<Rightarrow> \<lparr>principalId = Some ''user'', policyDocument = policy Deny\<rparr>)"
  by (simp add: handler_def log_info_def split: sum.split)

text \<open>C19: The authorizer returns an Allow policy exactly when the token verifies, and then the principal is the token's sub.\<close>

theorem handler_allow_iff:
  "st_effect (hd (pd_statement (policyDocument (fst (handler env hdr w))))) = Allow \<longleftrightarrow>
   (\<exists>p. verifyToken env (clock w) hdr = Inr p \<and> principalId (fst (handler env hdr w)) = jwt_sub p)"
  by (simp add: handler_result policy_def split: sum.split)

text \<open>C22: When verification fails the authorizer returns principal 'user' with a Deny policy.\<close>

theorem handler_deny_on_error:
  "verifyToken env (clock w) hdr = Inl e \<Longrightarrow>
   fst (handler env hdr w) = \<lparr>principalId = Some ''user'', policyDocument = policy Deny\<rparr>"
  by (simp add: handler_result)

lemma three_parts: "length xs = 3 \<Longrightarrow> \<exists>a b c. xs = [a, b, c]"
  by (auto simp: length_Suc_conv numeral_3_eq_3)

lemma jwt_verify_Inr:
  assumes "jwt_verify env key algs now tok = Inr p"
  shows "\<exists>s a b c alg. tok = Some s \<and> js_split CHR ''.'' s = [a, b, c] \<and> decode_alg env a = Some alg \<and>
     alg \<in> set algs \<and> decode_payload env b = Some p \<and> rs256_valid env key (a @ ''.'' @ b) c \<and>
     (case jwt_exp p of None \<Rightarrow> True | Some e \<Rightarrow> now div 1000 < e)"
proof -
  obtain s where s: "tok = Some s" using assms by (cases tok) (auto simp: jwt_verify_def)
  have l: "length (js_split CHR ''.'' s) = 3"
    using assms s by (auto simp: jwt_verify_def Let_def split: if_splits)
  then obtain a b c where abc: "js_split CHR ''.'' s = [a, b, c]" using three_parts by blast
  have ne: "s \<noteq> []" using assms s by (auto simp: jwt_verify_def)
  obtain alg q where d: "decode_alg env a = Some alg" "decode_payload env b = Some q"
    using assms s abc ne by (auto simp: jwt_verify_def Let_def split: option.splits)
  from assms s abc ne d have "q = p \<and> alg \<in> set algs \<and> rs256_valid env key (a @ ''.'' @ b) c \<and>
      (case jwt_exp p of None \<Rightarrow> True | Some e \<Rightarrow> now div 1000 < e)"
    by (auto simp: jwt_verify_def Let_def split: if_splits option.splits)
  then show ?thesis using s abc d by blast
qed

text \<open>C20: A header verifies only if it is a bearer header whose token has three dot-separated parts, an RS256 header, a signature valid under the embedded certificate and an unexpired exp.\<close>

theorem verify_allow_sound:
  "verifyToken env now hdr = Inr p \<Longrightarrow>
   \<exists>h tok a b c. hdr = Some h \<and> getToken hdr = Inr (Some tok) \<and> js_split CHR ''.'' tok = [a, b, c] \<and>
     decode_alg env a = Some ''RS256'' \<and> decode_payload env b = Some p \<and>
     rs256_valid env cert (a @ ''.'' @ b) c \<and> (case jwt_exp p of None \<Rightarrow> True | Some e \<Rightarrow> now div 1000 < e)"
proof -
  assume v: "verifyToken env now hdr = Inr p"
  then obtain tok where gt: "getToken hdr = Inr tok" and jv: "jwt_verify env cert [''RS256''] now tok = Inr p"
    by (auto simp: verifyToken_def split: sum.splits)
  from gt obtain h where h: "hdr = Some h"
    by (cases hdr) (auto simp: getToken_def js_falsy_str_def)
  from jwt_verify_Inr [OF jv] gt h show ?thesis by auto
qed

lemma verifyToken_Inr:
  "verifyToken env now hdr = Inr p \<Longrightarrow>
   \<exists>tok. getToken hdr = Inr tok \<and> jwt_verify env cert [''RS256''] now tok = Inr p"
  by (auto simp: verifyToken_def split: sum.splits)

text \<open>C23: A missing header, a header not starting with 'bearer ' in any case, or a token whose signature the embedded certificate rejects all yield a Deny policy.\<close>

theorem deny_spec_cases:
  "hdr = None \<or> (\<exists>h. hdr = Some h \<and> \<not> js_startsWith (js_toLowerCase h) ''bearer '') \<or>
   (\<exists>tok a b c. getToken hdr = Inr (Some tok) \<and> js_split CHR ''.'' tok = [a, b, c] \<and>
      \<not> rs256_valid env cert (a @ ''.'' @ b) c) \<Longrightarrow>
   st_effect (hd (pd_statement (policyDocument (fst (handler env hdr w))))) = Deny"
proof -
  assume c: "hdr = None \<or> (\<exists>h. hdr = Some h \<and> \<not> js_startsWith (js_toLowerCase h) ''bearer '') \<or>
   (\<exists>tok a b c. getToken hdr = Inr (Some tok) \<and> js_split CHR ''.'' tok = [a, b, c] \<and>
      \<not> rs256_valid env cert (a @ ''.'' @ b) c)"
  have "\<not> (\<exists>p. verifyToken env (clock w) hdr = Inr p)"
  proof
    assume "\<exists>p. verifyToken env (clock w) hdr = Inr p"
    then obtain p tok where g: "getToken hdr = Inr tok" and j: "jwt_verify env cert [''RS256''] (clock w) tok = Inr p"
      by (blast dest: verifyToken_Inr)
    from jwt_verify_Inr [OF j] obtain s a b c alg where
      v: "tok = Some s" "js_split CHR ''.'' s = [a, b, c]" "rs256_valid env cert (a @ ''.'' @ b) c"
      by blast
    from c g v show False by (auto simp: getToken_def js_falsy_str_def split: if_splits)
  qed
  then show ?thesis by (auto simp: handler_result policy_def split: sum.split)
qed

subsection \<open>Examples\<close>

theorem getToken_bearer_witness: "getToken (Some ''Bearer abc.def.ghi'') = Inr (Some ''abc.def.ghi'')"
proof -
  have "js_toLowerCase ''Bearer'' = ''bearer''" by code_simp
  from getToken_bearer [OF this, of "''abc.def.ghi''"] show ?thesis by simp
qed

theorem handler_deny_on_error_witness:
  "fst (handler \<lparr>decode_alg = (\<lambda>_. None), decode_payload = (\<lambda>_. None), rs256_valid = (\<lambda>_ _ _. False)\<rparr> None \<lparr>table = [], available = True, clock = 0, rng = 0, logs = []\<rparr>) =
   \<lparr>principalId = Some ''user'', policyDocument = policy Deny\<rparr>"
  using handler_deny_on_error [of "\<lparr>decode_alg = (\<lambda>_. None), decode_payload = (\<lambda>_. None), rs256_valid = (\<lambda>_ _ _. False)\<rparr>" "\<lparr>table = [], available = True, clock = 0, rng = 0, logs = []\<rparr>" None NoAuthenticationHeader]
  by (simp add: verifyToken_def getToken_def js_falsy_str_def)

theorem verify_allow_sound_witness:
  "\<exists>h tok a b c. Some ''Bearer h.p.s'' = Some h \<and> js_split CHR ''.'' tok = [a, b, c] \<and> rs256_valid
     \<lparr>decode_alg = (\<lambda>_. Some ''RS256''), decode_payload = (\<lambda>_. Some \<lparr>jwt_sub = Some ''u1'', jwt_exp = None\<rparr>),
      rs256_valid = (\<lambda>k m s. k = cert \<and> s = ''s'')\<rparr> cert (a @ ''.'' @ b) c"
proof -
  let ?env = "\<lparr>decode_alg = (\<lambda>_. Some ''RS256''), decode_payload = (\<lambda>_. Some \<lparr>jwt_sub = Some ''u1'', jwt_exp = None\<rparr>),
      rs256_valid = (\<lambda>k m s. k = cert \<and> s = ''s'')\<rparr>"
  have "getToken (Some ''Bearer h.p.s'') = Inr (Some ''h.p.s'')" by code_simp
  then have "verifyToken ?env 0 (Some ''Bearer h.p.s'') = Inr \<lparr>jwt_sub = Some ''u1'', jwt_exp = None\<rparr>"
    by (simp add: verifyToken_def jwt_verify_def js_whitespace_def)
  from verify_allow_sound [OF this] show ?thesis by blast
qed

theorem deny_spec_cases_witness:
  "st_effect (hd (pd_statement (policyDocument (fst (handler \<lparr>decode_alg = (\<lambda>_. Some ''RS256''), decode_payload = (\<lambda>_. Some \<lparr>jwt_sub = Some ''u1'', jwt_exp = None\<rparr>), rs256_valid = (\<lambda>_ _ _. False)\<rparr> (Some ''Bearer h.p.s'') \<lparr>table = [], available = True, clock = 0, rng = 0, logs = []\<rparr>))))) = Deny"
proof -
  have g: "getToken (Some ''Bearer h.p.s'') = Inr (Some ''h.p.s'')" by code_simp
  have s: "js_split CHR ''.'' ''h.p.s'' = [''h'', ''p'', ''s'']" by simp
  show ?thesis
    by (rule deny_spec_cases) (use g s in auto)
qed

end
