(* ===== verification/Http.thy ===== *)
theory Http
  imports Todos Auth
begin

text \<open>
  The HTTP boundary of the service.  The lambda handlers under \<open>lambda/http/\<close> are
  code of the repository outside \<open>src/\<close>; they are modelled from the interface table
  of the specification (section 6): each handler calls one business function of
  \<open>helpers/todos.ts\<close> for the caller and turns its outcome into a status code and a
  JSON body (list 200 \<open>{items}\<close>, create 201 \<open>{item}\<close>, update and delete 200 with
  an empty body, upload 200 \<open>{uploadUrl}\<close>; a validation error 400, a failed
  conditional check 404, a store or configuration failure 500).

  \<open>serve\<close> dispatches a request that already names its user; \<open>gateway\<close> is the
  path of a request through the API: the authorizer (\<open>Auth.handler\<close>) runs first on the
  request's \<open>Authorization\<close> header; a \<open>Deny\<close> policy ends the request with 403 and
  the handler never runs; an \<open>Allow\<close> policy passes its principal to the handler as the
  owner.  An authorizer result without a principal is refused by the API with 500
  before any handler runs.
\<close>

datatype request =
    ListTodos user_id
  | CreateTodo create_request user_id
  | UpdateTodo update_request user_id todo_id
  | DeleteTodo user_id todo_id
  | UploadUrl todo_id user_id

datatype response = Items "item list" | Created todo_item | Updated | Deleted | Url string | Failed error

definition respond :: "('a \<Rightarrow> response) \<Rightarrow> (error + 'a) \<times> world \<Rightarrow> response \<times> world" where
  "respond f rw = (case fst rw of Inl e \<Rightarrow> Failed e | Inr x \<Rightarrow> f x, snd rw)"

fun serve :: "config \<Rightarrow> request \<Rightarrow> world \<Rightarrow> response \<times> world" where
  "serve cfg (ListTodos u) w = respond Items (getTodos u w)"
| "serve cfg (CreateTodo req u) w = respond Created (createTodo req u w)"
| "serve cfg (UpdateTodo req u i) w = respond (\<lambda>_. Updated) (updateTodo req u i w)"
| "serve cfg (DeleteTodo u i) w = respond (\<lambda>_. Deleted) (deleteTodo u i w)"
| "serve cfg (UploadUrl i u) w = respond Url (generateUploadUrl cfg i u w)"

fun owner :: "request \<Rightarrow> user_id" where
  "owner (ListTodos u) = u"
| "owner (CreateTodo _ u) = u"
| "owner (UpdateTodo _ u _) = u"
| "owner (DeleteTodo u _) = u"
| "owner (UploadUrl _ u) = u"

datatype json_body = JItems "item list" | JItem todo_item | JUploadUrl string | JEmpty

record http_response =
  statusCode :: nat
  body :: json_body

definition status_of_error :: "error \<Rightarrow> nat" where
  "status_of_error e =
     (case e of
        ValidationException \<Rightarrow> 400
      | ConditionalCheckFailedException \<Rightarrow> 404
      | ServiceUnavailable \<Rightarrow> 500
      | InvalidExpiryTime \<Rightarrow> 500
      | RangeError \<Rightarrow> 500)"

fun render :: "response \<Rightarrow> http_response" where
  "render (Items its) = \<lparr>statusCode = 200, body = JItems its\<rparr>"
| "render (Created t) = \<lparr>statusCode = 201, body = JItem t\<rparr>"
| "render Updated = \<lparr>statusCode = 200, body = JEmpty\<rparr>"
| "render Deleted = \<lparr>statusCode = 200, body = JEmpty\<rparr>"
| "render (Url u) = \<lparr>statusCode = 200, body = JUploadUrl u\<rparr>"
| "render (Failed e) = \<lparr>statusCode = status_of_error e, body = JEmpty\<rparr>"

text \<open>A request as the client sends it: the action and its path and body; the user is
  not part of it but comes from the authorizer.\<close>

datatype action =
    ListA
  | CreateA create_request
  | UpdateA update_request todo_id
  | DeleteA todo_id
  | UploadA todo_id

fun with_user :: "action \<Rightarrow> user_id \<Rightarrow> request" where
  "with_user ListA u = ListTodos u"
| "with_user (CreateA req) u = CreateTodo req u"
| "with_user (UpdateA req i) u = UpdateTodo req u i"
| "with_user (DeleteA i) u = DeleteTodo u i"
| "with_user (UploadA i) u = UploadUrl i u"

definition gateway ::
  "jwt_env \<Rightarrow> config \<Rightarrow> string option \<Rightarrow> action \<Rightarrow> world \<Rightarrow> http_response \<times> world" where
  "gateway env cfg hdr act w =
     (let (ar, w1) = handler env hdr w
      in if st_effect (hd (pd_statement (policyDocument ar))) = Deny
         then (\<lparr>statusCode = 403, body = JEmpty\<rparr>, w1)
         else (case principalId ar of
                 None \<Rightarrow> (\<lparr>statusCode = 500, body = JEmpty\<rparr>, w1)
               | Some u \<Rightarrow> (let (r, w2) = serve cfg (with_user act u) w1 in (render r, w2))))"

text \<open>A verifier environment for examples: every token part decodes, the payload names
  subject \<open>u1\<close> and has no expiry, and every signature is valid.\<close>

definition demo_env :: jwt_env where
  "demo_env = \<lparr>decode_alg = (\<lambda>_. Some ''RS256''),
                decode_payload = (\<lambda>_. Some \<lparr>jwt_sub = Some ''u1'', jwt_exp = None\<rparr>),
                rs256_valid = (\<lambda>_ _ _. True)\<rparr>"

subsection \<open>Behaviour of the boundary\<close>

lemma owner_with_user [simp]: "owner (with_user act u) = u"
  by (cases act) simp_all

lemma serve_frame: "fst k \<noteq> owner r \<Longrightarrow> tab_map (table (snd (serve cfg r w))) k = tab_map (table w) k"
  by (cases r) (simp_all add: respond_def handlers_frame)

lemma handler_world [simp]:
  "table (snd (handler env hdr w)) = table w" "clock (snd (handler env hdr w)) = clock w"
  "rng (snd (handler env hdr w)) = rng w" "available (snd (handler env hdr w)) = available w"
  by (simp_all add: handler_def Let_def log_info_def split: sum.split)

lemma handler_verified:
  "fst (handler env hdr w) = \<lparr>principalId = (case verifyToken env (clock w) hdr of Inl _ \<Rightarrow> Some ''user'' | Inr p \<Rightarrow> jwt_sub p),
                              policyDocument = policy (case verifyToken env (clock w) hdr of Inl _ \<Rightarrow> Deny | Inr _ \<Rightarrow> Allow)\<rparr>"
  by (simp add: handler_def Let_def log_info_def split: sum.split)

lemma gateway_denied_result:
  "verifyToken env (clock w) hdr = Inl e \<Longrightarrow>
   gateway env cfg hdr act w = (\<lparr>statusCode = 403, body = JEmpty\<rparr>, snd (handler env hdr w))"
  by (simp add: gateway_def case_prod_beta handler_verified policy_def)

lemma gateway_allowed:
  "verifyToken env (clock w) hdr = Inr p \<Longrightarrow> jwt_sub p = Some u \<Longrightarrow>
   gateway env cfg hdr act w = (render (fst (serve cfg (with_user act u) (snd (handler env hdr w)))),
                                snd (serve cfg (with_user act u) (snd (handler env hdr w))))"
  by (simp add: gateway_def case_prod_beta handler_verified policy_def)

lemma gateway_no_principal:
  "verifyToken env (clock w) hdr = Inr p \<Longrightarrow> jwt_sub p = None \<Longrightarrow>
   gateway env cfg hdr act w = (\<lparr>statusCode = 500, body = JEmpty\<rparr>, snd (handler env hdr w))"
  by (simp add: gateway_def case_prod_beta handler_verified policy_def)

lemma serve_create:
  "fst (serve cfg (CreateTodo req u) w) = Created t \<Longrightarrow> fst (createTodo req u w) = Inr t"
  by (auto simp: respond_def split: sum.splits)

lemma render_created: "render r = \<lparr>statusCode = 201, body = JItem t\<rparr> \<Longrightarrow> r = Created t"
  by (cases r) (auto simp: status_of_error_def split: error.splits)

lemma verify_demo_header:
  "jwt_exp p = None \<Longrightarrow>
   verifyToken \<lparr>decode_alg = (\<lambda>_. Some ''RS256''), decode_payload = (\<lambda>_. Some p), rs256_valid = (\<lambda>_ _ _. True)\<rparr>
     n (Some ''Bearer h.p.s'') = Inr p"
proof -
  assume e: "jwt_exp p = None"
  have g: "getToken (Some ''Bearer h.p.s'') = Inr (Some ''h.p.s'')" by code_simp
  show ?thesis
    using e by (simp add: verifyToken_def g jwt_verify_def js_whitespace_def)
qed

text \<open>C7: A request through the API changes the items of user u only if its Authorization header verifies as a token whose subject is u: every other user's items are untouched.\<close>

theorem gateway_isolation:
  "(\<forall>p. verifyToken env (clock w) hdr = Inr p \<longrightarrow> jwt_sub p \<noteq> Some (fst k)) \<Longrightarrow>
   tab_map (table (snd (gateway env cfg hdr act w))) k = tab_map (table w) k"
proof (cases "verifyToken env (clock w) hdr")
  case (Inl e)
  then show ?thesis by (simp add: gateway_denied_result)
next
  case (Inr p)
  assume h: "\<forall>p. verifyToken env (clock w) hdr = Inr p \<longrightarrow> jwt_sub p \<noteq> Some (fst k)"
  show ?thesis
  proof (cases "jwt_sub p")
    case None
    with Inr show ?thesis by (simp add: gateway_no_principal)
  next
    case (Some u)
    with h Inr have "fst k \<noteq> owner (with_user act u)" by auto
    with Inr Some show ?thesis by (simp add: gateway_allowed serve_frame)
  qed
qed

text \<open>C9: If a create request through the API answers 201 with item t, the header verified as a token whose subject is t's userId and t is stored under that user.\<close>

theorem gateway_create_owner:
  "fst (gateway env cfg hdr (CreateA req) w) = \<lparr>statusCode = 201, body = JItem t\<rparr> \<Longrightarrow>
   \<exists>p. verifyToken env (clock w) hdr = Inr p \<and> jwt_sub p = Some (userId t) \<and>
       tab_map (table (snd (gateway env cfg hdr (CreateA req) w))) (userId t, todoId t) = Some (marshall_todo t)"
proof (cases "verifyToken env (clock w) hdr")
  case (Inl e)
  moreover assume "fst (gateway env cfg hdr (CreateA req) w) = \<lparr>statusCode = 201, body = JItem t\<rparr>"
  ultimately show ?thesis by (simp add: gateway_denied_result)
next
  case (Inr p)
  assume g: "fst (gateway env cfg hdr (CreateA req) w) = \<lparr>statusCode = 201, body = JItem t\<rparr>"
  show ?thesis
  proof (cases "jwt_sub p")
    case None
    with Inr g show ?thesis by (simp add: gateway_no_principal)
  next
    case (Some u)
    let ?w1 = "snd (handler env hdr w)"
    from Inr Some g have "fst (createTodo req u ?w1) = Inr t"
      by (simp add: gateway_allowed serve_create render_created)
    moreover have "snd (gateway env cfg hdr (CreateA req) w) = snd (createTodo req u ?w1)"
      using Inr Some by (simp add: gateway_allowed respond_def)
    ultimately show ?thesis using Inr Some createTodo_Inr [of req u ?w1 t] by auto
  qed
qed

lemma serve_outage:
  "\<not> available w \<Longrightarrow>
   (\<exists>e. fst (serve cfg r w) = Failed e \<and> status_of_error e = 500) \<and> table (snd (serve cfg r w)) = table w"
proof (cases r)
  case (ListTodos u)
  assume "\<not> available w"
  then show ?thesis using ListTodos
    by (simp add: respond_def getTodos_def getTodos_access_def store_read_def status_of_error_def Let_def)
next
  case (CreateTodo req u)
  assume "\<not> available w"
  then show ?thesis using CreateTodo
    by (simp add: respond_def createTodo_def createTodo_access_def store_write_unavailable status_of_error_def Let_def
        split: option.split)
next
  case (UpdateTodo req u i)
  assume "\<not> available w"
  then show ?thesis using UpdateTodo
    by (simp add: respond_def updateTodo_def updateTodo_access_def store_write_unavailable status_of_error_def Let_def
        split: option.split)
next
  case (DeleteTodo u i)
  assume "\<not> available w"
  then show ?thesis using DeleteTodo
    by (simp add: respond_def deleteTodo_def deleteTodo_access_def store_write_unavailable status_of_error_def)
next
  case (UploadUrl i u)
  assume "\<not> available w"
  then show ?thesis using UploadUrl
    by (auto simp add: respond_def generateUploadUrl_def generateUploadUrl_attach_def store_write_unavailable
        status_of_error_def Let_def getSignedUploadUrl_def presign_put_def presign_expires_def
        split: sum.split option.split if_splits)
qed

text \<open>C14: While the store is unavailable, every authorized request through the API, whatever its action, answers 500 and leaves the table unchanged: store and configuration errors propagate unchanged to the boundary.\<close>

theorem gateway_outage:
  "\<not> available w \<Longrightarrow> verifyToken env (clock w) hdr = Inr p \<Longrightarrow> jwt_sub p = Some u \<Longrightarrow>
   statusCode (fst (gateway env cfg hdr act w)) = 500 \<and> table (snd (gateway env cfg hdr act w)) = table w"
proof -
  assume d: "\<not> available w" and v: "verifyToken env (clock w) hdr = Inr p" "jwt_sub p = Some u"
  have "\<not> available (snd (handler env hdr w))" using d by simp
  from serve_outage [OF this, of cfg "with_user act u"] obtain e where
    "fst (serve cfg (with_user act u) (snd (handler env hdr w))) = Failed e" "status_of_error e = 500"
    "table (snd (serve cfg (with_user act u) (snd (handler env hdr w)))) = table w"
    by auto
  with v show ?thesis by (simp add: gateway_allowed)
qed

subsection \<open>Examples\<close>

lemma demo_env_verifies: "verifyToken demo_env n (Some ''Bearer h.p.s'') = Inr \<lparr>jwt_sub = Some ''u1'', jwt_exp = None\<rparr>"
  unfolding demo_env_def by (rule verify_demo_header) simp

theorem gateway_isolation_witness:
  "tab_map (table (snd (gateway demo_env demo_cfg (Some ''Bearer h.p.s'') (DeleteA ''t1'') \<lparr>table = [], available = True, clock = 0, rng = 0, logs = []\<rparr>))) (''u2'', ''t1'') =
   tab_map (table \<lparr>table = [], available = True, clock = 0, rng = 0, logs = []\<rparr>) (''u2'', ''t1'')"
  using gateway_isolation [of demo_env "\<lparr>table = [], available = True, clock = 0, rng = 0, logs = []\<rparr>" "Some ''Bearer h.p.s''" "(''u2'', ''t1'')" demo_cfg "DeleteA ''t1''"]
  by (simp add: demo_env_verifies)

theorem gateway_create_owner_witness:
  "\<exists>p. verifyToken demo_env 0 (Some ''Bearer h.p.s'') = Inr p \<and> jwt_sub p = Some ''u1'' \<and>
     tab_map (table (snd (gateway demo_env demo_cfg (Some ''Bearer h.p.s'') (CreateA \<lparr>cr_name = ''Buy milk'', cr_dueDate = ''2024-01-01''\<rparr>) \<lparr>table = [], available = True, clock = 0, rng = 0, logs = []\<rparr>)))
       (''u1'', uuid_v4 0) = Some (marshall_todo (new_todo \<lparr>cr_name = ''Buy milk'', cr_dueDate = ''2024-01-01''\<rparr> ''u1'' (uuid_v4 0) (the (js_toISOString 0))))"
proof -
  let ?t = "new_todo \<lparr>cr_name = ''Buy milk'', cr_dueDate = ''2024-01-01''\<rparr> ''u1'' (uuid_v4 0) (the (js_toISOString 0))"
  let ?w1 = "snd (handler demo_env (Some ''Bearer h.p.s'') \<lparr>table = [], available = True, clock = 0, rng = 0, logs = []\<rparr>)"
  have "fst (createTodo \<lparr>cr_name = ''Buy milk'', cr_dueDate = ''2024-01-01''\<rparr> ''u1'' ?w1) = Inr ?t"
    using createTodo_succeeds [of ?w1 "''u1''" "the (js_toISOString 0)" "\<lparr>cr_name = ''Buy milk'', cr_dueDate = ''2024-01-01''\<rparr>"]
    by (simp add: js_toISOString_def max_time_def Let_def)
  then have "fst (gateway demo_env demo_cfg (Some ''Bearer h.p.s'') (CreateA \<lparr>cr_name = ''Buy milk'', cr_dueDate = ''2024-01-01''\<rparr>) \<lparr>table = [], available = True, clock = 0, rng = 0, logs = []\<rparr>) = \<lparr>statusCode = 201, body = JItem ?t\<rparr>"
    by (simp add: gateway_allowed [OF demo_env_verifies] respond_def)
  from gateway_create_owner [OF this] show ?thesis
    by (simp add: demo_env_verifies new_todo_def)
qed

theorem gateway_outage_witness:
  "statusCode (fst (gateway demo_env demo_cfg (Some ''Bearer h.p.s'') (CreateA \<lparr>cr_name = ''Buy milk'', cr_dueDate = ''2024-01-01''\<rparr>) \<lparr>table = [], available = False, clock = 0, rng = 0, logs = []\<rparr>)) = 500"
  using gateway_outage [of "\<lparr>table = [], available = False, clock = 0, rng = 0, logs = []\<rparr>" demo_env "Some ''Bearer h.p.s''" "\<lparr>jwt_sub = Some ''u1'', jwt_exp = None\<rparr>" "''u1''" demo_cfg "CreateA \<lparr>cr_name = ''Buy milk'', cr_dueDate = ''2024-01-01''\<rparr>"]
  by (simp add: demo_env_verifies)

end
