(* ===== verification/Spec2Isabelle.thy ===== *)
theory Spec2Isabelle
  imports Http
begin

text \<open>
  \<^bold>\<open>A verified model of the serverless to-do backend.\<close>

  The program (\<open>src/course-04/project/c4-final-project-starter-code/\<close>) is a set of
  request handlers over a key-value table, an object store for attachments, and a
  token authorizer.  A request passes the authorizer, then an HTTP handler calls one
  function of the business layer (\<open>helpers/todos.ts\<close>), which calls the data layer
  (\<open>helpers/todosAcess.ts\<close>) or the attachment helper
  (\<open>helpers/attachmentUtils.ts\<close>), each awaiting one call of a managed service.
  The parts and the theories that model them, in the order of the imports:
  \<^item> \<open>Prelude\<close>: the development's rule collections (\<open>js_simps\<close>, \<open>store_simps\<close>),
    the key types, and list lemmas the store shares.
  \<^item> \<open>JsRuntime\<close>: the JavaScript string operations the sources call (\<open>split\<close>,
    \<open>join\<close>, indexing, \<open>toLowerCase\<close>, \<open>startsWith\<close>, truthiness, \<open>parseInt\<close>,
    decimal rendering), with the round trips split/join and parseInt/render.
  \<^item> \<open>Clock\<close>: \<open>new Date().toISOString()\<close> by the ECMAScript calendar, and the SigV4
    \<open>X-Amz-Date\<close> derived from it; bounds of every calendar field, the shape of the ISO
    string (24 characters up to year 9999), the round trip through \<open>Date.UTC\<close>, and
    that the \<open>X-Amz-Date\<close> string determines the second it was taken in (its fields
    are fixed-width and each decodes back to its number).
  \<^item> \<open>Model\<close>: \<open>TodoItem\<close>, \<open>TodoUpdate\<close> and the request records (interfaces of
    the repository outside \<open>src/\<close>), stored items as attribute lists, marshalling
    and its round trip, errors, log entries, and the \<open>world\<close>: table, store
    availability, clock, random draws, log.
  \<^item> \<open>Store\<close>: the managed table (a service the code calls, modelled from its
    documented behaviour): get, put, conditional/unconditional update, delete and the
    paged query, with key validation; the table refines a map (\<open>tab_map\<close>, one
    refinement lemma per operation), keeps its invariant \<open>tab_inv\<close> (sorted, valid
    keys, well-formed items), and each write touches only the key it names.
  \<^item> \<open>Access\<close>: class \<open>TodosAccess\<close> (\<open>getTodos_access\<close>, \<open>createTodo_access\<close>,
    \<open>updateTodo_access\<close>, \<open>deleteTodo_access\<close>), each a function from the world to its
    result and new world.  The update refines \<open>todo_update_spec\<close>, what the update
    of a todo promises on the attributes of the stored items (\<open>attr_view\<close>), written
    independently of the update expression; delete refines the removal of the key
    from the map with the same errors; a created item reads back as the same \<open>TodoItem\<close>; the update
    expression is the record update of name, due date and done flag; the conditional
    update fails exactly on absent items; delete is idempotent; a query returns the
    whole partition in key order only when it fits one 1 MB page.
  \<^item> \<open>Uuid\<close>: \<open>uuid.v4()\<close>; a decoder inverts it on the first \<open>2^62\<close> draws, so
    distinct draws give distinct identifiers.
  \<^item> \<open>S3\<close>: the SDK presigner (\<open>getSignedUrl('putObject')\<close>), with its default and
    maximum expiry; \<open>Attachment\<close>: \<open>getSignedUploadUrl\<close> and
    \<open>generateUploadUrl_attach\<close>.  The recorded URL is the object URL, whatever the
    clock and the expiry; on an absent item the unconditional update creates an
    item that is not a \<open>TodoItem\<close>.
  \<^item> \<open>Todos\<close>: \<open>getTodos\<close>, \<open>createTodo\<close>, \<open>updateTodo\<close>, \<open>deleteTodo\<close>,
    \<open>generateUploadUrl\<close> with their log lines; the behaviour of each on success and on
    each error, the identifier a create assigns, the format of
    \<open>createdAt\<close>, the upload URL (the object key is the todo id, and the URL is the
    same on every call), and that a call for one user changes no other user's items.
    Sequences of operations: after a create, an update of the new todo stores exactly
    the record update of it, an upload URL request stores exactly the todo with its
    attachment URL, and a list returns it when the user's items fit one page.
  \<^item> \<open>Auth\<close>: \<open>lambda/auth/auth0Authorizer.ts\<close> (\<open>cert\<close>, \<open>getToken\<close>,
    \<open>verifyToken\<close>, \<open>handler\<close>) over a model of \<open>jsonwebtoken.verify\<close>; the
    decision is Allow exactly when verification succeeds, and then the token is an
    RS256 token whose signature the certificate's key accepts and which has not expired;
    a missing header, a missing bearer prefix or a rejected signature each give Deny.
  \<^item> \<open>Http\<close>: the HTTP handlers (\<open>lambda/http/\<close>, outside \<open>src/\<close>, from the
    interface table of the specification): \<open>serve\<close> dispatches a request, \<open>render\<close>
    gives its status and body; \<open>gateway\<close> is the whole path of a request: authorizer,
    then the handler with the token's subject as owner.  A denied request changes
    nothing and gets 403; a request changes only the items of the verified subject; a
    201 create stores the item under that subject; a token without subject gets 500;
    while the store is down every authorized request gets 500 and changes nothing.
  \<^item> This theory: environment events (clock ticks, store outages and recoveries), runs,
    and the worlds reachable from an empty table without an upload request for a
    missing todo (\<open>typed_reachable\<close>).  The identifiers created in a run are pairwise
    distinct, and every item of such a world is a \<open>TodoItem\<close>; the upload request
    left out stores, on a missing todo, an item that is not (theory \<open>Attachment\<close>).

  The main properties of the development are the theorems preceded by a text naming
  their claim (C1, C2, ...), the most important first: the update and create contracts,
  unique identifiers, the attachment behaviour, isolation of users
  through the API, well-typed items, refinement of the data layer, the authorizer's
  decision, the query's paging and the URL expiry.

  Bounds: a query page is 1 MB of item data (\<open>page_limit\<close>), item size counted as
  attribute names plus string lengths; identifiers are distinct below \<open>2^62\<close> draws,
  the range where the version and variant bits of \<open>uuid.v4\<close> are zero in the draw;
  times are \<open>nat\<close> milliseconds up to the ECMAScript limit \<open>8.64e15\<close>; the ISO
  format is stated for years up to 9999 (beyond, \<open>toISOString\<close> writes a six-digit
  signed year, and the date fields no longer have a fixed width).  No fuel is
  needed and no termination property is stated: the code has no loop, and every
  recursive function of the model is structural or has a measure, so its totality
  is checked when it is defined.

  Not modelled: the constructors of \<open>TodosAccess\<close> and \<open>AttachmentUtil\<close> and the
  module-level clients (the table, bucket and expiry read from \<open>process.env\<close>):
  configuration loading is out of the specification's scope, and the model takes the
  table as configured, with the bucket and the expiry as the fields of \<open>config\<close>;
  the logger module (outside \<open>src/\<close>; the log is modelled as the list
  of messages the code writes), request parsing and CORS headers of the HTTP handlers
  (the specification gives only their statuses and bodies), the client
  (\<open>client/src/config.ts\<close> holds constants only), the cryptography (HMAC and RSA are
  functions of the environment records), the marshalling of numbers, and concurrency
  between invocations (each handler performs at most one store call, so an invocation
  is one atomic step of the world).
\<close>

datatype event = Request request | Tick nat | Outage | Recover

fun step :: "config \<Rightarrow> event \<Rightarrow> world \<Rightarrow> response option \<times> world" where
  "step cfg (Request r) w = (let (resp, w') = serve cfg r w in (Some resp, w'))"
| "step cfg (Tick n) w = (None, w\<lparr>clock := clock w + n\<rparr>)"
| "step cfg Outage w = (None, w\<lparr>available := False\<rparr>)"
| "step cfg Recover w = (None, w\<lparr>available := True\<rparr>)"

fun run :: "config \<Rightarrow> event list \<Rightarrow> world \<Rightarrow> response list \<times> world" where
  "run cfg [] w = ([], w)"
| "run cfg (e # es) w =
     (let (r, w1) = step cfg e w; (rs, w2) = run cfg es w1
      in ((case r of None \<Rightarrow> rs | Some x \<Rightarrow> x # rs), w2))"

definition init_world :: "bool \<Rightarrow> nat \<Rightarrow> nat \<Rightarrow> world" where
  "init_world a c r = \<lparr>table = [], available = a, clock = c, rng = r, logs = []\<rparr>"

fun created :: "response list \<Rightarrow> todo_item list" where
  "created [] = []"
| "created (Created t # rs) = t # created rs"
| "created (_ # rs) = created rs"

text \<open>The one event that can store an item that is not a \<open>TodoItem\<close>: an upload URL
  request for a todo that does not exist.  The worlds reachable without it keep every
  item a \<open>TodoItem\<close>.\<close>

fun upload_on_absent :: "event \<Rightarrow> world \<Rightarrow> bool" where
  "upload_on_absent (Request (UploadUrl i u)) w = (tab_get (u, i) (table w) = None)"
| "upload_on_absent _ w = False"

inductive typed_reachable :: "config \<Rightarrow> world \<Rightarrow> bool" for cfg where
  init: "typed_reachable cfg (init_world a c r)"
| step: "typed_reachable cfg w \<Longrightarrow> \<not> upload_on_absent e w \<Longrightarrow> typed_reachable cfg (snd (step cfg e w))"


lemma store_write_rng [simp]: "rng (snd (store_write op w)) = rng w"
  by (simp add: store_write_def split: sum.split)

lemma store_write_rng_eq: "store_write op w = (r, w') \<Longrightarrow> rng w' = rng w"
  using store_write_rng [of op w] by simp

lemma createTodo_access_rng: "createTodo_access todo w = (r, w') \<Longrightarrow> rng w' = rng w"
  by (auto simp: createTodo_access_def Let_def split: prod.splits dest: arg_cong [where f = "\<lambda>x. rng (snd x)"])

lemma rng_handlers:
  "rng (snd (getTodos u w)) = rng w"
  "rng (snd (createTodo req u w)) = Suc (rng w)"
  "rng (snd (updateTodo ureq u i w)) = rng w"
  "rng (snd (deleteTodo u i w)) = rng w"
  "rng (snd (generateUploadUrl cfg i u w)) = rng w"
proof -
  show "rng (snd (getTodos u w)) = rng w"
    by (simp add: getTodos_def getTodos_access_def Let_def)
  show "rng (snd (createTodo req u w)) = Suc (rng w)"
    by (auto simp: createTodo_def Let_def split: option.split prod.split sum.split dest: createTodo_access_rng)
  show "rng (snd (updateTodo ureq u i w)) = rng w"
    by (auto simp: updateTodo_def updateTodo_access_def Let_def split: option.split prod.split sum.split
        dest: store_write_rng_eq)
  show "rng (snd (deleteTodo u i w)) = rng w"
    by (auto simp: deleteTodo_def deleteTodo_access_def split: prod.split sum.split dest: store_write_rng_eq)
  show "rng (snd (generateUploadUrl cfg i u w)) = rng w"
    by (auto simp: generateUploadUrl_def generateUploadUrl_attach_def Let_def split: prod.split sum.split
        dest: store_write_rng_eq)
qed

lemma serve_created:
  "created [fst (serve cfg r w)] = [] \<or>
   (\<exists>t. created [fst (serve cfg r w)] = [t] \<and> todoId t = uuid_v4 (rng w))"
  by (cases r) (auto simp: respond_def dest: createTodo_draw split: sum.split)

lemma serve_rng: "rng (snd (serve cfg r w)) = rng w + (case r of CreateTodo _ _ \<Rightarrow> 1 | _ \<Rightarrow> 0)"
  by (cases r) (simp_all add: respond_def rng_handlers)

lemma serve_created_create: "created [fst (serve cfg r w)] \<noteq> [] \<Longrightarrow> \<exists>req u. r = CreateTodo req u"
  by (cases r) (auto simp: respond_def split: sum.splits)


lemma created_Cons: "created (x # rs) = created [x] @ created rs"
  by (cases x) simp_all

lemma step_rng_created:
  "rng (snd (step cfg e w)) = rng w + (case e of Request (CreateTodo _ _) \<Rightarrow> 1 | _ \<Rightarrow> 0) \<and>
   (created (case fst (step cfg e w) of None \<Rightarrow> [] | Some x \<Rightarrow> [x]) = [] \<or>
    (\<exists>t. created (case fst (step cfg e w) of None \<Rightarrow> [] | Some x \<Rightarrow> [x]) = [t] \<and>
         todoId t = uuid_v4 (rng w) \<and> rng (snd (step cfg e w)) = Suc (rng w)))"
proof (cases e)
  case (Request r)
  obtain resp w' where sv: "serve cfg r w = (resp, w')" by fastforce
  have "created [resp] \<noteq> [] \<Longrightarrow> rng w' = Suc (rng w)"
    using serve_created_create [of cfg r w] serve_rng [of cfg r w] sv by auto
  with Request sv serve_created [of cfg r w] serve_rng [of cfg r w] show ?thesis
    by (cases r) auto
qed simp_all

lemma run_created_draws:
  "\<exists>ds. map todoId (created (fst (run cfg es w))) = map uuid_v4 ds \<and> sorted_wrt (<) ds \<and>
     list_all (\<lambda>d. rng w \<le> d \<and> d < rng (snd (run cfg es w))) ds \<and>
     rng w \<le> rng (snd (run cfg es w)) \<and> rng (snd (run cfg es w)) \<le> rng w + length es"
proof (induction es arbitrary: w)
  case Nil
  show ?case by simp
next
  case (Cons e es)
  obtain r w1 where st: "step cfg e w = (r, w1)" by fastforce
  obtain rs w2 where rn: "run cfg es w1 = (rs, w2)" by fastforce
  from Cons.IH [of w1] rn obtain ds where ih: "map todoId (created rs) = map uuid_v4 ds" "sorted_wrt (<) ds"
    "list_all (\<lambda>d. rng w1 \<le> d \<and> d < rng w2) ds" "rng w1 \<le> rng w2" "rng w2 \<le> rng w1 + length es"
    by auto
  have res: "run cfg (e # es) w = ((case r of None \<Rightarrow> rs | Some x \<Rightarrow> x # rs), w2)"
    using st rn by simp
  have cr: "created (case r of None \<Rightarrow> rs | Some x \<Rightarrow> x # rs) =
      created (case r of None \<Rightarrow> [] | Some x \<Rightarrow> [x]) @ created rs"
    by (cases r) (simp_all add: created_Cons [of _ rs])
  have r1: "rng w1 \<le> Suc (rng w)" "rng w \<le> rng w1"
    using step_rng_created [of cfg e w] st by (auto split: event.splits request.splits)
  from step_rng_created [of cfg e w] st
  consider (none) "created (case r of None \<Rightarrow> [] | Some x \<Rightarrow> [x]) = []"
    | (one) t where "created (case r of None \<Rightarrow> [] | Some x \<Rightarrow> [x]) = [t]" "todoId t = uuid_v4 (rng w)"
        "rng w1 = Suc (rng w)"
    by auto
  then show ?case
  proof cases
    case none
    then show ?thesis using ih r1 res cr
      by (intro exI [of _ ds]) (auto simp: list_all_iff)
  next
    case one
    then show ?thesis using ih r1 res cr
      by (intro exI [of _ "rng w # ds"]) (auto simp: list_all_iff)
  qed
qed

text \<open>C3: In any run of requests, the todoIds createTodo assigns are pairwise distinct, as long as the random source is not exhausted.\<close>

theorem run_ids_distinct:
  "rng w + length es \<le> 2 ^ 62 \<Longrightarrow> distinct (map todoId (created (fst (run cfg es w))))"
proof -
  assume b: "rng w + length es \<le> 2 ^ 62"
  obtain ds where d: "map todoId (created (fst (run cfg es w))) = map uuid_v4 ds" "sorted_wrt (<) ds"
    "list_all (\<lambda>d. rng w \<le> d \<and> d < rng (snd (run cfg es w))) ds"
    "rng (snd (run cfg es w)) \<le> rng w + length es"
    using run_created_draws by blast
  have lt: "\<forall>x \<in> set ds. x < 2 ^ 62" using d(3,4) b by (auto simp: list_all_iff)
  have "inj_on uuid_v4 (set ds)"
  proof (rule inj_onI)
    fix x y assume "x \<in> set ds" "y \<in> set ds" "uuid_v4 x = uuid_v4 y"
    with lt show "x = y" using uuid_v4_unique by blast
  qed
  moreover have "distinct ds" using d(2) by (simp add: strict_sorted_iff)
  ultimately show ?thesis by (simp add: d(1) distinct_map)
qed

lemma step_typed:
  "list_all is_todo_item (table w) \<Longrightarrow> \<not> upload_on_absent e w \<Longrightarrow> list_all is_todo_item (table (snd (step cfg e w)))"
proof (cases e)
  case (Request r)
  assume "list_all is_todo_item (table w)" "\<not> upload_on_absent e w"
  then show ?thesis using Request
    by (cases r) (simp_all add: respond_def handlers_typed split: prod.split)
qed simp_all

text \<open>C8: In every world reachable without an upload-URL request for a missing todo, every stored item reads back as a TodoItem: create, update, delete, list and uploads on existing todos keep the table well-typed.\<close>

theorem typed_reachable_items: "typed_reachable cfg w \<Longrightarrow> list_all is_todo_item (table w)"
proof (induction rule: typed_reachable.induct)
  case (init a c r)
  show ?case by (simp add: init_world_def)
next
  case (step w e)
  then show ?case by (simp add: step_typed)
qed

subsection \<open>Examples\<close>

theorem run_ids_distinct_witness:
  "distinct (map todoId (created (fst (run demo_cfg
     [Request (CreateTodo \<lparr>cr_name = ''a'', cr_dueDate = ''d''\<rparr> ''u1''),
      Request (CreateTodo \<lparr>cr_name = ''b'', cr_dueDate = ''d''\<rparr> ''u1'')] (init_world True 0 0)))))"
  using run_ids_distinct [of "init_world True 0 0" "[Request (CreateTodo \<lparr>cr_name = ''a'', cr_dueDate = ''d''\<rparr> ''u1''),
      Request (CreateTodo \<lparr>cr_name = ''b'', cr_dueDate = ''d''\<rparr> ''u1'')]" demo_cfg]
  by (simp add: init_world_def)

theorem typed_reachable_items_witness:
  "list_all is_todo_item (table (snd (step demo_cfg (Request (DeleteTodo ''u1'' ''t1'')) (init_world True 0 0))))"
  using typed_reachable_items [OF typed_reachable.step [OF typed_reachable.init [of demo_cfg True 0 0],
      of "Request (DeleteTodo ''u1'' ''t1'')"]]
  by simp

end
